theory Spec2Isabelle
  imports Complex_Main
begin

section \<open>The regular expressions of app.js\<close>

text \<open>
  The wrapper (src/api-wrapper/app.js) reads everything it knows about a worker from text:
  identifiers and container names are found with regular expressions. The fragment of
  JavaScript regular expressions the file uses is small: literal characters (with or
  without the \<^verbatim>\<open>i\<close> flag), character classes under \<^verbatim>\<open>*\<close>, \<^verbatim>\<open>+\<close> or a fixed count, one
  capture group per pattern, \<^verbatim>\<open>$\<close>, and one alternation at the head of a pattern.
  A pattern is a list of atoms; the matcher below is the backtracking matcher of the
  language restricted to these atoms (greedy repetition, longest run tried first).

  Strings are \<^typ>\<open>string\<close>; a character stands for one code unit below 256.
\<close>

datatype cls =
    HexDash       \<comment> \<open>\<^verbatim>\<open>[A-F0-9-]\<close> under \<^verbatim>\<open>/i\<close>\<close>
  | NotHex        \<comment> \<open>\<^verbatim>\<open>[^A-F0-9]\<close> under \<^verbatim>\<open>/i\<close>\<close>
  | ColonSpace    \<comment> \<open>\<^verbatim>\<open>[: ]\<close>\<close>
  | WhiteSpace    \<comment> \<open>\<^verbatim>\<open>\s\<close>\<close>
  | DigitSemi     \<comment> \<open>\<^verbatim>\<open>[0-9;]\<close>\<close>
  | NameChar      \<comment> \<open>\<^verbatim>\<open>[A-Za-z0-9_.-]\<close>\<close>

definition ESC :: char where
  "ESC = CHR 0x1B"

definition DQ :: char where
  "DQ = CHR 0x22"

definition NL :: char where
  "NL = CHR 0x0A"

definition white_space :: "char list" where
  "white_space = [CHR 0x09, CHR 0x0A, CHR 0x0B, CHR 0x0C, CHR 0x0D, CHR 0x20, CHR 0xA0]"

fun in_cls :: "cls \<Rightarrow> char \<Rightarrow> bool" where
  "in_cls HexDash c = (c \<in> set ''ABCDEFabcdef0123456789-'')"
| "in_cls NotHex c = (c \<notin> set ''ABCDEFabcdef0123456789'')"
| "in_cls ColonSpace c = (c \<in> set '': '')"
| "in_cls WhiteSpace c = (c \<in> set white_space)"
| "in_cls DigitSemi c = (c \<in> set ''0123456789;'')"
| "in_cls NameChar c =
     (c \<in> set ''ABCDEFGHIJKLMNOPQRSTUVWXYZabcdefghijklmnopqrstuvwxyz0123456789_.-'')"

text \<open>Canonicalisation of the \<^verbatim>\<open>i\<close> flag: a letter a-z compares as its capital.\<close>

definition canon :: "char \<Rightarrow> char" where
  "canon c = (let n = (of_char c :: nat) in if 97 \<le> n \<and> n \<le> 122 then char_of (n - 32) else c)"

datatype atom =
    Chr char          \<comment> \<open>a literal character, compared exactly\<close>
  | ChrI char         \<comment> \<open>a literal character of a pattern with the \<^verbatim>\<open>i\<close> flag\<close>
  | Star cls          \<comment> \<open>\<^verbatim>\<open>[..]*\<close>\<close>
  | Plus cls          \<comment> \<open>\<^verbatim>\<open>[..]+\<close>\<close>
  | Group cls nat     \<comment> \<open>\<^verbatim>\<open>([..]{n})\<close>, the capture group\<close>
  | GroupStar cls     \<comment> \<open>the tail of \<^verbatim>\<open>([..]+)\<close> after its first character\<close>
  | GroupPlus cls     \<comment> \<open>\<^verbatim>\<open>([..]+)\<close>, the capture group\<close>
  | Eol               \<comment> \<open>\<^verbatim>\<open>$\<close> (no multiline flag: the end of the string)\<close>

text \<open>
  \<open>rmatch p s\<close> matches pattern \<open>p\<close> at the head of \<open>s\<close>. The result is the text of
  capture group 1 (empty when the pattern has no group) and the rest of \<open>s\<close> after the
  match; \<open>None\<close> when every alternative of the backtracking search fails.
\<close>

fun rmatch :: "atom list \<Rightarrow> string \<Rightarrow> (string \<times> string) option" where
  "rmatch [] s = Some ([], s)"
| "rmatch (Chr c # p) s =
     (case s of [] \<Rightarrow> None | d # ds \<Rightarrow> if d = c then rmatch p ds else None)"
| "rmatch (ChrI c # p) s =
     (case s of [] \<Rightarrow> None | d # ds \<Rightarrow> if canon d = canon c then rmatch p ds else None)"
| "rmatch (Star k # p) s =
     (case s of
        [] \<Rightarrow> rmatch p []
      | d # ds \<Rightarrow>
          if in_cls k d
          then (case rmatch (Star k # p) ds of Some r \<Rightarrow> Some r | None \<Rightarrow> rmatch p (d # ds))
          else rmatch p (d # ds))"
| "rmatch (Plus k # p) s =
     (case s of [] \<Rightarrow> None | d # ds \<Rightarrow> if in_cls k d then rmatch (Star k # p) ds else None)"
| "rmatch (Group k n # p) s =
     (if n \<le> length s \<and> list_all (in_cls k) (take n s)
      then (case rmatch p (drop n s) of None \<Rightarrow> None | Some (g, r) \<Rightarrow> Some (take n s, r))
      else None)"
| "rmatch (GroupStar k # p) s =
     (case s of
        [] \<Rightarrow> (case rmatch p [] of None \<Rightarrow> None | Some (g, r) \<Rightarrow> Some ([], r))
      | d # ds \<Rightarrow>
          if in_cls k d
          then (case rmatch (GroupStar k # p) ds of
                  Some (g, r) \<Rightarrow> Some (d # g, r)
                | None \<Rightarrow> (case rmatch p (d # ds) of None \<Rightarrow> None | Some (g, r) \<Rightarrow> Some ([], r)))
          else (case rmatch p (d # ds) of None \<Rightarrow> None | Some (g, r) \<Rightarrow> Some ([], r)))"
| "rmatch (GroupPlus k # p) s =
     (case s of
        [] \<Rightarrow> None
      | d # ds \<Rightarrow>
          if in_cls k d
          then (case rmatch (GroupStar k # p) ds of None \<Rightarrow> None | Some (g, r) \<Rightarrow> Some (d # g, r))
          else None)"
| "rmatch (Eol # p) s = (case s of [] \<Rightarrow> rmatch p [] | d # ds \<Rightarrow> None)"

text \<open>
  \<open>s.match(r)\<close> without the \<^verbatim>\<open>g\<close> flag: the leftmost start at which \<open>r\<close> matches. The
  result is \<open>m[1]\<close>.
\<close>

fun rsearch :: "atom list \<Rightarrow> string \<Rightarrow> string option" where
  "rsearch p [] = (case rmatch p [] of None \<Rightarrow> None | Some (g, r) \<Rightarrow> Some g)"
| "rsearch p (c # cs) =
     (case rmatch p (c # cs) of None \<Rightarrow> rsearch p cs | Some (g, r) \<Rightarrow> Some g)"

text \<open>
  \<open>s.replace(r, "")\<close> with the \<^verbatim>\<open>g\<close> flag: matches are taken left to right and do not
  overlap; the text after a removed match is scanned on, the text before it is never
  scanned again. An empty match keeps the character and moves one place on.
\<close>

function replace_empty :: "atom list \<Rightarrow> string \<Rightarrow> string" where
  "replace_empty p [] = []"
| "replace_empty p (c # cs) =
     (case rmatch p (c # cs) of
        None \<Rightarrow> c # replace_empty p cs
      | Some (g, r) \<Rightarrow>
          if length r < length (c # cs) then replace_empty p r else c # replace_empty p cs)"
  by pat_completeness auto
termination
  by (relation "measure (\<lambda>(p, s). length s)") auto

definition lits :: "string \<Rightarrow> atom list" where
  "lits s = map ChrI s"

subsection \<open>Identifier extraction\<close>

text \<open>\<^verbatim>\<open>const stripAnsi = (s) => s.replace(/\x1b\[[0-9;]*m/g, "")\<close>\<close>

definition SGR :: "atom list" where
  "SGR = [Chr ESC, Chr (CHR ''[''), Star DigitSemi, Chr (CHR ''m'')]"

definition stripAnsi :: "string \<Rightarrow> string" where
  "stripAnsi s = replace_empty SGR s"

definition UUID_PATTERNS :: "atom list list" where
  "UUID_PATTERNS =
    [ lits ''/recordings/'' @ [Group HexDash 36, ChrI (CHR ''/'')],
      lits ''bot UUID'' @ [Star NotHex, Group HexDash 36],
      lits ''session ID'' @ [Plus ColonSpace, Group HexDash 36],
      ChrI DQ # lits ''bot_uuid'' @
        [ChrI DQ, Star WhiteSpace, ChrI (CHR '':''), Star WhiteSpace, ChrI DQ,
         Group HexDash 36, ChrI DQ],
      ChrI DQ # lits ''id'' @
        [ChrI DQ, Star WhiteSpace, ChrI (CHR '':''), Star WhiteSpace, ChrI DQ,
         Group HexDash 36, ChrI DQ] ]"

text \<open>
  \<^verbatim>\<open>for (const r of UUID_PATTERNS) { const m = s.match(r); if (m) return m[1]; }\<close>
  Falling off the loop returns \<open>undefined\<close>, here \<open>None\<close>.
\<close>

fun first_match :: "atom list list \<Rightarrow> string \<Rightarrow> string option" where
  "first_match [] s = None"
| "first_match (r # rs) s = (case rsearch r s of Some g \<Rightarrow> Some g | None \<Rightarrow> first_match rs s)"

definition extractUuidFrom :: "string \<Rightarrow> string option" where
  "extractUuidFrom line = first_match UUID_PATTERNS (stripAnsi line)"

text \<open>\<^verbatim>\<open>function isUuidDirName(name) { return /^[A-F0-9-]{36}$/i.test(name); }\<close>\<close>

definition isUuidDirName :: "string \<Rightarrow> bool" where
  "isUuidDirName name = (rmatch [Group HexDash 36, Eol] name \<noteq> None)"

text \<open>
  The container marker of \<open>onData\<close>:
  \<^verbatim>\<open>/(?::\:container_name::|CONTAINER_NAME:\s*)([A-Za-z0-9_.-]+)/i\<close>.
  The alternation stands at the head of the pattern, so the backtracking matcher tries,
  at each start, the first branch followed by the group and then the second branch
  followed by the group: the pattern is the list of these two sequences, in this order.
\<close>

definition CONTAINER_MARK :: "atom list list" where
  "CONTAINER_MARK =
    [ lits ''::container_name::'' @ [GroupPlus NameChar],
      lits ''CONTAINER_NAME:'' @ [Star WhiteSpace, GroupPlus NameChar] ]"

fun rmatch_alt :: "atom list list \<Rightarrow> string \<Rightarrow> (string \<times> string) option" where
  "rmatch_alt [] s = None"
| "rmatch_alt (p # ps) s = (case rmatch p s of Some r \<Rightarrow> Some r | None \<Rightarrow> rmatch_alt ps s)"

fun rsearch_alt :: "atom list list \<Rightarrow> string \<Rightarrow> string option" where
  "rsearch_alt ps [] = (case rmatch_alt ps [] of None \<Rightarrow> None | Some (g, r) \<Rightarrow> Some g)"
| "rsearch_alt ps (c # cs) =
     (case rmatch_alt ps (c # cs) of None \<Rightarrow> rsearch_alt ps cs | Some (g, r) \<Rightarrow> Some g)"

text \<open>\<^verbatim>\<open>cname.replace(/^meetbot-/, "")\<close>: the prefix is case-sensitive and removed once.\<close>

definition strip_meetbot :: "string \<Rightarrow> string" where
  "strip_meetbot cname =
     (case rmatch (map Chr ''meetbot-'') cname of None \<Rightarrow> cname | Some (g, r) \<Rightarrow> r)"

subsection \<open>Coloured lines\<close>

text \<open>
  A line as a terminal shows it: pieces of text without the escape character, and
  colour sequences, each one a whole match of the pattern \<open>SGR\<close> of \<open>stripAnsi\<close>.
\<close>

datatype piece = Text string | Colour string

definition is_sgr :: "string \<Rightarrow> bool" where
  "is_sgr q = (rmatch SGR q = Some ([], []))"

fun well_coloured :: "piece list \<Rightarrow> bool" where
  "well_coloured [] = True"
| "well_coloured (Text t # ps) = (ESC \<notin> set t \<and> well_coloured ps)"
| "well_coloured (Colour q # ps) = (is_sgr q \<and> well_coloured ps)"

fun render :: "piece list \<Rightarrow> string" where
  "render [] = []"
| "render (Text t # ps) = t @ render ps"
| "render (Colour q # ps) = q @ render ps"

fun plain :: "piece list \<Rightarrow> string" where
  "plain [] = []"
| "plain (Text t # ps) = t @ plain ps"
| "plain (Colour q # ps) = plain ps"

text \<open>
  \<open>no_sgr s\<close>: no place in \<open>s\<close> is the start of a match of the pattern of \<open>stripAnsi\<close>,
  that is, \<open>s\<close> holds no colour sequence.
\<close>

fun no_sgr :: "string \<Rightarrow> bool" where
  "no_sgr [] = True"
| "no_sgr (c # cs) = (rmatch SGR (c # cs) = None \<and> no_sgr cs)"

section \<open>Values, jobs and the registry\<close>

text \<open>
  A job is a plain JavaScript object, built and patched with object spread, so it is a
  map from property names to values. A property that is absent reads as \<open>undefined\<close>.
\<close>

datatype jsval =
    Undefined
  | Null
  | Bool bool
  | Num int
  | Str string
  | Arr "string list"     \<comment> \<open>an array of strings (\<open>logs\<close>, \<open>extra\<close>)\<close>
  | Handles "nat list"    \<comment> \<open>a \<open>Set\<close> of response handles, in insertion order (\<open>clients\<close>)\<close>

type_synonym obj = "string \<rightharpoonup> jsval"

text \<open>Truthiness, as \<open>if (x)\<close>, \<open>!x\<close>, \<open>x || y\<close> and \<open>x && y\<close> test it.\<close>

fun truthy :: "jsval option \<Rightarrow> bool" where
  "truthy None = False"
| "truthy (Some Undefined) = False"
| "truthy (Some Null) = False"
| "truthy (Some (Bool b)) = b"
| "truthy (Some (Num n)) = (n \<noteq> 0)"
| "truthy (Some (Str s)) = (s \<noteq> [])"
| "truthy (Some (Arr xs)) = True"
| "truthy (Some (Handles hs)) = True"

fun str_of :: "jsval option \<Rightarrow> string" where
  "str_of (Some (Str s)) = s"
| "str_of v = []"

fun num_of :: "jsval option \<Rightarrow> int option" where
  "num_of (Some (Num n)) = Some n"
| "num_of v = None"

text \<open>
  Decimal rendering of a whole number inside a template string. JavaScript prints the
  digits like this for magnitudes below \<open>10^21\<close> and switches to exponent form above;
  the numbers rendered here are clock differences, limits and ports, and the text goes
  to the log only.
\<close>

fun show_nat :: "nat \<Rightarrow> string" where
  "show_nat n =
     (if n < 10 then [char_of (48 + n)] else show_nat (n div 10) @ [char_of (48 + n mod 10)])"

definition show_int :: "int \<Rightarrow> string" where
  "show_int i = (if i < 0 then CHR ''-'' # show_nat (nat (- i)) else show_nat (nat i))"

type_synonym jobs = "string \<rightharpoonup> obj"

text \<open>What leaves the process: the calls made on handles, processes and the network.\<close>

datatype tool = Node | Python | Curl | Wget | Busybox

datatype effect =
    Write nat string                  \<comment> \<open>\<open>res.write(text)\<close> on a subscriber\<close>
  | ChildKill string string           \<comment> \<open>\<open>child.kill(signal)\<close> of a job's worker\<close>
  | ClearGuard string                 \<comment> \<open>\<open>clearInterval(guard)\<close> of a job\<close>
  | Sleep nat                         \<comment> \<open>\<open>await sleep(ms)\<close>\<close>
  | RetryLater string string nat      \<comment> \<open>\<open>setTimeout(() => ensureHostPort8080(job, cname, attempt), 1200)\<close>\<close>
  | DockerPort string                 \<comment> \<open>\<open>docker port name 8080/tcp\<close> (in \<open>dockerGetHostPort8080\<close>)\<close>
  | DockerInspect string              \<comment> \<open>\<open>docker inspect name\<close> (in \<open>dockerGetIP\<close>)\<close>
  | PostBase "(string \<times> jsval) list"   \<comment> \<open>POST of the payload to \<open>MEET_BOT_BASE/stop_record\<close>\<close>
  | DockerExec tool string            \<comment> \<open>\<open>docker exec\<close> in a container, with one of the tools\<close>
  | PostHostPort nat                  \<comment> \<open>POST to \<open>127.0.0.1:port/stop_record\<close>\<close>
  | PostIP string                     \<comment> \<open>POST to \<open>ip:8080/stop_record\<close>\<close>
  | DockerStop string                 \<comment> \<open>\<open>docker stop name\<close>\<close>
  | SigTerm string                    \<comment> \<open>\<open>process.kill(child.pid, "SIGTERM")\<close> for a job\<close>
  | SigKillLater string               \<comment> \<open>the same with SIGKILL, from a timer 2000 ms later\<close>
  | Warn string                       \<comment> \<open>\<open>console.warn\<close>\<close>

text \<open>
  The variables that the handler of \<open>POST /jobs\<close> closes over, one set per job: the
  watchdog reads and the stream handlers write them.
\<close>

record closure =
  lastActivity :: int
  startedAt :: int
  guard :: bool                       \<comment> \<open>the interval is set and not yet cleared\<close>
  exitCodeFinal :: "int option"
  exitSignalFinal :: "string option"

text \<open>
  The state of the process: the two module-level maps \<open>JOBS\<close> and \<open>CHILDREN\<close> (a child
  handle is kept as its pid, \<open>undefined\<close> when the spawn failed), the closures, and the
  effects performed so far, oldest first.
\<close>

record sys =
  JOBS :: jobs
  CHILDREN :: "string \<rightharpoonup> int option"
  VARS :: "string \<rightharpoonup> closure"
  trace :: "effect list"

definition init_sys :: sys where
  "init_sys = \<lparr>JOBS = Map.empty, CHILDREN = Map.empty, VARS = Map.empty, trace = []\<rparr>"

definition emit :: "sys \<Rightarrow> effect list \<Rightarrow> sys" where
  "emit s fx = s\<lparr>trace := trace s @ fx\<rparr>"

text \<open>
  \<^verbatim>\<open>
  function setJob(id, patch) {
    const j = JOBS.get(id) || {};
    const now = Date.now();
    const merged = { updatedAt: now, ...j, ...patch };
    JOBS.set(id, merged);
    return merged;
  }\<close>
  In an object literal a later property wins: \<open>{ a, ...j, ...patch }\<close> is the map
  \<open>[a] ++ j ++ patch\<close>. The clock reading \<open>Date.now()\<close> is the argument \<open>now\<close>.
\<close>

definition the_job :: "jobs \<Rightarrow> string \<Rightarrow> obj" where
  "the_job J jid = (case J jid of None \<Rightarrow> Map.empty | Some j \<Rightarrow> j)"

definition merged :: "int \<Rightarrow> obj \<Rightarrow> obj \<Rightarrow> obj" where
  "merged now j patch = [''updatedAt'' \<mapsto> Num now] ++ j ++ patch"

definition setJob :: "sys \<Rightarrow> string \<Rightarrow> int \<Rightarrow> obj \<Rightarrow> sys" where
  "setJob s jid now patch =
     s\<lparr>JOBS := (JOBS s)(jid \<mapsto> merged now (the_job (JOBS s) jid) patch)\<rparr>"

text \<open>
  \<^verbatim>\<open>
  function pushLog(id, line) {
    const j = setJob(id, {});
    (j.logs ||= []).push(line);
    if (j.logs.length > 5000) j.logs.splice(0, j.logs.length - 5000);
    for (const res of j.clients || []) res.write(`data: ${line}\n\n`);
  }\<close>
  \<open>j\<close> is the object just stored, so the array it holds is the stored one; the model
  writes the array back into the stored object.
\<close>

definition logs_of :: "obj \<Rightarrow> string list" where
  "logs_of j = (case j ''logs'' of Some (Arr l) \<Rightarrow> l | _ \<Rightarrow> [])"

definition clients_of :: "obj \<Rightarrow> nat list" where
  "clients_of j = (case j ''clients'' of Some (Handles hs) \<Rightarrow> hs | _ \<Rightarrow> [])"

definition splice_oldest :: "string list \<Rightarrow> string list" where
  "splice_oldest l = (if length l > 5000 then drop (length l - 5000) l else l)"

definition pushLog :: "sys \<Rightarrow> string \<Rightarrow> int \<Rightarrow> string \<Rightarrow> sys" where
  "pushLog s jid now line =
     (let s1 = setJob s jid now Map.empty;
          j = the_job (JOBS s1) jid;
          logs = splice_oldest (logs_of j @ [line])
      in emit (s1\<lparr>JOBS := (JOBS s1)(jid \<mapsto> j(''logs'' \<mapsto> Arr logs))\<rparr>)
              (map (\<lambda>res. Write res (''data: '' @ line @ [NL, NL])) (clients_of j)))"

section \<open>Supervising a worker\<close>

record config =
  BOT_IDLE_TIMEOUT_MS :: int
  BOT_MAX_TIMEOUT_MS :: int
  MEET_BOT_BASE :: string
  ALLOW_DOCKER_STOP :: bool
  API_KEY :: string
  DEFAULT_RECORDINGS_DIR :: string

text \<open>A response: the HTTP status and the fields of the JSON body, in the order written.\<close>

datatype reply = Reply nat "(string \<times> jsval) list"

definition jsnum :: "int option \<Rightarrow> jsval" where
  "jsnum v = (case v of None \<Rightarrow> Undefined | Some n \<Rightarrow> Num n)"

text \<open>\<open>raw.split("\n")\<close>, \<open>p.split("/")\<close>: the pieces between the separators, at least one.\<close>

fun split_on :: "char \<Rightarrow> string \<Rightarrow> string list" where
  "split_on sep [] = [[]]"
| "split_on sep (c # cs) =
     (if c = sep then [] # split_on sep cs
      else (case split_on sep cs of [] \<Rightarrow> [[c]] | w # ws \<Rightarrow> (c # w) # ws))"

text \<open>
  \<open>path.join(a, b)\<close> of POSIX Node: the non-empty arguments joined by a slash, then
  normalised. Normalisation drops empty segments and \<open>.\<close>, lets \<open>..\<close> take back the
  segment before it (or keeps it, in a relative path with nothing to take back), and
  keeps a leading and a trailing slash. \<open>res\<close> holds the segments kept so far, the latest
  first.
\<close>

fun norm_segs :: "bool \<Rightarrow> string list \<Rightarrow> string list \<Rightarrow> string list" where
  "norm_segs allowAboveRoot res [] = rev res"
| "norm_segs allowAboveRoot res (seg # segs) =
     (if seg = [] \<or> seg = ''.'' then norm_segs allowAboveRoot res segs
      else if seg = ''..''
      then (case res of
              [] \<Rightarrow> norm_segs allowAboveRoot (if allowAboveRoot then [''..''] else []) segs
            | r # rs \<Rightarrow>
                if r = ''..''
                then norm_segs allowAboveRoot (if allowAboveRoot then ''..'' # res else res) segs
                else norm_segs allowAboveRoot rs segs)
      else norm_segs allowAboveRoot (seg # res) segs)"

fun join_slash :: "string list \<Rightarrow> string" where
  "join_slash [] = []"
| "join_slash [x] = x"
| "join_slash (x # y # zs) = x @ ''/'' @ join_slash (y # zs)"

definition normalize :: "string \<Rightarrow> string" where
  "normalize p =
     (if p = [] then ''.''
      else
        let isAbsolute = (take 1 p = ''/'');
            trailingSeparator = (drop (length p - 1) p = ''/'');
            body = join_slash (norm_segs (\<not> isAbsolute) [] (split_on (CHR ''/'') p))
        in if body = []
           then (if isAbsolute then ''/'' else if trailingSeparator then ''./'' else ''.'')
           else (if isAbsolute then ''/'' else []) @ body @ (if trailingSeparator then ''/'' else []))"

definition path_join :: "string \<Rightarrow> string \<Rightarrow> string" where
  "path_join a b = normalize (join_slash (filter (\<lambda>x. x \<noteq> []) [a, b]))"

subsection \<open>POST /jobs\<close>

text \<open>
  The handler answers 400 without a meeting URL and 500 without the run script; else
  it stores the job as \<open>pending\<close>, spawns the worker, stores \<open>running\<close> with the pid, and
  starts the guard interval. \<open>jid\<close> is the value of \<open>newJobId()\<close>, \<open>script_found\<close> is
  \<open>fs.existsSync(runPath)\<close>. The three fields of the body are \<open>meeting_url\<close>, \<open>bot_name\<close>
  and \<open>extra\<close>. The argument list handed to the worker and the list of tried paths in
  the 500 body are left out.

  \<open>spawn\<close> returns a child (\<open>Child pid\<close>, with \<open>child.pid\<close> undefined when the process could
  not be started, which the child reports later by its \<open>error\<close> event) or throws
  (\<open>Throws\<close>). The handler has no \<open>try\<close> around it: when \<open>spawn\<close> throws, the handler ends
  there, with the job stored as \<open>pending\<close>, no child, no guard and no response of its
  own (\<open>None\<close>).
\<close>

datatype spawned = Child "int option" | Throws

definition create_pending ::
  "sys \<Rightarrow> string \<Rightarrow> int \<Rightarrow> jsval \<times> jsval \<times> jsval \<Rightarrow> string \<Rightarrow> sys" where
  "create_pending s jid now body recordingsDir =
     (case body of (meeting_url, bot_name, extra) \<Rightarrow>
        setJob s jid now
          [''id'' \<mapsto> Str jid, ''status'' \<mapsto> Str ''pending'',
           ''meeting_url'' \<mapsto> meeting_url, ''bot_name'' \<mapsto> bot_name,
           ''extra'' \<mapsto> extra, ''createdAt'' \<mapsto> Num now, ''updatedAt'' \<mapsto> Num now,
           ''startedAt'' \<mapsto> Num now, ''logs'' \<mapsto> Arr [], ''clients'' \<mapsto> Handles [],
           ''recordingsDir'' \<mapsto> Str recordingsDir])"

definition post_jobs ::
  "sys \<Rightarrow> string \<Rightarrow> int \<Rightarrow> jsval \<times> jsval \<times> jsval \<Rightarrow> bool \<Rightarrow> string \<Rightarrow> string \<Rightarrow> spawned
     \<Rightarrow> sys \<times> reply option" where
  "post_jobs s jid now body script_found runPath recordingsDir spawn =
     (if \<not> truthy (Some (fst body))
      then (s, Some (Reply 400 [(''success'', Bool False), (''error'', Str ''meeting_url required'')]))
      else if \<not> script_found
      then (s, Some (Reply 500 [(''success'', Bool False),
                                (''error'', Str (''run script not found: '' @ runPath))]))
      else
        let s1 = create_pending s jid now body recordingsDir
        in case spawn of
             Throws \<Rightarrow> (s1, None)
           | Child pid \<Rightarrow>
               let s2 = s1\<lparr>CHILDREN := (CHILDREN s1)(jid \<mapsto> pid)\<rparr>;
                   s3 = setJob s2 jid now [''status'' \<mapsto> Str ''running'', ''pid'' \<mapsto> jsnum pid];
                   s4 = s3\<lparr>VARS := (VARS s3)(jid \<mapsto>
                          \<lparr>lastActivity = now, startedAt = now, guard = True,
                           exitCodeFinal = None, exitSignalFinal = None\<rparr>)\<rparr>
               in (s4, Some (Reply 200 [(''success'', Bool True), (''jobId'', Str jid),
                                        (''pid'', jsnum pid), (''status'', Str ''running'')])))"

subsection \<open>The guard interval\<close>

text \<open>
  \<^verbatim>\<open>
  const guard = setInterval(() => {
    const now = Date.now();
    const idleFor = now - lastActivity;
    const aliveFor = now - startedAt;
    if (aliveFor > BOT_MAX_TIMEOUT_MS) {
      try { child.kill("SIGKILL"); } catch {}
      setJob(id, { status: "timeout", error: "max_time_exceeded" });
      pushLog(id, `timeout -> killed (max ${BOT_MAX_TIMEOUT_MS}ms)`);
      clearInterval(guard);
      return;
    }
    if (idleFor > BOT_IDLE_TIMEOUT_MS) {
      try { child.kill("SIGKILL"); } catch {}
      setJob(id, { status: "timeout", error: "idle_timeout" });
      pushLog(id, `timeout -> killed (idle ${idleFor}ms > ${BOT_IDLE_TIMEOUT_MS}ms)`);
      clearInterval(guard);
    }
  }, 5000);\<close>
  One run of the callback at clock reading \<open>now\<close>. A cleared interval does not run.
\<close>

definition stop_guard :: "sys \<Rightarrow> string \<Rightarrow> sys" where
  "stop_guard s jid =
     (case VARS s jid of
        None \<Rightarrow> emit s [ClearGuard jid]
      | Some v \<Rightarrow> emit (s\<lparr>VARS := (VARS s)(jid \<mapsto> v\<lparr>guard := False\<rparr>)\<rparr>) [ClearGuard jid])"

definition guard_tick :: "config \<Rightarrow> sys \<Rightarrow> string \<Rightarrow> int \<Rightarrow> sys" where
  "guard_tick cfg s jid now =
     (case VARS s jid of
        None \<Rightarrow> s
      | Some v \<Rightarrow>
          if \<not> guard v then s
          else
            let idleFor = now - lastActivity v;
                aliveFor = now - startedAt v
            in if aliveFor > BOT_MAX_TIMEOUT_MS cfg
               then
                 let s1 = emit s [ChildKill jid ''SIGKILL''];
                     s2 = setJob s1 jid now
                            [''status'' \<mapsto> Str ''timeout'', ''error'' \<mapsto> Str ''max_time_exceeded''];
                     s3 = pushLog s2 jid now
                            (''timeout -> killed (max '' @ show_int (BOT_MAX_TIMEOUT_MS cfg) @ ''ms)'')
                 in stop_guard s3 jid
               else if idleFor > BOT_IDLE_TIMEOUT_MS cfg
               then
                 let s1 = emit s [ChildKill jid ''SIGKILL''];
                     s2 = setJob s1 jid now
                            [''status'' \<mapsto> Str ''timeout'', ''error'' \<mapsto> Str ''idle_timeout''];
                     s3 = pushLog s2 jid now
                            (''timeout -> killed (idle '' @ show_int idleFor @ ''ms > '' @
                             show_int (BOT_IDLE_TIMEOUT_MS cfg) @ ''ms)'')
                 in stop_guard s3 jid
               else s)"

subsection \<open>Output of the worker\<close>

text \<open>
  \<^verbatim>\<open>
  function ensureHostPort8080(jobId, cname, attempt = 0) {
    if (!cname) return;
    const hp = dockerGetHostPort8080(cname);
    if (hp) {
      setJob(jobId, { hostPort8080: hp });
      pushLog(jobId, `[api] mapped container ${cname} -> host :${hp}`);
    } else if (attempt < 3) {
      setTimeout(() => ensureHostPort8080(jobId, cname, attempt + 1), 1200);
    }
  }\<close>
  \<open>hp\<close> is what \<open>dockerGetHostPort8080(cname)\<close> returns at this call (\<open>None\<close> for
  \<open>undefined\<close>).
\<close>

definition ensureHostPort8080 :: "sys \<Rightarrow> string \<Rightarrow> int \<Rightarrow> string \<Rightarrow> nat \<Rightarrow> nat option \<Rightarrow> sys" where
  "ensureHostPort8080 s jobId now cname attempt hp =
     (if cname = [] then s
      else
        let s0 = emit s [DockerPort cname]
        in if truthy (Some (jsnum (map_option int hp)))
           then pushLog (setJob s0 jobId now [''hostPort8080'' \<mapsto> jsnum (map_option int hp)]) jobId now
                  (''[api] mapped container '' @ cname @ '' -> host :'' @
                   show_nat (case hp of None \<Rightarrow> 0 | Some p \<Rightarrow> p))
           else if attempt < 3 then emit s0 [RetryLater jobId cname (attempt + 1)]
           else s0)"

text \<open>
  The body of the loop \<open>for (const line of raw.split("\n"))\<close> of \<open>onData\<close>:
  \<^verbatim>\<open>
  const jcur = JOBS.get(id) || {};
  if (!jcur.uuid) {
    const maybe = extractUuidFrom(line);
    if (maybe) setJob(id, { uuid: maybe });
  }
  const nameMatch = line.match(/(?::\:container_name::|CONTAINER_NAME:\s*)([A-Za-z0-9_.-]+)/i);
  if (nameMatch && !jcur.containerName) {
    const cname = nameMatch[1];
    setJob(id, { containerName: cname });
    setJob(id, { containerName: cname });
    const maybe = cname.replace(/^meetbot-/, "");
    if (!jcur.uuid && /^[A-F0-9-]{36}$/i.test(maybe)) {
      setJob(id, { uuid: maybe });
    }
    ensureHostPort8080(id, cname);
  }\<close>
  \<open>jcur\<close> is read once, before the first write.
\<close>

definition onData_line :: "sys \<Rightarrow> string \<Rightarrow> int \<Rightarrow> (string \<Rightarrow> nat option) \<Rightarrow> string \<Rightarrow> sys" where
  "onData_line s jid now port line =
     (let jcur = the_job (JOBS s) jid;
          s1 = (if \<not> truthy (jcur ''uuid'')
                then (case extractUuidFrom line of
                        None \<Rightarrow> s
                      | Some maybe \<Rightarrow> if maybe \<noteq> [] then setJob s jid now [''uuid'' \<mapsto> Str maybe] else s)
                else s)
      in case rsearch_alt CONTAINER_MARK line of
           None \<Rightarrow> s1
         | Some cname \<Rightarrow>
             if truthy (jcur ''containerName'') then s1
             else
               let s2 = setJob s1 jid now [''containerName'' \<mapsto> Str cname];
                   s3 = setJob s2 jid now [''containerName'' \<mapsto> Str cname];
                   maybe = strip_meetbot cname;
                   s4 = (if \<not> truthy (jcur ''uuid'') \<and> isUuidDirName maybe
                         then setJob s3 jid now [''uuid'' \<mapsto> Str maybe] else s3)
               in ensureHostPort8080 s4 jid now cname 0 (port cname))"

text \<open>
  \<^verbatim>\<open>
  const onData = (src) => (buf) => {
    const raw = buf.toString();
    lastActivity = Date.now();
    raw.split("\n").filter(Boolean).forEach(l => pushLog(id, `${src} ${l}`));
    for (const line of raw.split("\n")) { ... }
  };\<close>
  (the echo to the console is not modelled).
\<close>

definition touch :: "sys \<Rightarrow> string \<Rightarrow> int \<Rightarrow> sys" where
  "touch s jid now =
     (case VARS s jid of
        None \<Rightarrow> s
      | Some v \<Rightarrow> s\<lparr>VARS := (VARS s)(jid \<mapsto> v\<lparr>lastActivity := now\<rparr>)\<rparr>)"

definition onData :: "sys \<Rightarrow> string \<Rightarrow> int \<Rightarrow> (string \<Rightarrow> nat option) \<Rightarrow> string \<Rightarrow> string \<Rightarrow> sys" where
  "onData s jid now port src raw =
     (let s0 = touch s jid now;
          s1 = fold (\<lambda>l st. pushLog st jid now (src @ '' '' @ l))
                 (filter (\<lambda>l. l \<noteq> []) (split_on NL raw)) s0
      in fold (\<lambda>line st. onData_line st jid now port line) (split_on NL raw) s1)"

subsection \<open>Events of the child process\<close>

text \<open>\<^verbatim>\<open>child.once("spawn", () => pushLog(id, "spawned"))\<close>\<close>

definition on_spawn :: "sys \<Rightarrow> string \<Rightarrow> int \<Rightarrow> sys" where
  "on_spawn s jid now = pushLog s jid now ''spawned''"

text \<open>
  \<^verbatim>\<open>
  child.once("error", (err) => {
    setJob(id, { status: "error", error: String(err) });
    pushLog(id, `error ${String(err)}`);
  });\<close>
  \<open>err\<close> is the text \<open>String(err)\<close>.
\<close>

definition on_error :: "sys \<Rightarrow> string \<Rightarrow> int \<Rightarrow> string \<Rightarrow> sys" where
  "on_error s jid now err =
     pushLog (setJob s jid now [''status'' \<mapsto> Str ''error'', ''error'' \<mapsto> Str err]) jid now
       (''error '' @ err)"

text \<open>
  \<^verbatim>\<open>child.once("exit", (code, signal) => { exitCodeFinal = code; exitSignalFinal = signal; })\<close>
\<close>

definition on_exit :: "sys \<Rightarrow> string \<Rightarrow> int option \<Rightarrow> string option \<Rightarrow> sys" where
  "on_exit s jid code signal =
     (case VARS s jid of
        None \<Rightarrow> s
      | Some v \<Rightarrow>
          s\<lparr>VARS := (VARS s)(jid \<mapsto> v\<lparr>exitCodeFinal := code, exitSignalFinal := signal\<rparr>)\<rparr>)"

subsection \<open>The fallback scan of the recordings directory\<close>

text \<open>
  The file system as the scan reads it: \<open>readdir dir\<close> is \<open>fs.readdirSync(dir)\<close> and
  \<open>mtimeMs p\<close> is \<open>fs.statSync(p).mtimeMs\<close>; \<open>None\<close> when the call throws. A modification
  time is a number of milliseconds with a fraction; clock readings are whole. Comparing
  two such numbers, and taking the sign of their difference, is exact.
\<close>

record fs =
  readdir :: "string \<Rightarrow> string list option"
  mtimeMs :: "string \<Rightarrow> rat option"

text \<open>
  \<^verbatim>\<open>
  function findLatestUuidFromRecordingsSince(baseDir, sinceMs) {
    try {
      const names = fs.readdirSync(baseDir).filter(isUuidDirName);
      const fresh = names
        .map((name) => {
          const p = path.join(baseDir, name);
          return { name, t: fs.statSync(p).mtimeMs };
        })
        .filter(it => !sinceMs || it.t >= (sinceMs - 5_000))
        .sort((a,b)=>b.t-a.t);
      return fresh[0]?.name;
    } catch {}
  }\<close>
  \<open>Array.prototype.sort\<close> is stable, and so is \<open>sort_key\<close>; the comparator orders by
  descending time, that is by ascending \<open>- t\<close>.
\<close>

fun stat_all :: "fs \<Rightarrow> string \<Rightarrow> string list \<Rightarrow> (string \<times> rat) list option" where
  "stat_all f baseDir [] = Some []"
| "stat_all f baseDir (name # names) =
     (case mtimeMs f (path_join baseDir name) of
        None \<Rightarrow> None
      | Some t \<Rightarrow>
          (case stat_all f baseDir names of None \<Rightarrow> None | Some its \<Rightarrow> Some ((name, t) # its)))"

definition is_fresh :: "jsval option \<Rightarrow> string \<times> rat \<Rightarrow> bool" where
  "is_fresh sinceMs it =
     (if truthy sinceMs
      then (case num_of sinceMs of None \<Rightarrow> False | Some since \<Rightarrow> snd it \<ge> of_int (since - 5000))
      else True)"

definition findLatestUuidFromRecordingsSince :: "fs \<Rightarrow> string \<Rightarrow> jsval option \<Rightarrow> string option" where
  "findLatestUuidFromRecordingsSince f baseDir sinceMs =
     (case readdir f baseDir of
        None \<Rightarrow> None
      | Some entries \<Rightarrow>
          (case stat_all f baseDir (filter isUuidDirName entries) of
             None \<Rightarrow> None
           | Some items \<Rightarrow>
               (case sort_key (\<lambda>it. - snd it) (filter (is_fresh sinceMs) items) of
                  [] \<Rightarrow> None
                | it # rest \<Rightarrow> Some (fst it))))"

subsection \<open>Reconciliation when the worker closes\<close>

text \<open>
  \<^verbatim>\<open>
  child.once("close", async (code, signal) => {
    clearInterval(guard);
    CHILDREN.delete(id);
    const codeEff = exitCodeFinal ?? code;
    const sigEff  = exitSignalFinal ?? signal;
    const j0 = JOBS.get(id) || {};
    if (!j0.uuid && codeEff === 0 && !sigEff) {
      await sleep(500);
      const since = j0.startedAt || j0.createdAt;
      const fallback = findLatestUuidFromRecordingsSince(j0.recordingsDir || DEFAULT_RECORDINGS_DIR, since);
      if (fallback) setJob(id, { uuid: fallback });
    }
    const j = JOBS.get(id) || {};
    if (codeEff === 0 && !sigEff && j.uuid) {
      setJob(id, { status: "done", exitCode: 0, signal: null,
                   recordings: path.join(j.recordingsDir || DEFAULT_RECORDINGS_DIR, j.uuid) });
      pushLog(id, `done uuid=${j.uuid}`);
    } else {
      const reason = sigEff ? `killed_by_${sigEff}` : (codeEff === 0 ? "completed_without_uuid" : "bot_failed");
      setJob(id, { status: "error", exitCode: codeEff ?? -1, signal: sigEff, error: reason });
      pushLog(id, `error ${reason}`);
    }
  });\<close>
  An exit code or signal that is \<open>null\<close> is \<open>None\<close>. The handler is taken as one step: what
  other handlers do during the wait is not interleaved. The clock after the wait reads
  \<open>now + 500\<close>.
\<close>

definition nullish_or :: "'a option \<Rightarrow> 'a option \<Rightarrow> 'a option" where
  "nullish_or a b = (case a of None \<Rightarrow> b | Some x \<Rightarrow> Some x)"

definition sig_truthy :: "string option \<Rightarrow> bool" where
  "sig_truthy g = (case g of None \<Rightarrow> False | Some n \<Rightarrow> n \<noteq> [])"

definition recordings_dir :: "config \<Rightarrow> obj \<Rightarrow> string" where
  "recordings_dir cfg j =
     (if truthy (j ''recordingsDir'') then str_of (j ''recordingsDir'')
      else DEFAULT_RECORDINGS_DIR cfg)"

definition fallback_scan :: "config \<Rightarrow> fs \<Rightarrow> obj \<Rightarrow> string option" where
  "fallback_scan cfg f j0 =
     findLatestUuidFromRecordingsSince f (recordings_dir cfg j0)
       (if truthy (j0 ''startedAt'') then j0 ''startedAt'' else j0 ''createdAt'')"

definition exit_reason :: "int option \<Rightarrow> string option \<Rightarrow> string" where
  "exit_reason codeEff sigEff =
     (if sig_truthy sigEff then ''killed_by_'' @ (case sigEff of None \<Rightarrow> [] | Some n \<Rightarrow> n)
      else if codeEff = Some 0 then ''completed_without_uuid''
      else ''bot_failed'')"

definition on_close ::
  "config \<Rightarrow> fs \<Rightarrow> sys \<Rightarrow> string \<Rightarrow> int \<Rightarrow> int option \<Rightarrow> string option \<Rightarrow> sys" where
  "on_close cfg f s jid now code signal =
     (case VARS s jid of
        None \<Rightarrow> s
      | Some v \<Rightarrow>
          let s0 = stop_guard s jid;
              s1 = s0\<lparr>CHILDREN := (CHILDREN s0)(jid := None)\<rparr>;
              codeEff = nullish_or (exitCodeFinal v) code;
              sigEff = nullish_or (exitSignalFinal v) signal;
              j0 = the_job (JOBS s1) jid;
              waited = (\<not> truthy (j0 ''uuid'') \<and> codeEff = Some 0 \<and> \<not> sig_truthy sigEff);
              t = (if waited then now + 500 else now);
              s2 = (if waited
                    then (case fallback_scan cfg f j0 of
                            None \<Rightarrow> emit s1 [Sleep 500]
                          | Some fallback \<Rightarrow>
                              if fallback \<noteq> []
                              then setJob (emit s1 [Sleep 500]) jid t [''uuid'' \<mapsto> Str fallback]
                              else emit s1 [Sleep 500])
                    else s1);
              j = the_job (JOBS s2) jid
          in if codeEff = Some 0 \<and> \<not> sig_truthy sigEff \<and> truthy (j ''uuid'')
             then pushLog
                    (setJob s2 jid t
                       [''status'' \<mapsto> Str ''done'', ''exitCode'' \<mapsto> Num 0, ''signal'' \<mapsto> Null,
                        ''recordings'' \<mapsto> Str (path_join (recordings_dir cfg j) (str_of (j ''uuid'')))])
                    jid t (''done uuid='' @ str_of (j ''uuid''))
             else pushLog
                    (setJob s2 jid t
                       [''status'' \<mapsto> Str ''error'',
                        ''exitCode'' \<mapsto> Num (case codeEff of None \<Rightarrow> - 1 | Some c \<Rightarrow> c),
                        ''signal'' \<mapsto> (case sigEff of None \<Rightarrow> Null | Some n \<Rightarrow> Str n),
                        ''error'' \<mapsto> Str (exit_reason codeEff sigEff)])
                    jid t (''error '' @ exit_reason codeEff sigEff))"

section \<open>Stopping a job\<close>

text \<open>
  What the outside answers during one stop request: \<open>post_base\<close> is the body returned by
  the POST to \<open>MEET_BOT_BASE\<close> (\<open>None\<close> when the call throws), \<open>exec_result t\<close> the exit
  status and standard output of \<open>docker exec\<close> with tool \<open>t\<close>, \<open>host_port\<close> and
  \<open>container_ip\<close> what \<open>dockerGetHostPort8080\<close> and \<open>dockerGetIP\<close> return, \<open>post_host_port\<close>
  and \<open>post_ip\<close> the bodies returned through them, \<open>docker_stop_ok\<close> whether \<open>docker stop\<close>
  returns without throwing, \<open>sigterm_ok\<close> whether \<open>process.kill\<close> does.
\<close>

record stop_world =
  post_base :: "jsval option"
  exec_result :: "tool \<Rightarrow> int option \<times> string"
  host_port :: "nat option"
  container_ip :: "string option"
  post_host_port :: "jsval option"
  post_ip :: "jsval option"
  docker_stop_ok :: bool
  sigterm_ok :: bool

text \<open>\<open>String.prototype.trim\<close>\<close>

definition trim :: "string \<Rightarrow> string" where
  "trim s = rev (dropWhile (in_cls WhiteSpace) (rev (dropWhile (in_cls WhiteSpace) s)))"

text \<open>
  \<open>dockerExecStopRecord\<close> runs the request inside the container with node, python, curl,
  wget and busybox in turn, and returns the trimmed output of the first that exits with
  status 0; it throws (\<open>None\<close>) when none does.
\<close>

fun exec_tools :: "stop_world \<Rightarrow> string \<Rightarrow> tool list \<Rightarrow> string option \<times> effect list" where
  "exec_tools w containerRef [] = (None, [])"
| "exec_tools w containerRef (t # ts) =
     (if fst (exec_result w t) = Some 0
      then (Some (trim (snd (exec_result w t))), [DockerExec t containerRef])
      else (case exec_tools w containerRef ts of
              (r, fx) \<Rightarrow> (r, DockerExec t containerRef # fx)))"

definition dockerExecStopRecord :: "stop_world \<Rightarrow> string \<Rightarrow> string option \<times> effect list" where
  "dockerExecStopRecord w containerRef = exec_tools w containerRef [Node, Python, Curl, Wget, Busybox]"

text \<open>
  \<^verbatim>\<open>
  async function tryHttpStopByContainer(container, payload) {
    const p = dockerGetHostPort8080(container);
    const ip = dockerGetIP(container);
    let lastErr;
    if (p) {
      try { return await httpPostNoKeepAlive(`http://127.0.0.1:${p}/stop_record`, payload); }
      catch (e) { lastErr = e; }
    }
    if (ip) {
      try { return await httpPostNoKeepAlive(`http://${ip}:8080/stop_record`, payload); }
      catch (e) { lastErr = e; }
    }
    throw lastErr || new Error("no_http_route_to_container");
  }\<close>
  Both queries to docker are made before the first request.
\<close>

definition tryHttpStopByContainer :: "stop_world \<Rightarrow> string \<Rightarrow> jsval option \<times> effect list" where
  "tryHttpStopByContainer w container =
     (let asked = [DockerPort container, DockerInspect container];
          viaPort =
            (case host_port w of
               None \<Rightarrow> (None, asked)
             | Some p \<Rightarrow> if p \<noteq> 0 then (post_host_port w, asked @ [PostHostPort p]) else (None, asked))
      in case fst viaPort of
           Some d \<Rightarrow> (Some d, snd viaPort)
         | None \<Rightarrow>
             (case container_ip w of
                None \<Rightarrow> (None, snd viaPort)
              | Some ip \<Rightarrow>
                  if ip \<noteq> [] then (post_ip w, snd viaPort @ [PostIP ip]) else (None, snd viaPort)))"

text \<open>
  \<^verbatim>\<open>
  const payload = job.uuid || job.meeting_url
    ? { ...(job.uuid && { bot_id: job.uuid }), ...(job.meeting_url && { meeting_url: job.meeting_url }) }
    : null;\<close>
\<close>

definition stop_payload :: "obj \<Rightarrow> (string \<times> jsval) list option" where
  "stop_payload job =
     (if truthy (job ''uuid'') \<or> truthy (job ''meeting_url'')
      then Some ((if truthy (job ''uuid'')
                  then [(''bot_id'', (case job ''uuid'' of None \<Rightarrow> Undefined | Some v \<Rightarrow> v))]
                  else []) @
                 (if truthy (job ''meeting_url'')
                  then [(''meeting_url'', (case job ''meeting_url'' of None \<Rightarrow> Undefined | Some v \<Rightarrow> v))]
                  else []))
      else None)"

text \<open>
  The five strategies of \<open>POST /jobs/:id/stop\<close>, in the order of the handler. Each gives
  the data of its success (\<open>None\<close> when its condition does not hold or its attempt throws)
  and the effects of the attempt; a failed attempt ends with the warning of its
  \<open>catch\<close> block.
\<close>

definition strategy1 :: "config \<Rightarrow> stop_world \<Rightarrow> obj \<Rightarrow> jsval option \<times> effect list" where
  "strategy1 cfg w job =
     (case stop_payload job of
        None \<Rightarrow> (None, [])
      | Some payload \<Rightarrow>
          if MEET_BOT_BASE cfg \<noteq> []
          then (case post_base w of
                  Some d \<Rightarrow> (Some d, [PostBase payload])
                | None \<Rightarrow> (None, [PostBase payload, Warn ''stop_record via MEET_BOT_BASE failed:'']))
          else (None, []))"

definition strategy2 :: "stop_world \<Rightarrow> obj \<Rightarrow> jsval option \<times> effect list" where
  "strategy2 w job =
     (if truthy (job ''containerName'') \<and> stop_payload job \<noteq> None
      then (case dockerExecStopRecord w (str_of (job ''containerName'')) of
              (Some out, fx) \<Rightarrow> (Some (Str out), fx)
            | (None, fx) \<Rightarrow> (None, fx @ [Warn ''stop_record via docker exec failed:'']))
      else (None, []))"

definition strategy3 :: "stop_world \<Rightarrow> obj \<Rightarrow> jsval option \<times> effect list" where
  "strategy3 w job =
     (if truthy (job ''containerName'') \<and> stop_payload job \<noteq> None
      then (case tryHttpStopByContainer w (str_of (job ''containerName'')) of
              (Some d, fx) \<Rightarrow> (Some d, fx)
            | (None, fx) \<Rightarrow> (None, fx @ [Warn ''stop_record via container HTTP failed:'']))
      else (None, []))"

definition strategy4 :: "config \<Rightarrow> stop_world \<Rightarrow> obj \<Rightarrow> jsval option \<times> effect list" where
  "strategy4 cfg w job =
     (if ALLOW_DOCKER_STOP cfg \<and> truthy (job ''containerName'')
      then (if docker_stop_ok w
            then (Some (Str (str_of (job ''containerName''))),
                  [DockerStop (str_of (job ''containerName''))])
            else (None, [DockerStop (str_of (job ''containerName'')),
                         Warn ''docker stop by name failed:'']))
      else (None, []))"

text \<open>
  \<^verbatim>\<open>
  const child = CHILDREN.get(jobId);
  if (child) {
    let termSent = false;
    try { process.kill(child.pid, "SIGTERM"); termSent = true; } catch {}
    setTimeout(() => { try { process.kill(child.pid, "SIGKILL"); } catch {} }, 2000);
    setJob(jobId, { status: "stopping" });
    return res.status(202).json({ success: true, via: "local_kill",
      message: termSent ? "SIGTERM sent to child" : "failed_to_signal_child" });
  }\<close>
  With a child handle the strategy always answers with success, also when the signal
  could not be sent.
\<close>

definition strategy5 :: "stop_world \<Rightarrow> sys \<Rightarrow> string \<Rightarrow> jsval option \<times> effect list" where
  "strategy5 w s jobId =
     (case CHILDREN s jobId of
        None \<Rightarrow> (None, [])
      | Some child \<Rightarrow>
          (Some (Str (if sigterm_ok w then ''SIGTERM sent to child'' else ''failed_to_signal_child'')),
           [SigTerm jobId, SigKillLater jobId]))"

definition succeeded :: "reply \<Rightarrow> bool" where
  "succeeded r = (case r of Reply code body \<Rightarrow> code = 200 \<or> code = 202)"

definition stop_unavailable :: reply where
  "stop_unavailable =
     Reply 502
       [(''success'', Bool False), (''error'', Str ''stop_unavailable''),
        (''detail'', Str ''Could not reach internal /stop_record and no force kill requested.''),
        (''hint'', Str (''Make sure the container has an HTTP server on :8080; publish it or use '' @
                        ''bridge IP; container is named/labelled by uuid already.''))]"

definition stopping :: "sys \<Rightarrow> string \<Rightarrow> int \<Rightarrow> effect list \<Rightarrow> sys" where
  "stopping s jobId now fx = setJob (emit s fx) jobId now [''status'' \<mapsto> Str ''stopping'']"

definition post_jobs_stop :: "config \<Rightarrow> stop_world \<Rightarrow> sys \<Rightarrow> string \<Rightarrow> int \<Rightarrow> sys \<times> reply" where
  "post_jobs_stop cfg w s jobId now =
     (case JOBS s jobId of
        None \<Rightarrow> (s, Reply 404 [(''success'', Bool False), (''error'', Str ''job_not_found'')])
      | Some job \<Rightarrow>
          (case strategy1 cfg w job of
             (Some d, fx1) \<Rightarrow>
               (stopping s jobId now fx1,
                Reply 200 [(''success'', Bool True), (''via'', Str ''stop_record_http_base''), (''data'', d)])
           | (None, fx1) \<Rightarrow>
          (case strategy2 w job of
             (Some d, fx2) \<Rightarrow>
               (stopping s jobId now (fx1 @ fx2),
                Reply 200 [(''success'', Bool True), (''via'', Str ''stop_record_docker_exec''), (''data'', d)])
           | (None, fx2) \<Rightarrow>
          (case strategy3 w job of
             (Some d, fx3) \<Rightarrow>
               (stopping s jobId now (fx1 @ fx2 @ fx3),
                Reply 200 [(''success'', Bool True), (''via'', Str ''stop_record_http_container''), (''data'', d)])
           | (None, fx3) \<Rightarrow>
          (case strategy4 cfg w job of
             (Some d, fx4) \<Rightarrow>
               (stopping s jobId now (fx1 @ fx2 @ fx3 @ fx4),
                Reply 202 [(''success'', Bool True), (''via'', Str ''docker_stop_name''), (''target'', d)])
           | (None, fx4) \<Rightarrow>
          (case strategy5 w s jobId of
             (Some d, fx5) \<Rightarrow>
               (stopping s jobId now (fx1 @ fx2 @ fx3 @ fx4 @ fx5),
                Reply 202 [(''success'', Bool True), (''via'', Str ''local_kill''), (''message'', d)])
           | (None, fx5) \<Rightarrow>
               (emit s (fx1 @ fx2 @ fx3 @ fx4 @ fx5), stop_unavailable)))))))"

text \<open>
  The strategy an effect belongs to; whether the condition of strategy \<open>k\<close> holds
  (\<open>applicable\<close>); and what the outside does with its attempt, read from the outside
  alone: \<open>answers w k\<close> when the control-plane base returns a body (1), one of the five
  tools exits with status 0 (2), the published port or the container address is known
  and returns a body (3), \<open>docker stop\<close> returns (4). Strategy 5 has nothing to wait for:
  the handler answers with success whether or not the signal could be sent.
  \<open>first_call\<close> is the first thing strategy \<open>k\<close> does when it is attempted.
\<close>

fun strategy_of :: "effect \<Rightarrow> nat" where
  "strategy_of (PostBase p) = 1"
| "strategy_of (Warn m) =
     (if m = ''stop_record via MEET_BOT_BASE failed:'' then 1
      else if m = ''stop_record via docker exec failed:'' then 2
      else if m = ''stop_record via container HTTP failed:'' then 3
      else if m = ''docker stop by name failed:'' then 4 else 0)"
| "strategy_of (DockerExec t c) = 2"
| "strategy_of (DockerPort c) = 3"
| "strategy_of (DockerInspect c) = 3"
| "strategy_of (PostHostPort p) = 3"
| "strategy_of (PostIP ip) = 3"
| "strategy_of (DockerStop n) = 4"
| "strategy_of (SigTerm j) = 5"
| "strategy_of (SigKillLater j) = 5"
| "strategy_of e = 0"

definition applicable :: "config \<Rightarrow> sys \<Rightarrow> string \<Rightarrow> obj \<Rightarrow> nat \<Rightarrow> bool" where
  "applicable cfg s jobId job k =
     (if k = 1 then MEET_BOT_BASE cfg \<noteq> [] \<and> stop_payload job \<noteq> None
      else if k = 2 \<or> k = 3 then truthy (job ''containerName'') \<and> stop_payload job \<noteq> None
      else if k = 4 then ALLOW_DOCKER_STOP cfg \<and> truthy (job ''containerName'')
      else if k = 5 then CHILDREN s jobId \<noteq> None
      else False)"

definition answers :: "stop_world \<Rightarrow> nat \<Rightarrow> bool" where
  "answers w k =
     (if k = 1 then post_base w \<noteq> None
      else if k = 2
      then list_ex (\<lambda>t. fst (exec_result w t) = Some 0) [Node, Python, Curl, Wget, Busybox]
      else if k = 3
      then (case host_port w of None \<Rightarrow> False | Some p \<Rightarrow> p \<noteq> 0 \<and> post_host_port w \<noteq> None) \<or>
           (case container_ip w of None \<Rightarrow> False | Some ip \<Rightarrow> ip \<noteq> [] \<and> post_ip w \<noteq> None)
      else if k = 4 then docker_stop_ok w
      else k = 5)"

definition wins :: "config \<Rightarrow> stop_world \<Rightarrow> sys \<Rightarrow> string \<Rightarrow> obj \<Rightarrow> nat \<Rightarrow> bool" where
  "wins cfg w s jobId job k = (applicable cfg s jobId job k \<and> answers w k)"

definition first_call :: "string \<Rightarrow> obj \<Rightarrow> nat \<Rightarrow> effect" where
  "first_call jobId job k =
     (if k = 1 then PostBase (case stop_payload job of None \<Rightarrow> [] | Some payload \<Rightarrow> payload)
      else if k = 2 then DockerExec Node (str_of (job ''containerName''))
      else if k = 3 then DockerPort (str_of (job ''containerName''))
      else if k = 4 then DockerStop (str_of (job ''containerName''))
      else SigTerm jobId)"

definition via_of :: "reply \<Rightarrow> string" where
  "via_of r = (case r of Reply code body \<Rightarrow> str_of (map_of body ''via''))"

definition via_name :: "nat \<Rightarrow> string" where
  "via_name k =
     (if k = 1 then ''stop_record_http_base''
      else if k = 2 then ''stop_record_docker_exec''
      else if k = 3 then ''stop_record_http_container''
      else if k = 4 then ''docker_stop_name''
      else if k = 5 then ''local_kill'' else [])"

definition status_of :: "sys \<Rightarrow> string \<Rightarrow> jsval option" where
  "status_of s jid = the_job (JOBS s) jid ''status''"

text \<open>The effects a handler adds to the trace of the state it starts from.\<close>

definition added :: "sys \<Rightarrow> sys \<Rightarrow> effect list" where
  "added s s' = drop (length (trace s)) (trace s')"

section \<open>Requests: the body parser, the key check and the routes\<close>

text \<open>
  What \<open>express.json({ limit: "1mb" })\<close> makes of the body of a request: it passes the
  request on (\<open>Passed\<close>: no JSON body, or one that parses), or fails on malformed JSON
  (\<open>Malformed\<close>) or on a body above the limit (\<open>TooLarge\<close>).
\<close>

datatype body_state = Passed | Malformed | TooLarge

record request =
  meth :: string
  path :: string
  x_api_key :: "string option"    \<comment> \<open>\<open>req.header("X-API-Key")\<close>\<close>
  parsed :: body_state

definition startsWith :: "string \<Rightarrow> string \<Rightarrow> bool" where
  "startsWith s pre = (take (length pre) s = pre)"

definition endsWith :: "string \<Rightarrow> string \<Rightarrow> bool" where
  "endsWith s suf = (length suf \<le> length s \<and> drop (length s - length suf) s = suf)"

text \<open>
  \<^verbatim>\<open>
  // API key (except health / SSE logs)
  app.use((req, res, next) => {
    if (req.path === "/health" || (req.path.startsWith("/jobs/") && req.path.endsWith("/logs"))) return next();
    const key = req.header("X-API-Key");
    if (!key || key !== API_KEY) return res.status(401).json({ success: false, error: "unauthorized" });
    next();
  });\<close>
  \<open>None\<close> is \<open>next()\<close>.
\<close>

definition api_key_check :: "config \<Rightarrow> request \<Rightarrow> reply option" where
  "api_key_check cfg req =
     (if path req = ''/health'' \<or> (startsWith (path req) ''/jobs/'' \<and> endsWith (path req) ''/logs'')
      then None
      else if (case x_api_key req of None \<Rightarrow> True | Some key \<Rightarrow> key = [] \<or> key \<noteq> API_KEY cfg)
      then Some (Reply 401 [(''success'', Bool False), (''error'', Str ''unauthorized'')])
      else None)"

text \<open>
  The routes that app.js registers on \<open>app\<close>, in order; \<open>app\<close> is not exported, so these
  are all the routes of the service. A segment that starts with a colon is a parameter.
\<close>

datatype handler = Health | PostJobs | JobStatus | JobStop | PresignGet

definition ROUTES :: "(string \<times> string list \<times> handler) list" where
  "ROUTES =
    [ (''GET'',  [''health''], Health),
      (''POST'', [''jobs''], PostJobs),
      (''GET'',  [''jobs'', '':id'', ''status''], JobStatus),
      (''POST'', [''jobs'', '':id'', ''stop''], JobStop),
      (''GET'',  [''s3'', ''presign-get''], PresignGet) ]"

text \<open>
  Matching as Express does by default: segment by segment, letters compared without case,
  a parameter taking one non-empty segment, one trailing slash allowed.
\<close>

fun segments_match :: "string list \<Rightarrow> string list \<Rightarrow> bool" where
  "segments_match [] [] = True"
| "segments_match [] [seg] = (seg = [])"
| "segments_match (pat # pats) (seg # segs) =
     ((if startsWith pat '':'' then seg \<noteq> [] else map canon pat = map canon seg)
      \<and> segments_match pats segs)"
| "segments_match pats segs = False"

text \<open>A route registered with \<open>app.get\<close> also answers \<open>HEAD\<close>.\<close>

definition method_matches :: "string \<Rightarrow> string \<Rightarrow> bool" where
  "method_matches m requested = (m = requested \<or> (m = ''GET'' \<and> requested = ''HEAD''))"

fun find_route :: "(string \<times> string list \<times> handler) list \<Rightarrow> request \<Rightarrow> handler option" where
  "find_route [] req = None"
| "find_route ((m, pats, h) # rs) req =
     (if method_matches m (meth req) \<and> startsWith (path req) ''/'' \<and>
         segments_match pats (split_on (CHR ''/'') (drop 1 (path req)))
      then Some h else find_route rs req)"

text \<open>
  The middleware in the order of \<open>app.use\<close>: the body parser (line 319), the key check,
  the routes. A failure of the body parser goes to the error handler of Express, which
  answers 400 or 413 with a page of its own (the body is left out here) before the key
  is looked at.
\<close>

definition json_body :: "request \<Rightarrow> reply option" where
  "json_body req =
     (case parsed req of
        Passed \<Rightarrow> None
      | Malformed \<Rightarrow> Some (Reply 400 [])
      | TooLarge \<Rightarrow> Some (Reply 413 []))"

datatype routed = Rejected reply | To handler | NotFound

definition route :: "config \<Rightarrow> request \<Rightarrow> routed" where
  "route cfg req =
     (case json_body req of
        Some r \<Rightarrow> Rejected r
      | None \<Rightarrow>
          (case api_key_check cfg req of
             Some r \<Rightarrow> Rejected r
           | None \<Rightarrow> (case find_route ROUTES req of None \<Rightarrow> NotFound | Some h \<Rightarrow> To h)))"

section \<open>The process as a sequence of events\<close>

text \<open>
  Everything that happens to a job is one of the callbacks above, run at some clock
  reading. An event carries what the outside supplies to the callback.
\<close>

datatype event =
    Submit string "jsval \<times> jsval \<times> jsval" bool string string spawned
  | ChildSpawn string
  | ChildData string string string "string \<Rightarrow> nat option"
  | PortRetry string string nat "nat option"
  | GuardTick string
  | ChildError string string
  | ChildExit string "int option" "string option"
  | ChildClose string "int option" "string option" fs
  | StopRequest string stop_world

fun step :: "config \<Rightarrow> sys \<Rightarrow> int \<times> event \<Rightarrow> sys" where
  "step cfg s (now, Submit jid body script_found runPath recordingsDir spawn) =
     fst (post_jobs s jid now body script_found runPath recordingsDir spawn)"
| "step cfg s (now, ChildSpawn jid) = on_spawn s jid now"
| "step cfg s (now, ChildData jid src raw port) = onData s jid now port src raw"
| "step cfg s (now, PortRetry jid cname attempt hp) = ensureHostPort8080 s jid now cname attempt hp"
| "step cfg s (now, GuardTick jid) = guard_tick cfg s jid now"
| "step cfg s (now, ChildError jid err) = on_error s jid now err"
| "step cfg s (now, ChildExit jid code signal) = on_exit s jid code signal"
| "step cfg s (now, ChildClose jid code signal f) = on_close cfg f s jid now code signal"
| "step cfg s (now, StopRequest jid w) = fst (post_jobs_stop cfg w s jid now)"

definition run :: "config \<Rightarrow> sys \<Rightarrow> (int \<times> event) list \<Rightarrow> sys" where
  "run cfg s evs = foldl (step cfg) s evs"

text \<open>The job an event is about, and the statuses of section 4.5.\<close>

fun job_of :: "event \<Rightarrow> string" where
  "job_of (Submit jid body script_found runPath recordingsDir spawn) = jid"
| "job_of (ChildSpawn jid) = jid"
| "job_of (ChildData jid src raw port) = jid"
| "job_of (PortRetry jid cname attempt hp) = jid"
| "job_of (GuardTick jid) = jid"
| "job_of (ChildError jid err) = jid"
| "job_of (ChildExit jid code signal) = jid"
| "job_of (ChildClose jid code signal f) = jid"
| "job_of (StopRequest jid w) = jid"

text \<open>
  The transitions of the state machine of section 4.5: \<open>pending\<close> to \<open>running\<close>, \<open>running\<close>
  to \<open>done\<close>, \<open>error\<close>, \<open>timeout\<close> or \<open>stopping\<close>, \<open>stopping\<close> to \<open>done\<close> or \<open>error\<close>.
\<close>

definition edge :: "jsval option \<Rightarrow> jsval option \<Rightarrow> bool" where
  "edge a b =
     (a = Some (Str ''pending'') \<and> b = Some (Str ''running'') \<or>
      a = Some (Str ''running'') \<and>
        b \<in> {Some (Str ''done''), Some (Str ''error''), Some (Str ''timeout''), Some (Str ''stopping'')} \<or>
      a = Some (Str ''stopping'') \<and> b \<in> {Some (Str ''done''), Some (Str ''error'')})"

text \<open>
  The statuses an operation writes: the literals of its \<open>setJob\<close> calls. \<open>is_submit\<close>: the
  event is a submission, which makes its own job (\<open>newJobId\<close> draws a fresh random
  identifier each time). \<open>stop_succeeds\<close>: the event is a stop request and the handler
  answers it with success.
\<close>

fun may_set :: "event \<Rightarrow> jsval option set" where
  "may_set (Submit jid body script_found runPath recordingsDir spawn) =
     {Some (Str ''pending''), Some (Str ''running'')}"
| "may_set (GuardTick jid) = {Some (Str ''timeout'')}"
| "may_set (ChildError jid err) = {Some (Str ''error'')}"
| "may_set (ChildClose jid code signal f) = {Some (Str ''done''), Some (Str ''error'')}"
| "may_set (StopRequest jid w) = {Some (Str ''stopping'')}"
| "may_set e = {}"

fun is_submit :: "event \<Rightarrow> bool" where
  "is_submit (Submit jid body script_found runPath recordingsDir spawn) = True"
| "is_submit e = False"

fun stop_succeeds :: "config \<Rightarrow> sys \<Rightarrow> int \<Rightarrow> event \<Rightarrow> bool" where
  "stop_succeeds cfg s now (StopRequest jid w) = succeeded (snd (post_jobs_stop cfg w s jid now))"
| "stop_succeeds cfg s now e = False"

subsection \<open>A sample deployment\<close>

text \<open>
  The default limits of app.js (15 minutes idle, 2 hours in all), a configured
  control-plane base, a recordings directory with one recording, and an outside where
  only the control-plane base answers. In \<open>fs_dangling\<close> the directory has a second entry
  of the identifier shape that cannot be examined (a link whose target is gone); in
  \<open>w_down\<close> nothing answers and the signal cannot be sent. \<open>running0\<close> is the state after
  one submission, \<open>pending0\<close> the state after a submission in which \<open>spawn\<close> threw.
\<close>

definition cfg0 :: config where
  "cfg0 = \<lparr>BOT_IDLE_TIMEOUT_MS = 900000, BOT_MAX_TIMEOUT_MS = 7200000,
     MEET_BOT_BASE = ''http://meetbot:8080'', ALLOW_DOCKER_STOP = True, API_KEY = ''secret'',
     DEFAULT_RECORDINGS_DIR = ''/app/recordings''\<rparr>"

definition fs0 :: fs where
  "fs0 = \<lparr>readdir = (\<lambda>d. if d = ''/app/recordings''
                          then Some [''ABCDEF12-3456-7890-abcd-ef1234567890'', ''tmp''] else None),
          mtimeMs = (\<lambda>p. if p = ''/app/recordings/ABCDEF12-3456-7890-abcd-ef1234567890''
                          then Some (8001 / 2) else None)\<rparr>"

definition fs_empty :: fs where
  "fs_empty = \<lparr>readdir = (\<lambda>d. if d = ''/app/recordings'' then Some [] else None),
               mtimeMs = (\<lambda>p. None)\<rparr>"

definition fs_dangling :: fs where
  "fs_dangling = \<lparr>readdir = (\<lambda>d. if d = ''/app/recordings''
                          then Some [''ABCDEF12-3456-7890-abcd-ef1234567890'',
                                     ''00000000-0000-0000-0000-000000000000''] else None),
          mtimeMs = (\<lambda>p. if p = ''/app/recordings/ABCDEF12-3456-7890-abcd-ef1234567890''
                          then Some (8001 / 2) else None)\<rparr>"

definition w0 :: stop_world where
  "w0 = \<lparr>post_base = Some (Str ''ok''), exec_result = (\<lambda>t. (None, [])), host_port = None,
          container_ip = None, post_host_port = None, post_ip = None,
          docker_stop_ok = False, sigterm_ok = False\<rparr>"

definition w_down :: stop_world where
  "w_down = \<lparr>post_base = None, exec_result = (\<lambda>t. (None, [])), host_port = None,
          container_ip = None, post_host_port = None, post_ip = None,
          docker_stop_ok = False, sigterm_ok = False\<rparr>"

definition submit0 :: "int \<times> event" where
  "submit0 = (1000, Submit ''j1'' (Str ''https://meet.example/abc'', Undefined, Undefined) True
                      ''/app/run_bot.sh'' ''/app/recordings'' (Child (Some 4242)))"

definition running0 :: sys where
  "running0 = step cfg0 init_sys submit0"

definition pending0 :: sys where
  "pending0 = step cfg0 init_sys
     (1000, Submit ''j1'' (Str ''https://meet.example/abc'', Undefined, Undefined) True
              ''/app/run_bot.sh'' ''/app/recordings'' Throws)"

subsection \<open>Output that keeps coming\<close>

text \<open>
  A stretch of events in which job \<open>jid\<close> is never silent for as long as \<open>limit\<close>: every
  chunk of its output and every run of its guard comes less than \<open>limit\<close> after its
  latest chunk before (\<open>prev\<close> is the time of the latest chunk so far). Events of other
  jobs may come in between at any time, and so may the \<open>spawn\<close> event of the job and the
  retries of its port query; its other events (exit, error, stop request) end the
  stretch. \<open>young\<close>: every event comes at most \<open>limit\<close> after \<open>start\<close>.
\<close>

fun quiet :: "string \<Rightarrow> int \<Rightarrow> int \<Rightarrow> (int \<times> event) list \<Rightarrow> bool" where
  "quiet jid limit prev [] = True"
| "quiet jid limit prev ((t, e) # es) =
     (if job_of e \<noteq> jid then quiet jid limit prev es
      else (case e of
              ChildData j src raw port \<Rightarrow> t - prev < limit \<and> quiet jid limit t es
            | GuardTick j \<Rightarrow> t - prev < limit \<and> quiet jid limit prev es
            | ChildSpawn j \<Rightarrow> quiet jid limit prev es
            | PortRetry j cname attempt hp \<Rightarrow> quiet jid limit prev es
            | _ \<Rightarrow> False))"

definition young :: "int \<Rightarrow> int \<Rightarrow> (int \<times> event) list \<Rightarrow> bool" where
  "young limit start evs = list_all (\<lambda>te. fst te - start \<le> limit) evs"

definition error_of :: "sys \<Rightarrow> string \<Rightarrow> jsval option" where
  "error_of s jid = the_job (JOBS s) jid ''error''"

definition uuid_of :: "sys \<Rightarrow> string \<Rightarrow> jsval option" where
  "uuid_of s jid = the_job (JOBS s) jid ''uuid''"

definition exited0 :: "int option \<Rightarrow> string option \<Rightarrow> sys" where
  "exited0 code signal = step cfg0 running0 (5000, ChildExit ''j1'' code signal)"

section \<open>Identifier extraction and terminal colouring\<close>

lemma sgr_tail_append:
  "rmatch [Star DigitSemi, Chr (CHR ''m'')] xs = Some (g, r) \<Longrightarrow>
   rmatch [Star DigitSemi, Chr (CHR ''m'')] (xs @ rest) = Some (g, r @ rest)"
proof (induction xs)
  case Nil
  then show ?case by simp
next
  case (Cons d ds)
  show ?case
  proof (cases "in_cls DigitSemi d")
    case True
    then have dm: "d \<noteq> CHR ''m''" by auto
    from Cons.prems True dm have "rmatch [Star DigitSemi, Chr (CHR ''m'')] ds = Some (g, r)"
      by (auto split: option.splits)
    then have "rmatch [Star DigitSemi, Chr (CHR ''m'')] (ds @ rest) = Some (g, r @ rest)"
      by (rule Cons.IH)
    with True show ?thesis by simp
  next
    case False
    with Cons.prems show ?thesis by (auto split: if_splits)
  qed
qed

lemma sgr_append:
  assumes "is_sgr q"
  shows "rmatch SGR (q @ rest) = Some ([], rest) \<and> q \<noteq> []"
proof -
  from assms obtain xs where q: "q = ESC # CHR ''['' # xs"
    and t: "rmatch [Star DigitSemi, Chr (CHR ''m'')] xs = Some ([], [])"
    unfolding is_sgr_def SGR_def
    by (auto split: list.splits if_splits)
  from sgr_tail_append [OF t, of rest] q show ?thesis
    by (simp add: SGR_def)
qed

lemma strip_sgr: "is_sgr q \<Longrightarrow> replace_empty SGR (q @ rest) = replace_empty SGR rest"
proof -
  assume a: "is_sgr q"
  from sgr_append [OF a, of rest] obtain c cs where q: "q = c # cs"
    and m: "rmatch SGR (q @ rest) = Some ([], rest)"
    by (cases q) auto
  from m q show ?thesis by simp
qed

lemma strip_text: "ESC \<notin> set t \<Longrightarrow> replace_empty SGR (t @ rest) = t @ replace_empty SGR rest"
  by (induction t) (auto simp: SGR_def)

lemma stripAnsi_render: "well_coloured ps \<Longrightarrow> stripAnsi (render ps) = plain ps"
  unfolding stripAnsi_def
proof (induction ps rule: well_coloured.induct)
  case 1
  then show ?case by simp
next
  case (2 t ps)
  then show ?case by (simp add: strip_text)
next
  case (3 q ps)
  then show ?case by (simp add: strip_sgr)
qed

lemma plain_no_esc: "well_coloured ps \<Longrightarrow> ESC \<notin> set (plain ps)"
  by (induction ps rule: well_coloured.induct) auto

lemma stripAnsi_plain: "ESC \<notin> set s \<Longrightarrow> stripAnsi s = s"
  using strip_text [of s "[]"] by (simp add: stripAnsi_def)

lemma replace_no_sgr: "no_sgr s \<Longrightarrow> replace_empty SGR s = s"
  by (induction s) simp_all

lemma replace_shorter: "length (replace_empty p s) \<le> length s"
proof (induction p s rule: replace_empty.induct)
  case (1 p)
  then show ?case by simp
next
  case (2 p c cs)
  show ?case
  proof (cases "rmatch p (c # cs)")
    case None
    with 2 show ?thesis by simp
  next
    case (Some gr)
    obtain g r where gr: "gr = (g, r)" by (cases gr)
    show ?thesis
    proof (cases "length r < length (c # cs)")
      case True
      with 2(2) [OF Some gr [symmetric]] Some gr show ?thesis by simp
    next
      case False
      with 2(3) [OF Some gr [symmetric]] Some gr show ?thesis by simp
    qed
  qed
qed

lemma sgr_tail_rest:
  "rmatch [Star DigitSemi, Chr (CHR ''m'')] s = Some (g, r) \<Longrightarrow> length r < length s"
proof (induction s)
  case Nil
  then show ?case by simp
next
  case (Cons d ds)
  show ?case
  proof (cases "rmatch [Star DigitSemi, Chr (CHR ''m'')] ds")
    case None
    with Cons.prems show ?thesis by (auto split: if_splits)
  next
    case (Some gr)
    with Cons.prems have "rmatch [Star DigitSemi, Chr (CHR ''m'')] ds = Some (g, r) \<or> r = ds"
      by (auto split: if_splits)
    with Cons.IH show ?thesis by auto
  qed
qed

lemma sgr_rest: "rmatch SGR (c # cs) = Some (g, r) \<Longrightarrow> length r < length (c # cs)"
  using sgr_tail_rest [of "tl cs" g r]
  by (cases cs) (auto simp: SGR_def split: if_splits)

lemma replace_sgr_changes: "\<not> no_sgr s \<Longrightarrow> replace_empty SGR s \<noteq> s"
proof (induction s)
  case Nil
  then show ?case by simp
next
  case (Cons c cs)
  show ?case
  proof (cases "rmatch SGR (c # cs)")
    case None
    with Cons show ?thesis by simp
  next
    case (Some gr)
    obtain g r where gr: "gr = (g, r)" by (cases gr)
    show ?thesis
    proof (cases "length r < length (c # cs)")
      case True
      have "length (replace_empty SGR r) \<le> length r" by (rule replace_shorter)
      with True have "length (replace_empty SGR r) \<noteq> length (c # cs)" by simp
      then have "replace_empty SGR r \<noteq> c # cs" by auto
      with Some gr True show ?thesis by simp
    next
      case False
      with sgr_rest [of c cs g r] Some gr show ?thesis by simp
    qed
  qed
qed

text \<open>
  One pass of \<open>stripAnsi\<close> leaves a text unchanged exactly when the text holds no colour
  sequence; and a line made of text without the escape character with colour sequences
  put anywhere into it is left without one.
\<close>

lemma stripAnsi_fixpoint: "(stripAnsi s = s) = no_sgr s"
  using replace_no_sgr [of s] replace_sgr_changes [of s] by (auto simp: stripAnsi_def)

lemma no_esc_no_sgr: "ESC \<notin> set s \<Longrightarrow> no_sgr s"
  by (induction s) (auto simp: SGR_def)

lemma coloured_no_sgr: "well_coloured ps \<Longrightarrow> no_sgr (stripAnsi (render ps))"
  by (simp add: stripAnsi_render no_esc_no_sgr plain_no_esc)

text \<open>
  Claim C10, as amended. For every line that the pass of \<open>stripAnsi\<close> leaves without a
  colour sequence \<open>ESC [ digits-and-semicolons m\<close>, \<open>extractUuidFrom\<close> gives on the line
  what it gives on the line with its colour sequences removed: an identifier wrapped in
  terminal colouring is still found, also next to other escape sequences. Only the
  lines in which removing a sequence makes a new one are left out.
\<close>

theorem extractUuidFrom_strip_invariant:
  "no_sgr (stripAnsi line) \<Longrightarrow> extractUuidFrom line = extractUuidFrom (stripAnsi line)"
  by (simp add: extractUuidFrom_def stripAnsi_def replace_no_sgr)

theorem extractUuidFrom_strip_invariant_witness:
  "no_sgr (stripAnsi (ESC # ''[2K'' @ ESC # ''[1;32m'' @ ''session ID: '' @ ESC # ''[0m'' @
        ''ABCDEF12-3456-7890-abcd-ef1234567890'')) \<and>
   extractUuidFrom (ESC # ''[2K'' @ ESC # ''[1;32m'' @ ''session ID: '' @ ESC # ''[0m'' @
        ''ABCDEF12-3456-7890-abcd-ef1234567890'')
     = Some ''ABCDEF12-3456-7890-abcd-ef1234567890''"
proof -
  let ?line = "ESC # ''[2K'' @ ESC # ''[1;32m'' @ ''session ID: '' @ ESC # ''[0m'' @
        ''ABCDEF12-3456-7890-abcd-ef1234567890''"
  have s: "stripAnsi ?line = ESC # ''[2Ksession ID: ABCDEF12-3456-7890-abcd-ef1234567890''"
    by code_simp
  have n: "no_sgr (stripAnsi ?line)"
    unfolding s by code_simp
  have v: "extractUuidFrom (stripAnsi ?line) = Some ''ABCDEF12-3456-7890-abcd-ef1234567890''"
    unfolding s by code_simp
  from extractUuidFrom_strip_invariant [OF n] v n show ?thesis by simp
qed

text \<open>
  The claim as stated fails: \<open>stripAnsi\<close> is one pass from left to right, and removing a
  sequence can join the text around it into a new sequence. In the line below the
  sequence \<open>ESC[0m\<close> stands inside the fragments \<open>ESC[\<close> and \<open>m\<close>; after the pass \<open>ESC[m\<close>
  is left between the label and the identifier and the line gives no identifier, while
  the same line with its colour sequences removed gives one.
\<close>

theorem extractUuidFrom_nested_counterexample:
  "extractUuidFrom
     (''session ID: '' @ ESC # ''['' @ ESC # ''[0mm'' @ ''ABCDEF12-3456-7890-abcd-ef1234567890'')
   \<noteq> extractUuidFrom (stripAnsi
     (''session ID: '' @ ESC # ''['' @ ESC # ''[0mm'' @ ''ABCDEF12-3456-7890-abcd-ef1234567890''))"
  by code_simp

section \<open>The registry\<close>

lemma the_job_setJob:
  "the_job (JOBS (setJob s jid now patch)) jid = merged now (the_job (JOBS s) jid) patch"
  by (simp add: setJob_def the_job_def)

lemma the_job_setJob_other:
  "other \<noteq> jid \<Longrightarrow> the_job (JOBS (setJob s jid now patch)) other = the_job (JOBS s) other"
  by (simp add: setJob_def the_job_def)

lemma merged_key:
  "merged now j patch k =
     (case patch k of Some v \<Rightarrow> Some v
      | None \<Rightarrow> (case j k of Some v \<Rightarrow> Some v
                 | None \<Rightarrow> if k = ''updatedAt'' then Some (Num now) else None))"
  by (simp add: merged_def map_add_def split: option.splits)

lemma JOBS_emit [simp]: "JOBS (emit s fx) = JOBS s"
  by (simp add: emit_def)

lemma the_job_pushLog:
  "the_job (JOBS (pushLog s jid now line)) jid =
     (merged now (the_job (JOBS s) jid) Map.empty)
       (''logs'' \<mapsto> Arr (splice_oldest (logs_of (the_job (JOBS s) jid) @ [line])))"
proof -
  have l: "logs_of (merged now (the_job (JOBS s) jid) Map.empty) = logs_of (the_job (JOBS s) jid)"
    by (simp add: logs_of_def merged_key split: option.splits)
  show ?thesis
    by (simp add: pushLog_def Let_def the_job_setJob l) (simp add: the_job_def)
qed

lemma logs_of_pushLog:
  "logs_of (the_job (JOBS (pushLog s jid now line)) jid) =
     splice_oldest (logs_of (the_job (JOBS s) jid) @ [line])"
  by (simp add: the_job_pushLog) (simp add: logs_of_def)

lemma splice_oldest_eq: "splice_oldest l = drop (length l - 5000) l"
  by (simp add: splice_oldest_def)

lemma last_lines_step:
  "drop (length (drop (length xs - n) xs @ [y]) - n) (drop (length xs - n) xs @ [y]) =
   drop (length (xs @ [y]) - n) (xs @ [y])"
  by (cases "length xs \<le> n") (auto simp: Suc_diff_le)

lemma logs_of_push_many:
  "logs_of (the_job (JOBS (fold (\<lambda>(t, l) st. pushLog st jid t l) tls (pushLog s jid now line))) jid) =
     drop (length (logs_of (the_job (JOBS s) jid) @ line # map snd tls) - 5000)
          (logs_of (the_job (JOBS s) jid) @ line # map snd tls)"
proof (induction tls rule: rev_induct)
  case Nil
  show ?case by (simp add: logs_of_pushLog splice_oldest_eq)
next
  case (snoc x xs)
  obtain t l where x: "x = (t, l)" by (cases x)
  let ?old = "logs_of (the_job (JOBS s) jid) @ line # map snd xs"
  have "logs_of (the_job (JOBS (fold (\<lambda>(t, l) st. pushLog st jid t l) (xs @ [x]) (pushLog s jid now line))) jid)
        = splice_oldest (drop (length ?old - 5000) ?old @ [l])"
    using snoc.IH by (simp add: x logs_of_pushLog)
  also have "\<dots> = drop (length (?old @ [l]) - 5000) (?old @ [l])"
    unfolding splice_oldest_eq by (rule last_lines_step)
  finally show ?case by (simp add: x)
qed

text \<open>
  Claim C9. After every call of \<open>pushLog\<close> the job's buffer holds at most 5000 lines, and
  after any run of calls it holds the most recent lines in arrival order: the lines held
  before followed by the lines pushed, without the oldest ones beyond 5000.
\<close>

theorem pushLog_keeps_newest:
  "length (logs_of (the_job (JOBS (pushLog s jid now line)) jid)) \<le> 5000 \<and>
   logs_of (the_job (JOBS (fold (\<lambda>(t, l) st. pushLog st jid t l) tls (pushLog s jid now line))) jid) =
     drop (length (logs_of (the_job (JOBS s) jid) @ line # map snd tls) - 5000)
          (logs_of (the_job (JOBS s) jid) @ line # map snd tls)"
  by (simp add: logs_of_push_many logs_of_pushLog splice_oldest_eq)

lemma setJob_keeps_updatedAt:
  assumes "the_job (JOBS s) jid ''updatedAt'' = Some v" and "patch ''updatedAt'' = None"
  shows "the_job (JOBS (setJob s jid now patch)) jid ''updatedAt'' = Some v"
  using assms by (simp add: the_job_setJob merged_key)

text \<open>
  Claim C6 fails on the code. \<open>setJob\<close> writes \<open>updatedAt: now\<close> as the first property of
  the literal, before the spread of the stored job, so the stored \<open>updatedAt\<close> wins
  whenever the job has one: a job created at time 1000 and patched at time 2000 still has
  \<open>updatedAt = 1000\<close>, with the patch applied.
\<close>

theorem setJob_stale_updatedAt:
  "the_job (JOBS (setJob
       (fst (post_jobs init_sys ''j1'' 1000 (Str ''https://meet.example/abc'', Undefined, Undefined)
               True ''/app/run_bot.sh'' ''/app/recordings'' (Child (Some 4242))))
       ''j1'' 2000 [''status'' \<mapsto> Str ''stopping''])) ''j1'' ''updatedAt'' = Some (Num 1000)
   \<and> the_job (JOBS (setJob
       (fst (post_jobs init_sys ''j1'' 1000 (Str ''https://meet.example/abc'', Undefined, Undefined)
               True ''/app/run_bot.sh'' ''/app/recordings'' (Child (Some 4242))))
       ''j1'' 2000 [''status'' \<mapsto> Str ''stopping''])) ''j1'' ''status'' = Some (Str ''stopping'')"
  by (simp add: post_jobs_def create_pending_def the_job_setJob merged_key init_sys_def Let_def)

section \<open>What each operation leaves alone\<close>

text \<open>
  A property of a job other than \<open>updatedAt\<close> changes only when a patch names it (and
  \<open>logs\<close> only in \<open>pushLog\<close>). The lemmas give the value of a property after each
  operation.
\<close>

lemma fld_setJob:
  "k \<noteq> ''updatedAt'' \<Longrightarrow>
   the_job (JOBS (setJob s jid now patch)) j k =
     (if j = jid then (case patch k of Some v \<Rightarrow> Some v | None \<Rightarrow> the_job (JOBS s) jid k)
      else the_job (JOBS s) j k)"
  by (simp add: setJob_def the_job_def merged_key split: option.splits)

lemma fld_pushLog:
  "k \<noteq> ''updatedAt'' \<Longrightarrow> k \<noteq> ''logs'' \<Longrightarrow>
   the_job (JOBS (pushLog s jid now line)) j k = the_job (JOBS s) j k"
proof (cases "j = jid")
  case True
  assume "k \<noteq> ''updatedAt''" "k \<noteq> ''logs''"
  then show ?thesis
    by (simp add: True the_job_pushLog merged_key split: option.splits)
next
  case False
  then show ?thesis
    by (simp add: pushLog_def Let_def the_job_def setJob_def)
qed

lemma the_job_init [simp]: "the_job (JOBS init_sys) jid k = None"
  by (simp add: the_job_def init_sys_def)

lemma trace_setJob [simp]: "trace (setJob s jid now patch) = trace s"
  by (simp add: setJob_def)

lemma trace_emit [simp]: "trace (emit s fx) = trace s @ fx"
  by (simp add: emit_def)

lemma JOBS_stop_guard [simp]: "JOBS (stop_guard s jid) = JOBS s"
  by (simp add: stop_guard_def split: option.splits)

lemma JOBS_touch [simp]: "JOBS (touch s jid now) = JOBS s"
  by (simp add: touch_def split: option.splits)

lemma JOBS_on_exit [simp]: "JOBS (on_exit s jid code signal) = JOBS s"
  by (simp add: on_exit_def split: option.splits)

lemma fld_ensureHostPort8080:
  "k \<noteq> ''updatedAt'' \<Longrightarrow> k \<noteq> ''logs'' \<Longrightarrow> k \<noteq> ''hostPort8080'' \<Longrightarrow>
   the_job (JOBS (ensureHostPort8080 s jid now cname attempt hp)) j k = the_job (JOBS s) j k"
  by (simp add: ensureHostPort8080_def Let_def fld_pushLog fld_setJob)

lemma fld_fold_pushLog:
  "k \<noteq> ''updatedAt'' \<Longrightarrow> k \<noteq> ''logs'' \<Longrightarrow>
   the_job (JOBS (fold (\<lambda>l st. pushLog st jid now (f l)) ls s)) j k = the_job (JOBS s) j k"
  by (induction ls arbitrary: s) (simp_all add: fld_pushLog)

lemma fld_onData_line_other:
  "k \<notin> {''updatedAt'', ''logs'', ''hostPort8080'', ''uuid'', ''containerName''} \<Longrightarrow>
   the_job (JOBS (onData_line s jid now port line)) j k = the_job (JOBS s) j k"
  by (simp add: onData_line_def Let_def fld_ensureHostPort8080 fld_setJob
           split: option.splits)

lemma fld_fold_onData_line_other:
  "k \<notin> {''updatedAt'', ''logs'', ''hostPort8080'', ''uuid'', ''containerName''} \<Longrightarrow>
   the_job (JOBS (fold (\<lambda>line st. onData_line st jid now port line) ls s)) j k
     = the_job (JOBS s) j k"
  by (induction ls arbitrary: s) (simp_all add: fld_onData_line_other del: insert_iff)

lemma fld_onData_other:
  "k \<notin> {''updatedAt'', ''logs'', ''hostPort8080'', ''uuid'', ''containerName''} \<Longrightarrow>
   the_job (JOBS (onData s jid now port src raw)) j k = the_job (JOBS s) j k"
proof -
  assume k: "k \<notin> {''updatedAt'', ''logs'', ''hostPort8080'', ''uuid'', ''containerName''}"
  then have k2: "k \<noteq> ''updatedAt''" "k \<noteq> ''logs''" by auto
  show ?thesis
    unfolding onData_def Let_def
    by (simp only: fld_fold_onData_line_other [OF k] fld_fold_pushLog [OF k2] JOBS_touch)
qed

text \<open>The variables of a job's closure change only in \<open>onData\<close>, the guard and the exit handlers.\<close>

lemma VARS_setJob [simp]: "VARS (setJob s jid now patch) = VARS s"
  by (simp add: setJob_def)

lemma VARS_emit [simp]: "VARS (emit s fx) = VARS s"
  by (simp add: emit_def)

lemma VARS_pushLog [simp]: "VARS (pushLog s jid now line) = VARS s"
  by (simp add: pushLog_def Let_def)

lemma VARS_ensureHostPort8080 [simp]: "VARS (ensureHostPort8080 s jid now cname attempt hp) = VARS s"
  by (simp add: ensureHostPort8080_def Let_def)

lemma VARS_onData_line [simp]: "VARS (onData_line s jid now port line) = VARS s"
  by (simp add: onData_line_def Let_def split: option.splits)

lemma VARS_fold_pushLog [simp]:
  "VARS (fold (\<lambda>l st. pushLog st jid now (f l)) ls s) = VARS s"
  by (induction ls arbitrary: s) simp_all

lemma VARS_fold_onData_line [simp]:
  "VARS (fold (\<lambda>line st. onData_line st jid now port line) ls s) = VARS s"
  by (induction ls arbitrary: s) simp_all

text \<open>Every chunk, from either stream, resets the idle clock.\<close>

lemma VARS_onData:
  "VARS s jid = Some v \<Longrightarrow> VARS (onData s jid now port src raw) jid = Some (v\<lparr>lastActivity := now\<rparr>)"
  by (simp add: onData_def Let_def touch_def)

lemma VARS_stopping [simp]: "VARS (stopping s jid now fx) = VARS s"
  by (simp add: stopping_def)

lemma VARS_post_jobs_stop [simp]: "VARS (fst (post_jobs_stop cfg w s jid now)) = VARS s"
  by (simp add: post_jobs_stop_def split: option.splits prod.splits)

lemma vars_running0:
  "VARS running0 ''j1'' =
     Some \<lparr>lastActivity = 1000, startedAt = 1000, guard = True,
           exitCodeFinal = None, exitSignalFinal = None\<rparr>"
  by (simp add: running0_def submit0_def init_sys_def post_jobs_def create_pending_def Let_def setJob_def)

text \<open>No operation touches the record or the closure of a job other than its own.\<close>

lemma JOBS_setJob_other: "j \<noteq> jid \<Longrightarrow> JOBS (setJob s jid now patch) j = JOBS s j"
  by (simp add: setJob_def)

lemma JOBS_pushLog_other: "j \<noteq> jid \<Longrightarrow> JOBS (pushLog s jid now line) j = JOBS s j"
  by (simp add: pushLog_def Let_def setJob_def)

lemma JOBS_ensureHostPort8080_other:
  "j \<noteq> jid \<Longrightarrow> JOBS (ensureHostPort8080 s jid now cname attempt hp) j = JOBS s j"
  by (simp add: ensureHostPort8080_def Let_def JOBS_pushLog_other JOBS_setJob_other)

lemma JOBS_onData_line_other:
  "j \<noteq> jid \<Longrightarrow> JOBS (onData_line s jid now port line) j = JOBS s j"
  by (simp add: onData_line_def Let_def JOBS_ensureHostPort8080_other JOBS_setJob_other
        split: option.splits)

lemma JOBS_fold_pushLog_other:
  "j \<noteq> jid \<Longrightarrow> JOBS (fold (\<lambda>l st. pushLog st jid now (f l)) ls s) j = JOBS s j"
  by (induction ls arbitrary: s) (simp_all add: JOBS_pushLog_other)

lemma JOBS_fold_onData_line_other:
  "j \<noteq> jid \<Longrightarrow> JOBS (fold (\<lambda>line st. onData_line st jid now port line) ls s) j = JOBS s j"
  by (induction ls arbitrary: s) (simp_all add: JOBS_onData_line_other)

lemma JOBS_onData_other: "j \<noteq> jid \<Longrightarrow> JOBS (onData s jid now port src raw) j = JOBS s j"
  by (simp add: onData_def Let_def JOBS_fold_onData_line_other JOBS_fold_pushLog_other)

lemma JOBS_guard_tick_other: "j \<noteq> jid \<Longrightarrow> JOBS (guard_tick cfg s jid now) j = JOBS s j"
  by (simp add: guard_tick_def Let_def JOBS_pushLog_other JOBS_setJob_other split: option.splits)

lemma JOBS_on_close_other:
  "j \<noteq> jid \<Longrightarrow> JOBS (on_close cfg f s jid now code signal) j = JOBS s j"
  by (simp add: on_close_def Let_def JOBS_pushLog_other JOBS_setJob_other split: option.splits)

lemma JOBS_post_jobs_other:
  "j \<noteq> jid \<Longrightarrow> JOBS (fst (post_jobs s jid now body script_found runPath recordingsDir spawn)) j = JOBS s j"
  by (simp add: post_jobs_def create_pending_def Let_def JOBS_setJob_other
        split: prod.splits spawned.splits)

lemma JOBS_post_jobs_stop_other:
  "j \<noteq> jid \<Longrightarrow> JOBS (fst (post_jobs_stop cfg w s jid now)) j = JOBS s j"
  by (simp add: post_jobs_stop_def stopping_def JOBS_setJob_other split: option.splits prod.splits)

lemma JOBS_step_other: "j \<noteq> job_of e \<Longrightarrow> JOBS (step cfg s (now, e)) j = JOBS s j"
  by (cases e)
     (simp_all add: JOBS_post_jobs_other on_spawn_def JOBS_pushLog_other JOBS_onData_other
        JOBS_ensureHostPort8080_other JOBS_guard_tick_other on_error_def JOBS_setJob_other
        JOBS_on_close_other JOBS_post_jobs_stop_other)

lemma VARS_step_other: "j \<noteq> job_of e \<Longrightarrow> VARS (step cfg s (now, e)) j = VARS s j"
  by (cases e)
     (simp_all add: post_jobs_def create_pending_def Let_def on_spawn_def onData_def touch_def
        guard_tick_def stop_guard_def on_error_def on_exit_def on_close_def
        split: option.splits spawned.splits prod.splits)

section \<open>Discovery of the identifier and of the container name\<close>

lemma uuid_locked_line:
  assumes "truthy (the_job (JOBS s) jid ''uuid'')"
  shows "the_job (JOBS (onData_line s jid now port line)) jid ''uuid'' = the_job (JOBS s) jid ''uuid''"
  using assms
  by (simp add: onData_line_def Let_def fld_ensureHostPort8080 fld_setJob split: option.splits)

lemma cname_locked_line:
  assumes "truthy (the_job (JOBS s) jid ''containerName'')"
  shows "the_job (JOBS (onData_line s jid now port line)) jid ''containerName''
           = the_job (JOBS s) jid ''containerName''"
  using assms
  by (simp add: onData_line_def Let_def fld_ensureHostPort8080 fld_setJob split: option.splits)

lemma uuid_locked_lines:
  "truthy (the_job (JOBS s) jid ''uuid'') \<Longrightarrow>
   the_job (JOBS (fold (\<lambda>line st. onData_line st jid now port line) ls s)) jid ''uuid''
     = the_job (JOBS s) jid ''uuid''"
  by (induction ls arbitrary: s) (simp_all add: uuid_locked_line)

lemma cname_locked_lines:
  "truthy (the_job (JOBS s) jid ''containerName'') \<Longrightarrow>
   the_job (JOBS (fold (\<lambda>line st. onData_line st jid now port line) ls s)) jid ''containerName''
     = the_job (JOBS s) jid ''containerName''"
  by (induction ls arbitrary: s) (simp_all add: cname_locked_line)

text \<open>
  Across lines and chunks the discovery is first-writer-wins: a chunk that arrives when
  the job has an identifier (a container name) leaves it as it is.
\<close>

lemma onData_locked:
  "(truthy (the_job (JOBS s) jid ''uuid'') \<longrightarrow>
      the_job (JOBS (onData s jid now port src raw)) jid ''uuid'' = the_job (JOBS s) jid ''uuid'') \<and>
   (truthy (the_job (JOBS s) jid ''containerName'') \<longrightarrow>
      the_job (JOBS (onData s jid now port src raw)) jid ''containerName''
        = the_job (JOBS s) jid ''containerName'')"
  unfolding onData_def Let_def
  by (simp add: uuid_locked_lines cname_locked_lines fld_fold_pushLog)

lemma container_uuid_overrides:
  assumes "\<not> truthy (the_job (JOBS s) jid ''uuid'')"
    and "\<not> truthy (the_job (JOBS s) jid ''containerName'')"
    and "rsearch_alt CONTAINER_MARK line = Some cname"
    and "isUuidDirName (strip_meetbot cname)"
  shows "the_job (JOBS (onData_line s jid now port line)) jid ''uuid'' = Some (Str (strip_meetbot cname))"
  using assms
  by (simp add: onData_line_def Let_def fld_ensureHostPort8080 fld_setJob split: option.splits)

lemma post_jobs_fresh:
  "k = ''uuid'' \<or> k = ''containerName'' \<Longrightarrow>
   the_job (JOBS (fst (post_jobs init_sys jid now (Str (u # rl), bn, ex) True rp rd (Child pid)))) jid k = None"
  by (auto simp: post_jobs_def create_pending_def Let_def fld_setJob)

text \<open>
  Claim C5 fails on the code inside one line. \<open>onData\<close> reads the job once per line
  (\<open>jcur\<close>) and tests \<open>!jcur.uuid\<close> again after it has stored the identifier found by
  \<open>extractUuidFrom\<close>; when the same line also names a container \<open>meetbot-<id>\<close>, the stale
  test passes and the identifier just recorded is overwritten. On the chunk below the
  first match \<open>AAAAAAAA-...\<close> is recorded and then replaced by \<open>BBBBBBBB-...\<close>, which is the
  job's identifier from then on (the later line with \<open>CCCCCCCC-...\<close> is ignored).
\<close>

theorem onData_same_line_overwrite:
  "extractUuidFrom
     (''bot UUID: AAAAAAAA-1111-2222-3333-444444444444 '' @
      ''::container_name::meetbot-BBBBBBBB-1111-2222-3333-444444444444'')
     = Some ''AAAAAAAA-1111-2222-3333-444444444444''
   \<and> the_job (JOBS (onData
         (fst (post_jobs init_sys ''j1'' 1000 (Str ''https://meet.example/abc'', Undefined, Undefined)
                 True ''/app/run_bot.sh'' ''/app/recordings'' (Child (Some 4242))))
         ''j1'' 2000 (\<lambda>c. None) ''[bot:stdout]''
         ((''bot UUID: AAAAAAAA-1111-2222-3333-444444444444 '' @
           ''::container_name::meetbot-BBBBBBBB-1111-2222-3333-444444444444'') @ [NL] @
          ''bot UUID: CCCCCCCC-1111-2222-3333-444444444444'' @ [NL]))) ''j1'' ''uuid''
     = Some (Str ''BBBBBBBB-1111-2222-3333-444444444444'')"
proof -
  let ?L1 = "''bot UUID: AAAAAAAA-1111-2222-3333-444444444444 '' @
      ''::container_name::meetbot-BBBBBBBB-1111-2222-3333-444444444444''"
  let ?L2 = "''bot UUID: CCCCCCCC-1111-2222-3333-444444444444''"
  let ?s = "fst (post_jobs init_sys ''j1'' 1000 (Str ''https://meet.example/abc'', Undefined, Undefined)
                 True ''/app/run_bot.sh'' ''/app/recordings'' (Child (Some 4242)))"
  let ?s1 = "fold (\<lambda>l st. pushLog st ''j1'' 2000 (''[bot:stdout]'' @ '' '' @ l))
                 (filter (\<lambda>l. l \<noteq> []) [?L1, ?L2, []]) (touch ?s ''j1'' 2000)"
  have t1: "extractUuidFrom ?L1 = Some ''AAAAAAAA-1111-2222-3333-444444444444''"
    by code_simp
  have t2: "rsearch_alt CONTAINER_MARK ?L1 = Some ''meetbot-BBBBBBBB-1111-2222-3333-444444444444''"
    by code_simp
  have t3: "strip_meetbot ''meetbot-BBBBBBBB-1111-2222-3333-444444444444''
              = ''BBBBBBBB-1111-2222-3333-444444444444''"
    by code_simp
  have t4: "isUuidDirName ''BBBBBBBB-1111-2222-3333-444444444444''"
    by code_simp
  have t5: "split_on NL (?L1 @ [NL] @ ?L2 @ [NL]) = [?L1, ?L2, []]"
    by code_simp
  have u0: "the_job (JOBS ?s1) ''j1'' ''uuid'' = None"
    by (subst fld_fold_pushLog) (simp_all add: post_jobs_fresh)
  have c0: "the_job (JOBS ?s1) ''j1'' ''containerName'' = None"
    by (subst fld_fold_pushLog) (simp_all add: post_jobs_fresh)
  have first: "the_job (JOBS (onData_line ?s1 ''j1'' 2000 (\<lambda>c. None) ?L1)) ''j1'' ''uuid''
                 = Some (Str ''BBBBBBBB-1111-2222-3333-444444444444'')"
    using container_uuid_overrides [of ?s1 "''j1''" ?L1 "''meetbot-BBBBBBBB-1111-2222-3333-444444444444''"
            2000 "\<lambda>c. None"] u0 c0 t2 t3 t4
    by simp
  have rest: "the_job (JOBS (fold (\<lambda>line st. onData_line st ''j1'' 2000 (\<lambda>c. None) line) [?L2, []]
                 (onData_line ?s1 ''j1'' 2000 (\<lambda>c. None) ?L1))) ''j1'' ''uuid''
               = Some (Str ''BBBBBBBB-1111-2222-3333-444444444444'')"
    by (subst uuid_locked_lines) (simp_all only: first truthy.simps, simp)
  have "onData ?s ''j1'' 2000 (\<lambda>c. None) ''[bot:stdout]'' (?L1 @ [NL] @ ?L2 @ [NL])
          = fold (\<lambda>line st. onData_line st ''j1'' 2000 (\<lambda>c. None) line) [?L2, []]
                 (onData_line ?s1 ''j1'' 2000 (\<lambda>c. None) ?L1)"
    unfolding onData_def Let_def t5 by (simp only: fold_simps)
  with rest t1 show ?thesis by (simp only: simp_thms)
qed

section \<open>The status of a job\<close>

lemma status_setJob:
  "status_of (setJob s jid now patch) j =
     (if j = jid then (case patch ''status'' of Some v \<Rightarrow> Some v | None \<Rightarrow> status_of s jid)
      else status_of s j)"
  by (simp add: status_of_def fld_setJob split: option.splits)

lemma status_on_spawn [simp]: "status_of (on_spawn s jid now) j = status_of s j"
  by (simp add: on_spawn_def status_of_def fld_pushLog)

lemma status_pushLog [simp]: "status_of (pushLog s jid now line) j = status_of s j"
  by (simp add: status_of_def fld_pushLog)

lemma status_emit [simp]: "status_of (emit s fx) j = status_of s j"
  by (simp add: status_of_def)

lemma status_stop_guard [simp]: "status_of (stop_guard s jid) j = status_of s j"
  by (simp add: status_of_def)

lemma status_on_exit [simp]: "status_of (on_exit s jid code signal) j = status_of s j"
  by (simp add: status_of_def)

lemma status_CHILDREN [simp]: "status_of (s\<lparr>CHILDREN := c\<rparr>) j = status_of s j"
  by (simp add: status_of_def)

lemma status_VARS [simp]: "status_of (s\<lparr>VARS := c\<rparr>) j = status_of s j"
  by (simp add: status_of_def)

lemma status_ensureHostPort8080 [simp]:
  "status_of (ensureHostPort8080 s jid now cname attempt hp) j = status_of s j"
  by (simp add: status_of_def fld_ensureHostPort8080)

lemma status_onData [simp]: "status_of (onData s jid now port src raw) j = status_of s j"
  by (simp add: status_of_def fld_onData_other)

lemma status_guard_tick:
  "status_of (guard_tick cfg s jid now) j =
     (if j = jid \<and> status_of (guard_tick cfg s jid now) j \<noteq> status_of s j
      then Some (Str ''timeout'') else status_of s j)"
  by (simp add: guard_tick_def Let_def status_setJob split: option.splits)

lemma status_on_error:
  "status_of (on_error s jid now err) j = (if j = jid then Some (Str ''error'') else status_of s j)"
  by (simp add: on_error_def status_setJob)

lemma status_on_close:
  "status_of (on_close cfg f s jid now code signal) j = status_of s j \<or>
   j = jid \<and> status_of (on_close cfg f s jid now code signal) j \<in> {Some (Str ''done''), Some (Str ''error'')}"
  by (simp add: on_close_def Let_def status_setJob split: option.splits)

lemma status_create_pending:
  "status_of (create_pending s jid now body recordingsDir) j =
     (if j = jid then Some (Str ''pending'') else status_of s j)"
  by (simp add: create_pending_def status_setJob split: prod.splits)

lemma status_post_jobs:
  "status_of (fst (post_jobs s jid now body script_found runPath recordingsDir spawn)) j =
     (if j = jid \<and> truthy (Some (fst body)) \<and> script_found
      then (case spawn of Child pid \<Rightarrow> Some (Str ''running'') | Throws \<Rightarrow> Some (Str ''pending''))
      else status_of s j)"
  by (simp add: post_jobs_def Let_def status_setJob status_create_pending split: spawned.splits)

lemma status_stopping:
  "status_of (stopping s jid now fx) j = (if j = jid then Some (Str ''stopping'') else status_of s j)"
  by (simp add: stopping_def status_setJob)

lemma status_post_jobs_stop:
  "status_of (fst (post_jobs_stop cfg w s jid now)) j = status_of s j \<or>
   j = jid \<and> status_of (fst (post_jobs_stop cfg w s jid now)) j = Some (Str ''stopping'')"
  by (simp add: post_jobs_stop_def status_stopping split: option.splits prod.splits)

lemma stop_success_stopping:
  "succeeded (snd (post_jobs_stop cfg w s jid now)) \<Longrightarrow>
   status_of (fst (post_jobs_stop cfg w s jid now)) jid = Some (Str ''stopping'')"
  by (auto simp: post_jobs_stop_def succeeded_def stop_unavailable_def status_stopping
        split: option.splits prod.splits)

lemma stop_failure_same:
  "\<not> succeeded (snd (post_jobs_stop cfg w s jid now)) \<Longrightarrow>
   status_of (fst (post_jobs_stop cfg w s jid now)) j = status_of s j"
  by (auto simp: post_jobs_stop_def succeeded_def split: option.splits prod.splits)

lemma status_step_other:
  "j \<noteq> job_of e \<Longrightarrow> status_of (step cfg s (now, e)) j = status_of s j"
proof (cases e)
  case (Submit jid body script_found runPath recordingsDir spawn)
  then show "j \<noteq> job_of e \<Longrightarrow> ?thesis" by (simp add: status_post_jobs)
next
  case (GuardTick jid)
  then show "j \<noteq> job_of e \<Longrightarrow> ?thesis"
    using status_guard_tick [of cfg s jid now j] by (auto split: if_splits)
next
  case (ChildError jid err)
  then show "j \<noteq> job_of e \<Longrightarrow> ?thesis" by (simp add: status_on_error)
next
  case (ChildClose jid code signal f)
  then show "j \<noteq> job_of e \<Longrightarrow> ?thesis"
    using status_on_close [of cfg f s jid now code signal j] by auto
next
  case (StopRequest jid w)
  then show "j \<noteq> job_of e \<Longrightarrow> ?thesis"
    using status_post_jobs_stop [of cfg w s jid now j] by auto
qed simp_all

lemma status_step_same:
  "\<not> is_submit e \<Longrightarrow>
   status_of (step cfg s (now, e)) (job_of e) = status_of s (job_of e) \<or>
   status_of (step cfg s (now, e)) (job_of e) \<in> may_set e \<and>
   (stop_succeeds cfg s now e \<or> status_of (step cfg s (now, e)) (job_of e) \<noteq> Some (Str ''stopping''))"
proof (cases e)
  case (GuardTick jid)
  then show ?thesis using status_guard_tick [of cfg s jid now jid] by (auto split: if_splits)
next
  case (ChildError jid err)
  then show ?thesis by (simp add: status_on_error)
next
  case (ChildClose jid code signal f)
  then show ?thesis using status_on_close [of cfg f s jid now code signal jid] by auto
next
  case (StopRequest jid w)
  then show ?thesis
    using status_post_jobs_stop [of cfg w s jid now jid] stop_failure_same [of cfg w s jid now jid]
    by auto
qed simp_all

text \<open>
  Claim C1, as amended. While a job is \<open>running\<close> or \<open>stopping\<close>, an operation leaves its
  status as it was or sets it to a status of its own along a transition of section 4.5
  (\<open>running\<close> to \<open>done\<close> or \<open>error\<close> at exit reconciliation, to \<open>error\<close> at a child error, to
  \<open>timeout\<close> at watchdog expiry, to \<open>stopping\<close> at a stop request; \<open>stopping\<close> to \<open>done\<close> or
  \<open>error\<close> at the exit), and besides these from \<open>stopping\<close> to \<open>timeout\<close> when the watchdog
  expires first. A stop request that succeeds sets \<open>stopping\<close> whatever the status was,
  and nothing else ever does. Output, the \<open>spawn\<close> and \<open>exit\<close> events and the port query
  never change a status; no operation changes the status of another job. A submission
  stores the job as \<open>pending\<close> and, when \<open>spawn\<close> returns, as \<open>running\<close>; when \<open>spawn\<close> throws
  the job is left \<open>pending\<close>. What exit reconciliation, a child error and the watchdog do
  to a job that is already \<open>done\<close>, \<open>error\<close> or \<open>timeout\<close> is not stated here.
\<close>

theorem status_changes:
  "(status_of s (job_of e) \<in> {Some (Str ''running''), Some (Str ''stopping'')} \<and> \<not> is_submit e \<longrightarrow>
      status_of (step cfg s (now, e)) (job_of e) = status_of s (job_of e) \<or>
      status_of (step cfg s (now, e)) (job_of e) \<in> may_set e \<and>
      (edge (status_of s (job_of e)) (status_of (step cfg s (now, e)) (job_of e)) \<or>
       status_of s (job_of e) = Some (Str ''stopping'') \<and>
       status_of (step cfg s (now, e)) (job_of e) = Some (Str ''timeout''))) \<and>
   (stop_succeeds cfg s now e \<longrightarrow>
      status_of (step cfg s (now, e)) (job_of e) = Some (Str ''stopping'')) \<and>
   (\<not> is_submit e \<and> \<not> stop_succeeds cfg s now e \<and>
    status_of s (job_of e) \<noteq> Some (Str ''stopping'') \<longrightarrow>
      status_of (step cfg s (now, e)) (job_of e) \<noteq> Some (Str ''stopping'')) \<and>
   (may_set e = {} \<longrightarrow> status_of (step cfg s (now, e)) (job_of e) = status_of s (job_of e)) \<and>
   (j \<noteq> job_of e \<longrightarrow> status_of (step cfg s (now, e)) j = status_of s j) \<and>
   (\<forall>jid body runPath recordingsDir spawn.
      e = Submit jid body True runPath recordingsDir spawn \<and> truthy (Some (fst body)) \<longrightarrow>
      status_of (create_pending s jid now body recordingsDir) jid = Some (Str ''pending'') \<and>
      (case spawn of
         Child pid \<Rightarrow> status_of (step cfg s (now, e)) jid = Some (Str ''running'')
       | Throws \<Rightarrow> step cfg s (now, e) = create_pending s jid now body recordingsDir))"
proof -
  have 1: "status_of s (job_of e) \<in> {Some (Str ''running''), Some (Str ''stopping'')} \<and> \<not> is_submit e \<longrightarrow>
      status_of (step cfg s (now, e)) (job_of e) = status_of s (job_of e) \<or>
      status_of (step cfg s (now, e)) (job_of e) \<in> may_set e \<and>
      (edge (status_of s (job_of e)) (status_of (step cfg s (now, e)) (job_of e)) \<or>
       status_of s (job_of e) = Some (Str ''stopping'') \<and>
       status_of (step cfg s (now, e)) (job_of e) = Some (Str ''timeout''))"
    using status_step_same [of e cfg s now] by (cases e) (auto simp: edge_def)
  have 2: "stop_succeeds cfg s now e \<longrightarrow>
      status_of (step cfg s (now, e)) (job_of e) = Some (Str ''stopping'')"
    by (cases e) (simp_all add: stop_success_stopping)
  have 3: "\<not> is_submit e \<and> \<not> stop_succeeds cfg s now e \<and>
    status_of s (job_of e) \<noteq> Some (Str ''stopping'') \<longrightarrow>
      status_of (step cfg s (now, e)) (job_of e) \<noteq> Some (Str ''stopping'')"
    using status_step_same [of e cfg s now] by auto
  have 4: "may_set e = {} \<longrightarrow> status_of (step cfg s (now, e)) (job_of e) = status_of s (job_of e)"
    by (cases e) simp_all
  have 5: "j \<noteq> job_of e \<longrightarrow> status_of (step cfg s (now, e)) j = status_of s j"
    by (simp add: status_step_other)
  have 6: "\<forall>jid body runPath recordingsDir spawn.
      e = Submit jid body True runPath recordingsDir spawn \<and> truthy (Some (fst body)) \<longrightarrow>
      status_of (create_pending s jid now body recordingsDir) jid = Some (Str ''pending'') \<and>
      (case spawn of
         Child pid \<Rightarrow> status_of (step cfg s (now, e)) jid = Some (Str ''running'')
       | Throws \<Rightarrow> step cfg s (now, e) = create_pending s jid now body recordingsDir)"
  proof (intro allI impI, elim conjE)
    fix jid body runPath recordingsDir spawn
    assume e: "e = Submit jid body True runPath recordingsDir spawn" and t: "truthy (Some (fst body))"
    have a: "status_of (create_pending s jid now body recordingsDir) jid = Some (Str ''pending'')"
      by (simp add: status_create_pending)
    have b: "(case spawn of
         Child pid \<Rightarrow> status_of (step cfg s (now, e)) jid = Some (Str ''running'')
       | Throws \<Rightarrow> step cfg s (now, e) = create_pending s jid now body recordingsDir)"
    proof (cases spawn)
      case (Child pid)
      with e t show ?thesis by (simp add: status_post_jobs)
    next
      case Throws
      with e t show ?thesis by (simp add: post_jobs_def)
    qed
    from a b show "status_of (create_pending s jid now body recordingsDir) jid = Some (Str ''pending'') \<and>
      (case spawn of
         Child pid \<Rightarrow> status_of (step cfg s (now, e)) jid = Some (Str ''running'')
       | Throws \<Rightarrow> step cfg s (now, e) = create_pending s jid now body recordingsDir)"
      by simp
  qed
  from 1 2 3 4 5 6 show ?thesis by blast
qed

theorem status_changes_witness:
  "status_of running0 ''j1'' = Some (Str ''running'') \<and>
   stop_succeeds cfg0 running0 9000 (StopRequest ''j1'' w0) \<and>
   status_of (step cfg0 running0 (9000, StopRequest ''j1'' w0)) ''j1'' = Some (Str ''stopping'') \<and>
   edge (Some (Str ''running'')) (status_of (step cfg0 running0 (9000, StopRequest ''j1'' w0)) ''j1'') \<and>
   status_of (step cfg0 running0 (9000, StopRequest ''j1'' w0)) ''j2'' = status_of running0 ''j2'' \<and>
   \<not> stop_succeeds cfg0 running0 9000 (ChildSpawn ''j1'') \<and>
   may_set (ChildSpawn ''j1'') = {} \<and>
   status_of (step cfg0 running0 (9000, ChildSpawn ''j1'')) ''j1'' = Some (Str ''running'') \<and>
   truthy (Some (fst (Str ''https://meet.example/abc'', Undefined, Undefined))) \<and>
   status_of (create_pending init_sys ''j1'' 1000 (Str ''https://meet.example/abc'', Undefined, Undefined)
                ''/app/recordings'') ''j1'' = Some (Str ''pending'') \<and>
   status_of (step cfg0 init_sys submit0) ''j1'' = Some (Str ''running'') \<and>
   step cfg0 init_sys (1000, Submit ''j1'' (Str ''https://meet.example/abc'', Undefined, Undefined) True
                               ''/app/run_bot.sh'' ''/app/recordings'' Throws)
     = create_pending init_sys ''j1'' 1000 (Str ''https://meet.example/abc'', Undefined, Undefined)
         ''/app/recordings''"
proof -
  have a: "status_of running0 ''j1'' = Some (Str ''running'')"
    by (simp add: running0_def submit0_def status_post_jobs)
  have ok: "stop_succeeds cfg0 running0 9000 (StopRequest ''j1'' w0)"
    by code_simp
  have t: "truthy (Some (fst (Str ''https://meet.example/abc'', Undefined, Undefined)))"
    by simp
  from status_changes [of running0 "StopRequest ''j1'' w0" cfg0 9000 "''j2''"] a ok
  have 1: "status_of (step cfg0 running0 (9000, StopRequest ''j1'' w0)) ''j1'' = Some (Str ''stopping'') \<and>
     edge (Some (Str ''running'')) (status_of (step cfg0 running0 (9000, StopRequest ''j1'' w0)) ''j1'') \<and>
     status_of (step cfg0 running0 (9000, StopRequest ''j1'' w0)) ''j2'' = status_of running0 ''j2''"
    by (auto simp: edge_def)
  from status_changes [of running0 "ChildSpawn ''j1''" cfg0 9000 "''j2''"] a
  have 2: "status_of (step cfg0 running0 (9000, ChildSpawn ''j1'')) ''j1'' = Some (Str ''running'')"
    by simp
  from status_changes [of init_sys "snd submit0" cfg0 1000 "''j2''"] t
  have 3: "status_of (create_pending init_sys ''j1'' 1000
              (Str ''https://meet.example/abc'', Undefined, Undefined) ''/app/recordings'') ''j1''
             = Some (Str ''pending'') \<and>
           status_of (step cfg0 init_sys submit0) ''j1'' = Some (Str ''running'')"
    by (simp add: submit0_def)
  from status_changes [of init_sys "Submit ''j1'' (Str ''https://meet.example/abc'', Undefined, Undefined)
           True ''/app/run_bot.sh'' ''/app/recordings'' Throws" cfg0 1000 "''j2''"] t
  have 4: "step cfg0 init_sys (1000, Submit ''j1'' (Str ''https://meet.example/abc'', Undefined, Undefined) True
                               ''/app/run_bot.sh'' ''/app/recordings'' Throws)
     = create_pending init_sys ''j1'' 1000 (Str ''https://meet.example/abc'', Undefined, Undefined)
         ''/app/recordings''"
    by simp
  from a ok t 1 2 3 4 show ?thesis by (simp add: edge_def)
qed

text \<open>
  The claim as stated fails. A job that has reached \<open>done\<close> is moved to \<open>stopping\<close> by a
  stop request that the control-plane base answers: \<open>stopping\<close> is not entered from
  \<open>running\<close> only, and a stop request moves a job out of a terminal state. And a job that
  is \<open>stopping\<close> and stays silent is moved to \<open>timeout\<close> by the watchdog, which is not a
  transition of section 4.5 either.
\<close>

theorem stop_after_done_counterexample:
  "status_of (run cfg0 init_sys
       [submit0, (5000, ChildExit ''j1'' (Some 0) None), (5001, ChildClose ''j1'' (Some 0) None fs0)])
     ''j1'' = Some (Str ''done'') \<and>
   status_of (run cfg0 init_sys
       [submit0, (5000, ChildExit ''j1'' (Some 0) None), (5001, ChildClose ''j1'' (Some 0) None fs0),
        (9000, StopRequest ''j1'' w0)])
     ''j1'' = Some (Str ''stopping'') \<and>
   \<not> edge (Some (Str ''done'')) (Some (Str ''stopping'')) \<and>
   status_of (run cfg0 init_sys [submit0, (9000, StopRequest ''j1'' w0)]) ''j1''
     = Some (Str ''stopping'') \<and>
   status_of (run cfg0 init_sys [submit0, (9000, StopRequest ''j1'' w0), (905000, GuardTick ''j1'')]) ''j1''
     = Some (Str ''timeout'') \<and>
   \<not> edge (Some (Str ''stopping'')) (Some (Str ''timeout''))"
proof -
  have a: "status_of (run cfg0 init_sys
       [submit0, (5000, ChildExit ''j1'' (Some 0) None), (5001, ChildClose ''j1'' (Some 0) None fs0)])
     ''j1'' = Some (Str ''done'')"
    by code_simp
  have b: "status_of (run cfg0 init_sys
       [submit0, (5000, ChildExit ''j1'' (Some 0) None), (5001, ChildClose ''j1'' (Some 0) None fs0),
        (9000, StopRequest ''j1'' w0)])
     ''j1'' = Some (Str ''stopping'')"
    by code_simp
  have c: "status_of (run cfg0 init_sys [submit0, (9000, StopRequest ''j1'' w0)]) ''j1''
     = Some (Str ''stopping'')"
    by code_simp
  have d: "status_of (run cfg0 init_sys [submit0, (9000, StopRequest ''j1'' w0), (905000, GuardTick ''j1'')]) ''j1''
     = Some (Str ''timeout'')"
  proof -
    let ?s = "fst (post_jobs_stop cfg0 w0 running0 ''j1'' 9000)"
    have r: "run cfg0 init_sys [submit0, (9000, StopRequest ''j1'' w0), (905000, GuardTick ''j1'')]
               = guard_tick cfg0 ?s ''j1'' 905000"
      by (simp add: run_def running0_def)
    have v: "VARS ?s ''j1'' = Some \<lparr>lastActivity = 1000, startedAt = 1000, guard = True,
           exitCodeFinal = None, exitSignalFinal = None\<rparr>"
      by (simp add: vars_running0)
    have l: "BOT_IDLE_TIMEOUT_MS cfg0 = 900000" "BOT_MAX_TIMEOUT_MS cfg0 = 7200000"
      by (simp_all add: cfg0_def)
    show ?thesis
      unfolding r by (simp add: guard_tick_def vars_running0 l Let_def status_setJob)
  qed
  from a b c d show ?thesis by (simp add: edge_def)
qed

section \<open>The stop cascade\<close>

lemma added_stopping [simp]: "added s (stopping s jid now fx) = fx"
  by (simp add: added_def stopping_def)

lemma added_emit [simp]: "added s (emit s fx) = fx"
  by (simp add: added_def)

lemma strategy1_fx: "list_all (\<lambda>e. strategy_of e = 1) (snd (strategy1 cfg w job))"
  by (simp add: strategy1_def split: option.splits)

lemma exec_tools_fx: "list_all (\<lambda>e. strategy_of e = 2) (snd (exec_tools w c ts))"
  by (induction ts) (auto split: prod.splits)

lemma strategy2_fx: "list_all (\<lambda>e. strategy_of e = 2) (snd (strategy2 w job))"
  using exec_tools_fx [of w "str_of (job ''containerName'')" "[Node, Python, Curl, Wget, Busybox]"]
  by (auto simp: strategy2_def dockerExecStopRecord_def split: prod.splits option.splits)

lemma strategy3_fx: "list_all (\<lambda>e. strategy_of e = 3) (snd (strategy3 w job))"
  by (auto simp: strategy3_def tryHttpStopByContainer_def Let_def split: prod.splits option.splits if_splits)

lemma strategy4_fx: "list_all (\<lambda>e. strategy_of e = 4) (snd (strategy4 cfg w job))"
  by (simp add: strategy4_def)

lemma strategy5_fx: "list_all (\<lambda>e. strategy_of e = 5) (snd (strategy5 w s jobId))"
  by (simp add: strategy5_def split: option.splits)

lemma sorted_tagged:
  "list_all (\<lambda>e. strategy_of e = a) xs \<Longrightarrow> sorted (map strategy_of ys) \<Longrightarrow>
   list_all (\<lambda>e. a \<le> strategy_of e) ys \<Longrightarrow> sorted (map strategy_of (xs @ ys))"
  by (induction xs) (auto simp: list_all_iff)

text \<open>
  What the outside gives decides each strategy: an applicable strategy returns data
  exactly when the outside answers it.
\<close>

lemma wins_1: "wins cfg w s jobId job 1 = (fst (strategy1 cfg w job) \<noteq> None)"
  by (auto simp: wins_def applicable_def answers_def strategy1_def split: option.splits)

lemma exec_tools_some:
  "(fst (exec_tools w c ts) \<noteq> None) = list_ex (\<lambda>t. fst (exec_result w t) = Some 0) ts"
  by (induction ts) (auto split: prod.splits)

lemma wins_2: "wins cfg w s jobId job 2 = (fst (strategy2 w job) \<noteq> None)"
  using exec_tools_some [of w "str_of (job ''containerName'')" "[Node, Python, Curl, Wget, Busybox]"]
  by (auto simp: wins_def applicable_def answers_def strategy2_def dockerExecStopRecord_def
        split: prod.splits option.splits)

lemma tryHttp_some: "(fst (tryHttpStopByContainer w c) \<noteq> None) = answers w 3"
  by (auto simp: tryHttpStopByContainer_def answers_def Let_def split: option.splits)

lemma wins_3: "wins cfg w s jobId job 3 = (fst (strategy3 w job) \<noteq> None)"
  using tryHttp_some [of w "str_of (job ''containerName'')"]
  by (auto simp: wins_def applicable_def strategy3_def split: prod.splits option.splits)

lemma wins_4: "wins cfg w s jobId job 4 = (fst (strategy4 cfg w job) \<noteq> None)"
  by (auto simp: wins_def applicable_def answers_def strategy4_def)

lemma wins_5: "wins cfg w s jobId job 5 = (fst (strategy5 w s jobId) \<noteq> None)"
  by (auto simp: wins_def applicable_def answers_def strategy5_def split: option.splits)

lemma applicable_range: "applicable cfg s jobId job k \<Longrightarrow> k = 1 \<or> k = 2 \<or> k = 3 \<or> k = 4 \<or> k = 5"
  by (auto simp: applicable_def split: if_splits)

lemma wins_range: "wins cfg w s jobId job k \<Longrightarrow> 1 \<le> k \<and> k \<le> 5"
  using applicable_range [of cfg s jobId job k] by (auto simp: wins_def)

text \<open>An applicable strategy that is reached makes its first call.\<close>

lemma attempt_1:
  "applicable cfg s jobId job 1 \<Longrightarrow> first_call jobId job 1 \<in> set (snd (strategy1 cfg w job))"
  by (auto simp: applicable_def first_call_def strategy1_def split: option.splits)

lemma attempt_2:
  "applicable cfg s jobId job 2 \<Longrightarrow> first_call jobId job 2 \<in> set (snd (strategy2 w job))"
  by (auto simp: applicable_def first_call_def strategy2_def dockerExecStopRecord_def
        split: option.splits prod.splits)

lemma attempt_3:
  "applicable cfg s jobId job 3 \<Longrightarrow> first_call jobId job 3 \<in> set (snd (strategy3 w job))"
  by (auto simp: applicable_def first_call_def strategy3_def tryHttpStopByContainer_def Let_def
        split: option.splits prod.splits)

lemma attempt_4:
  "applicable cfg s jobId job 4 \<Longrightarrow> first_call jobId job 4 \<in> set (snd (strategy4 cfg w job))"
  by (auto simp: applicable_def first_call_def strategy4_def)

lemma attempt_5:
  "applicable cfg s jobId job 5 \<Longrightarrow> first_call jobId job 5 \<in> set (snd (strategy5 w s jobId))"
  by (auto simp: applicable_def first_call_def strategy5_def)

lemma first_success_unique:
  assumes "wins cfg w s jobId job m" and "\<And>i. 1 \<le> i \<Longrightarrow> i < m \<Longrightarrow> \<not> wins cfg w s jobId job i"
    and "wins cfg w s jobId job k" and "\<forall>i<k. \<not> wins cfg w s jobId job i"
  shows "k = m"
proof (rule ccontr)
  assume "k \<noteq> m"
  then consider "k < m" | "m < k" by linarith
  then show False
  proof cases
    case 1
    with assms(2) [of k] assms(3) wins_range [OF assms(3)] show False by simp
  next
    case 2
    with assms(1,4) show False by simp
  qed
qed

lemma le_tagged: "list_all (\<lambda>e. strategy_of e = a) xs \<Longrightarrow> a \<le> k \<Longrightarrow> list_all (\<lambda>e. strategy_of e \<le> k) xs"
  by (simp add: list_all_iff)

lemma ge_tagged: "list_all (\<lambda>e. strategy_of e = a) xs \<Longrightarrow> k \<le> a \<Longrightarrow> list_all (\<lambda>e. k \<le> strategy_of e) xs"
  by (simp add: list_all_iff)

lemma sorted_one_tag: "list_all (\<lambda>e. strategy_of e = a) xs \<Longrightarrow> sorted (map strategy_of xs)"
  using sorted_tagged [of a xs "[]"] by simp

lemma ge1_tagged: "list_all (\<lambda>e. strategy_of e = a) xs \<Longrightarrow> 1 \<le> a \<Longrightarrow> list_all (\<lambda>e. 1 \<le> strategy_of e) xs"
  by (simp add: list_all_iff)

lemma cascade_result:
  assumes R: "post_jobs_stop cfg w s jobId now =
                (stopping s jobId now fx, Reply c [(''success'', Bool True), (''via'', Str v), (lbl, d)])"
    and c: "c = 200 \<or> c = 202"
    and v: "v = via_name m"
    and m: "wins cfg w s jobId job m"
    and nf: "\<And>i. 1 \<le> i \<Longrightarrow> i < m \<Longrightarrow> \<not> wins cfg w s jobId job i"
    and srt: "sorted (map strategy_of fx)"
    and le: "list_all (\<lambda>e. 1 \<le> strategy_of e \<and> strategy_of e \<le> m) fx"
    and att: "\<And>i. i \<le> m \<Longrightarrow> applicable cfg s jobId job i \<Longrightarrow> first_call jobId job i \<in> set fx"
  shows "(\<forall>k. wins cfg w s jobId job k \<and> (\<forall>i<k. \<not> wins cfg w s jobId job i) \<longrightarrow>
            via_of (snd (post_jobs_stop cfg w s jobId now)) = via_name k \<and>
            succeeded (snd (post_jobs_stop cfg w s jobId now)) \<and>
            status_of (fst (post_jobs_stop cfg w s jobId now)) jobId = Some (Str ''stopping'') \<and>
            list_all (\<lambda>e. 1 \<le> strategy_of e \<and> strategy_of e \<le> k)
              (added s (fst (post_jobs_stop cfg w s jobId now))) \<and>
            (\<forall>i. i \<le> k \<and> applicable cfg s jobId job i \<longrightarrow>
               first_call jobId job i \<in> set (added s (fst (post_jobs_stop cfg w s jobId now))))) \<and>
         sorted (map strategy_of (added s (fst (post_jobs_stop cfg w s jobId now)))) \<and>
         (snd (post_jobs_stop cfg w s jobId now) = stop_unavailable \<longleftrightarrow>
            (\<forall>k. \<not> wins cfg w s jobId job k)) \<and>
         ((\<forall>k. \<not> wins cfg w s jobId job k) \<longrightarrow>
            status_of (fst (post_jobs_stop cfg w s jobId now)) jobId = status_of s jobId \<and>
            (\<forall>i. applicable cfg s jobId job i \<longrightarrow>
               first_call jobId job i \<in> set (added s (fst (post_jobs_stop cfg w s jobId now)))))"
proof (intro conjI allI impI)
  fix k
  assume "wins cfg w s jobId job k \<and> (\<forall>i<k. \<not> wins cfg w s jobId job i)"
  then have k: "k = m"
    using first_success_unique [of cfg w s jobId job m k] m nf by blast
  show "via_of (snd (post_jobs_stop cfg w s jobId now)) = via_name k"
    by (simp add: R k v via_of_def)
  show "succeeded (snd (post_jobs_stop cfg w s jobId now))"
    using c by (auto simp: R succeeded_def)
  show "status_of (fst (post_jobs_stop cfg w s jobId now)) jobId = Some (Str ''stopping'')"
    by (simp add: R status_stopping)
  show "list_all (\<lambda>e. 1 \<le> strategy_of e \<and> strategy_of e \<le> k)
          (added s (fst (post_jobs_stop cfg w s jobId now)))"
    using le by (simp add: R k)
  fix i
  assume "i \<le> k \<and> applicable cfg s jobId job i"
  then show "first_call jobId job i \<in> set (added s (fst (post_jobs_stop cfg w s jobId now)))"
    using att [of i] by (simp add: R k)
next
  show "sorted (map strategy_of (added s (fst (post_jobs_stop cfg w s jobId now))))"
    using srt by (simp add: R)
next
  from m show "snd (post_jobs_stop cfg w s jobId now) = stop_unavailable \<longleftrightarrow>
            (\<forall>k. \<not> wins cfg w s jobId job k)"
    using c by (auto simp: R stop_unavailable_def)
next
  assume "\<forall>k. \<not> wins cfg w s jobId job k"
  with m show "status_of (fst (post_jobs_stop cfg w s jobId now)) jobId = status_of s jobId"
    by simp
next
  fix i
  assume "\<forall>k. \<not> wins cfg w s jobId job k"
  with m show "first_call jobId job i \<in> set (added s (fst (post_jobs_stop cfg w s jobId now)))"
    by simp
qed

text \<open>
  Claim C3, as amended. For a stop request on an existing job, with \<open>k\<close> the first
  strategy that is applicable and answered by the outside: every applicable strategy up
  to \<open>k\<close> is attempted, no effect of a later strategy occurs, the answer is a success that
  names \<open>k\<close> in \<open>via\<close>, and the status is set to \<open>stopping\<close>. The effects of the request are
  ordered by strategy. The answer is \<open>stop_unavailable\<close> exactly when no strategy is both
  applicable and answered; then every applicable strategy was attempted and the status
  is left as it was. Strategy 5 is applicable when the job has a child handle and then
  counts as answered, whether or not the signal could be sent: so \<open>stop_unavailable\<close>
  means that strategies 1 to 4 are each not applicable or failed and that there is no
  child handle.
\<close>

theorem stop_cascade:
  assumes job: "JOBS s jobId = Some job"
  shows "(\<forall>k. wins cfg w s jobId job k \<and> (\<forall>i<k. \<not> wins cfg w s jobId job i) \<longrightarrow>
            via_of (snd (post_jobs_stop cfg w s jobId now)) = via_name k \<and>
            succeeded (snd (post_jobs_stop cfg w s jobId now)) \<and>
            status_of (fst (post_jobs_stop cfg w s jobId now)) jobId = Some (Str ''stopping'') \<and>
            list_all (\<lambda>e. 1 \<le> strategy_of e \<and> strategy_of e \<le> k)
              (added s (fst (post_jobs_stop cfg w s jobId now))) \<and>
            (\<forall>i. i \<le> k \<and> applicable cfg s jobId job i \<longrightarrow>
               first_call jobId job i \<in> set (added s (fst (post_jobs_stop cfg w s jobId now))))) \<and>
         sorted (map strategy_of (added s (fst (post_jobs_stop cfg w s jobId now)))) \<and>
         (snd (post_jobs_stop cfg w s jobId now) = stop_unavailable \<longleftrightarrow>
            (\<forall>k. \<not> wins cfg w s jobId job k)) \<and>
         ((\<forall>k. \<not> wins cfg w s jobId job k) \<longrightarrow>
            status_of (fst (post_jobs_stop cfg w s jobId now)) jobId = status_of s jobId \<and>
            (\<forall>i. applicable cfg s jobId job i \<longrightarrow>
               first_call jobId job i \<in> set (added s (fst (post_jobs_stop cfg w s jobId now)))))"
proof -
  obtain d1 fx1 where o1: "strategy1 cfg w job = (d1, fx1)" by (cases "strategy1 cfg w job")
  obtain d2 fx2 where o2: "strategy2 w job = (d2, fx2)" by (cases "strategy2 w job")
  obtain d3 fx3 where o3: "strategy3 w job = (d3, fx3)" by (cases "strategy3 w job")
  obtain d4 fx4 where o4: "strategy4 cfg w job = (d4, fx4)" by (cases "strategy4 cfg w job")
  obtain d5 fx5 where o5: "strategy5 w s jobId = (d5, fx5)" by (cases "strategy5 w s jobId")
  have f1: "list_all (\<lambda>e. strategy_of e = 1) fx1" using strategy1_fx [of cfg w job] o1 by simp
  have f2: "list_all (\<lambda>e. strategy_of e = 2) fx2" using strategy2_fx [of w job] o2 by simp
  have f3: "list_all (\<lambda>e. strategy_of e = 3) fx3" using strategy3_fx [of w job] o3 by simp
  have f4: "list_all (\<lambda>e. strategy_of e = 4) fx4" using strategy4_fx [of cfg w job] o4 by simp
  have f5: "list_all (\<lambda>e. strategy_of e = 5) fx5" using strategy5_fx [of w s jobId] o5 by simp
  have s1: "wins cfg w s jobId job 1 = (d1 \<noteq> None)" using wins_1 [of cfg w s jobId job] by (simp add: o1)
  have s1': "wins cfg w s jobId job (Suc 0) = (d1 \<noteq> None)" using s1 by simp
  have s2: "wins cfg w s jobId job 2 = (d2 \<noteq> None)" by (simp add: wins_2 o2)
  have s3: "wins cfg w s jobId job 3 = (d3 \<noteq> None)" by (simp add: wins_3 o3)
  have s4: "wins cfg w s jobId job 4 = (d4 \<noteq> None)" by (simp add: wins_4 o4)
  have s5: "wins cfg w s jobId job 5 = (d5 \<noteq> None)" by (simp add: wins_5 o5)
  have a1: "applicable cfg s jobId job 1 \<Longrightarrow> first_call jobId job 1 \<in> set fx1"
    using attempt_1 [of cfg s jobId job w] o1 by simp
  have a2: "applicable cfg s jobId job 2 \<Longrightarrow> first_call jobId job 2 \<in> set fx2"
    using attempt_2 [of cfg s jobId job w] o2 by simp
  have a3: "applicable cfg s jobId job 3 \<Longrightarrow> first_call jobId job 3 \<in> set fx3"
    using attempt_3 [of cfg s jobId job w] o3 by simp
  have a4: "applicable cfg s jobId job 4 \<Longrightarrow> first_call jobId job 4 \<in> set fx4"
    using attempt_4 [of cfg s jobId job w] o4 by simp
  have a5: "applicable cfg s jobId job 5 \<Longrightarrow> first_call jobId job 5 \<in> set fx5"
    using attempt_5 [of cfg s jobId job w] o5 by simp
  have att: "first_call jobId job i \<in> set (fx1 @ fx2 @ fx3 @ fx4 @ fx5)"
    if "applicable cfg s jobId job i" for i
    using that applicable_range [OF that] a1 a2 a3 a4 a5 by auto
  have att4: "first_call jobId job i \<in> set (fx1 @ fx2 @ fx3 @ fx4)"
    if "applicable cfg s jobId job i" "i \<le> 4" for i
    using that applicable_range [OF that(1)] a1 a2 a3 a4 by auto
  have att3: "first_call jobId job i \<in> set (fx1 @ fx2 @ fx3)"
    if "applicable cfg s jobId job i" "i \<le> 3" for i
    using that applicable_range [OF that(1)] a1 a2 a3 by auto
  have att2: "first_call jobId job i \<in> set (fx1 @ fx2)"
    if "applicable cfg s jobId job i" "i \<le> 2" for i
    using that applicable_range [OF that(1)] a1 a2 by auto
  have att1: "first_call jobId job i \<in> set fx1"
    if "applicable cfg s jobId job i" "i \<le> 1" for i
    using that applicable_range [OF that(1)] a1 by auto
  have srt: "sorted (map strategy_of (fx1 @ fx2 @ fx3 @ fx4 @ fx5))"
    by (intro sorted_tagged [OF f1] sorted_tagged [OF f2] sorted_tagged [OF f3] sorted_tagged [OF f4]
          sorted_one_tag [OF f5])
       (simp_all add: ge_tagged [OF f2] ge_tagged [OF f3] ge_tagged [OF f4] ge_tagged [OF f5])
  have srt4: "sorted (map strategy_of (fx1 @ fx2 @ fx3 @ fx4))"
    by (intro sorted_tagged [OF f1] sorted_tagged [OF f2] sorted_tagged [OF f3] sorted_one_tag [OF f4])
       (simp_all add: ge_tagged [OF f2] ge_tagged [OF f3] ge_tagged [OF f4])
  have srt3: "sorted (map strategy_of (fx1 @ fx2 @ fx3))"
    by (intro sorted_tagged [OF f1] sorted_tagged [OF f2] sorted_one_tag [OF f3])
       (simp_all add: ge_tagged [OF f2] ge_tagged [OF f3])
  have srt2: "sorted (map strategy_of (fx1 @ fx2))"
    by (intro sorted_tagged [OF f1] sorted_one_tag [OF f2]) (simp_all add: ge_tagged [OF f2])
  have srt1: "sorted (map strategy_of fx1)"
    by (rule sorted_one_tag [OF f1])
  have b1: "list_all (\<lambda>e. 1 \<le> strategy_of e \<and> strategy_of e \<le> k) fx1" if "1 \<le> k" for k
    using f1 that by (simp add: list_all_iff)
  have b2: "list_all (\<lambda>e. 1 \<le> strategy_of e \<and> strategy_of e \<le> k) fx2" if "2 \<le> k" for k
    using f2 that by (simp add: list_all_iff)
  have b3: "list_all (\<lambda>e. 1 \<le> strategy_of e \<and> strategy_of e \<le> k) fx3" if "3 \<le> k" for k
    using f3 that by (simp add: list_all_iff)
  have b4: "list_all (\<lambda>e. 1 \<le> strategy_of e \<and> strategy_of e \<le> k) fx4" if "4 \<le> k" for k
    using f4 that by (simp add: list_all_iff)
  have b5: "list_all (\<lambda>e. 1 \<le> strategy_of e \<and> strategy_of e \<le> k) fx5" if "5 \<le> k" for k
    using f5 that by (simp add: list_all_iff)
  consider (a) "d1 \<noteq> None"
    | (b) "d1 = None" "d2 \<noteq> None"
    | (c) "d1 = None" "d2 = None" "d3 \<noteq> None"
    | (d) "d1 = None" "d2 = None" "d3 = None" "d4 \<noteq> None"
    | (e) "d1 = None" "d2 = None" "d3 = None" "d4 = None" "d5 \<noteq> None"
    | (f) "d1 = None" "d2 = None" "d3 = None" "d4 = None" "d5 = None"
    by blast
  then show ?thesis
  proof cases
    case a
    then obtain d where d: "d1 = Some d" by auto
    have nf: "\<And>i. 1 \<le> i \<Longrightarrow> i < 1 \<Longrightarrow> \<not> wins cfg w s jobId job i" by simp
    have R: "post_jobs_stop cfg w s jobId now =
               (stopping s jobId now fx1,
                Reply 200 [(''success'', Bool True), (''via'', Str ''stop_record_http_base''), (''data'', d)])"
      by (simp add: post_jobs_stop_def job o1 d)
    show ?thesis
    proof (rule cascade_result [OF R, of 1])
      show "list_all (\<lambda>e. 1 \<le> strategy_of e \<and> strategy_of e \<le> 1) fx1" using b1 [of 1] by simp
      show "\<And>i. i \<le> 1 \<Longrightarrow> applicable cfg s jobId job i \<Longrightarrow> first_call jobId job i \<in> set fx1"
        using att1 by blast
    qed (simp_all add: via_name_def d s1 s1' nf srt1)
  next
    case b
    then obtain d where d: "d2 = Some d" by auto
    have R: "post_jobs_stop cfg w s jobId now =
               (stopping s jobId now (fx1 @ fx2),
                Reply 200 [(''success'', Bool True), (''via'', Str ''stop_record_docker_exec''), (''data'', d)])"
      by (simp add: post_jobs_stop_def job o1 o2 d b)
    have nf: "\<And>i. 1 \<le> i \<Longrightarrow> i < 2 \<Longrightarrow> \<not> wins cfg w s jobId job i"
    proof -
      fix i :: nat
      assume "1 \<le> i" "i < 2"
      then have "i = 1" by arith
      then show "\<not> wins cfg w s jobId job i" by (auto simp: s1 s1' b)
    qed
    show ?thesis
    proof (rule cascade_result [OF R, of 2])
      show "list_all (\<lambda>e. 1 \<le> strategy_of e \<and> strategy_of e \<le> 2) (fx1 @ fx2)"
        using b1 [of 2] b2 [of 2] by simp
      show "\<And>i. i \<le> 2 \<Longrightarrow> applicable cfg s jobId job i \<Longrightarrow> first_call jobId job i \<in> set (fx1 @ fx2)"
        using att2 by blast
      show "sorted (map strategy_of (fx1 @ fx2))" by (rule srt2)
    qed (simp_all add: via_name_def d s2 nf)
  next
    case c
    then obtain d where d: "d3 = Some d" by auto
    have R: "post_jobs_stop cfg w s jobId now =
               (stopping s jobId now (fx1 @ fx2 @ fx3),
                Reply 200 [(''success'', Bool True), (''via'', Str ''stop_record_http_container''), (''data'', d)])"
      by (simp add: post_jobs_stop_def job o1 o2 o3 d c)
    have nf: "\<And>i. 1 \<le> i \<Longrightarrow> i < 3 \<Longrightarrow> \<not> wins cfg w s jobId job i"
    proof -
      fix i :: nat
      assume "1 \<le> i" "i < 3"
      then have "i = 1 \<or> i = 2" by arith
      then show "\<not> wins cfg w s jobId job i" by (auto simp: s1 s1' s2 c)
    qed
    show ?thesis
    proof (rule cascade_result [OF R, of 3])
      show "list_all (\<lambda>e. 1 \<le> strategy_of e \<and> strategy_of e \<le> 3) (fx1 @ fx2 @ fx3)"
        using b1 [of 3] b2 [of 3] b3 [of 3] by simp
      show "\<And>i. i \<le> 3 \<Longrightarrow> applicable cfg s jobId job i \<Longrightarrow>
              first_call jobId job i \<in> set (fx1 @ fx2 @ fx3)"
        using att3 by blast
      show "sorted (map strategy_of (fx1 @ fx2 @ fx3))" by (rule srt3)
    qed (simp_all add: via_name_def d s3 nf)
  next
    case d
    then obtain t where t: "d4 = Some t" by auto
    have R: "post_jobs_stop cfg w s jobId now =
               (stopping s jobId now (fx1 @ fx2 @ fx3 @ fx4),
                Reply 202 [(''success'', Bool True), (''via'', Str ''docker_stop_name''), (''target'', t)])"
      by (simp add: post_jobs_stop_def job o1 o2 o3 o4 t d)
    have nf: "\<And>i. 1 \<le> i \<Longrightarrow> i < 4 \<Longrightarrow> \<not> wins cfg w s jobId job i"
    proof -
      fix i :: nat
      assume "1 \<le> i" "i < 4"
      then have "i = 1 \<or> i = 2 \<or> i = 3" by arith
      then show "\<not> wins cfg w s jobId job i" by (auto simp: s1 s1' s2 s3 d)
    qed
    show ?thesis
    proof (rule cascade_result [OF R, of 4])
      show "list_all (\<lambda>e. 1 \<le> strategy_of e \<and> strategy_of e \<le> 4) (fx1 @ fx2 @ fx3 @ fx4)"
        using b1 [of 4] b2 [of 4] b3 [of 4] b4 [of 4] by simp
      show "\<And>i. i \<le> 4 \<Longrightarrow> applicable cfg s jobId job i \<Longrightarrow>
              first_call jobId job i \<in> set (fx1 @ fx2 @ fx3 @ fx4)"
        using att4 by blast
      show "sorted (map strategy_of (fx1 @ fx2 @ fx3 @ fx4))" by (rule srt4)
    qed (simp_all add: via_name_def t s4 nf)
  next
    case e
    then obtain t where t: "d5 = Some t" by auto
    have R: "post_jobs_stop cfg w s jobId now =
               (stopping s jobId now (fx1 @ fx2 @ fx3 @ fx4 @ fx5),
                Reply 202 [(''success'', Bool True), (''via'', Str ''local_kill''), (''message'', t)])"
      by (simp add: post_jobs_stop_def job o1 o2 o3 o4 o5 t e)
    have nf: "\<And>i. 1 \<le> i \<Longrightarrow> i < 5 \<Longrightarrow> \<not> wins cfg w s jobId job i"
    proof -
      fix i :: nat
      assume "1 \<le> i" "i < 5"
      then have "i = 1 \<or> i = 2 \<or> i = 3 \<or> i = 4" by arith
      then show "\<not> wins cfg w s jobId job i" by (auto simp: s1 s1' s2 s3 s4 e)
    qed
    show ?thesis
    proof (rule cascade_result [OF R, of 5])
      show "list_all (\<lambda>e. 1 \<le> strategy_of e \<and> strategy_of e \<le> 5) (fx1 @ fx2 @ fx3 @ fx4 @ fx5)"
        using b1 [of 5] b2 [of 5] b3 [of 5] b4 [of 5] b5 [of 5] by simp
      show "\<And>i. i \<le> 5 \<Longrightarrow> applicable cfg s jobId job i \<Longrightarrow>
              first_call jobId job i \<in> set (fx1 @ fx2 @ fx3 @ fx4 @ fx5)"
        using att by blast
      show "sorted (map strategy_of (fx1 @ fx2 @ fx3 @ fx4 @ fx5))" by (rule srt)
    qed (simp_all add: via_name_def t s5 nf)
  next
    case f
    have R: "post_jobs_stop cfg w s jobId now = (emit s (fx1 @ fx2 @ fx3 @ fx4 @ fx5), stop_unavailable)"
      by (simp add: post_jobs_stop_def job o1 o2 o3 o4 o5 f)
    have none: "\<And>k. \<not> wins cfg w s jobId job k"
    proof
      fix k assume k: "wins cfg w s jobId job k"
      from wins_range [OF k] have "k = 1 \<or> k = 2 \<or> k = 3 \<or> k = 4 \<or> k = 5" by arith
      with k show False by (auto simp: s1 s1' s2 s3 s4 s5 f)
    qed
    have at: "\<forall>i. applicable cfg s jobId job i \<longrightarrow>
                first_call jobId job i \<in> set (fx1 @ fx2 @ fx3 @ fx4 @ fx5)"
      using att by blast
    show ?thesis using srt none at by (simp add: R)
  qed
qed

lemma create_pending_stores:
  "JOBS (create_pending s jid now body rd) jid = Some (the_job (JOBS (create_pending s jid now body rd)) jid)"
  by (simp add: create_pending_def setJob_def the_job_def split: prod.splits)

lemma post_jobs_stores:
  "JOBS (fst (post_jobs s jid now (Str (c # cs), bn, ex) True rp rd spawn)) jid =
     Some (the_job (JOBS (fst (post_jobs s jid now (Str (c # cs), bn, ex) True rp rd spawn))) jid)"
  by (simp add: post_jobs_def create_pending_def Let_def setJob_def the_job_def split: spawned.splits)

theorem stop_cascade_witness:
  "wins cfg0 w0 running0 ''j1'' (the_job (JOBS running0) ''j1'') 1 \<and>
   applicable cfg0 running0 ''j1'' (the_job (JOBS running0) ''j1'') 1 \<and>
   via_of (snd (post_jobs_stop cfg0 w0 running0 ''j1'' 9000)) = ''stop_record_http_base'' \<and>
   status_of (fst (post_jobs_stop cfg0 w0 running0 ''j1'' 9000)) ''j1'' = Some (Str ''stopping'') \<and>
   list_all (\<lambda>e. 1 \<le> strategy_of e \<and> strategy_of e \<le> 1)
     (added running0 (fst (post_jobs_stop cfg0 w0 running0 ''j1'' 9000))) \<and>
   PostBase [(''meeting_url'', Str ''https://meet.example/abc'')]
     \<in> set (added running0 (fst (post_jobs_stop cfg0 w0 running0 ''j1'' 9000))) \<and>
   wins cfg0 w_down running0 ''j1'' (the_job (JOBS running0) ''j1'') 5 \<and>
   via_of (snd (post_jobs_stop cfg0 w_down running0 ''j1'' 9000)) = ''local_kill'' \<and>
   status_of (fst (post_jobs_stop cfg0 w_down running0 ''j1'' 9000)) ''j1'' = Some (Str ''stopping'') \<and>
   PostBase [(''meeting_url'', Str ''https://meet.example/abc'')]
     \<in> set (added running0 (fst (post_jobs_stop cfg0 w_down running0 ''j1'' 9000))) \<and>
   SigTerm ''j1'' \<in> set (added running0 (fst (post_jobs_stop cfg0 w_down running0 ''j1'' 9000))) \<and>
   applicable cfg0 pending0 ''j1'' (the_job (JOBS pending0) ''j1'') 1 \<and>
   snd (post_jobs_stop cfg0 w_down pending0 ''j1'' 9000) = stop_unavailable \<and>
   status_of (fst (post_jobs_stop cfg0 w_down pending0 ''j1'' 9000)) ''j1'' = Some (Str ''pending'') \<and>
   PostBase [(''meeting_url'', Str ''https://meet.example/abc'')]
     \<in> set (added pending0 (fst (post_jobs_stop cfg0 w_down pending0 ''j1'' 9000)))"
proof -
  have job: "JOBS running0 ''j1'' = Some (the_job (JOBS running0) ''j1'')"
    unfolding running0_def submit0_def step.simps by (rule post_jobs_stores)
  have one: "wins cfg0 w0 running0 ''j1'' (the_job (JOBS running0) ''j1'') 1"
    by code_simp
  have ap: "applicable cfg0 running0 ''j1'' (the_job (JOBS running0) ''j1'') 1"
    using one by (simp add: wins_def)
  have fc: "first_call ''j1'' (the_job (JOBS running0) ''j1'') 1
              = PostBase [(''meeting_url'', Str ''https://meet.example/abc'')]"
    by code_simp
  have zero: "\<forall>i<1. \<not> wins cfg0 w0 running0 ''j1'' (the_job (JOBS running0) ''j1'') i"
    by (simp add: wins_def applicable_def)
  have both: "wins cfg0 w0 running0 ''j1'' (the_job (JOBS running0) ''j1'') 1 \<and>
      (\<forall>i<1. \<not> wins cfg0 w0 running0 ''j1'' (the_job (JOBS running0) ''j1'') i)"
    using one zero by (rule conjI)
  from stop_cascade [OF job, of cfg0 w0 9000, THEN conjunct1, rule_format, of 1, OF both] one ap fc
  have 1: "via_of (snd (post_jobs_stop cfg0 w0 running0 ''j1'' 9000)) = ''stop_record_http_base'' \<and>
     status_of (fst (post_jobs_stop cfg0 w0 running0 ''j1'' 9000)) ''j1'' = Some (Str ''stopping'') \<and>
     list_all (\<lambda>e. 1 \<le> strategy_of e \<and> strategy_of e \<le> 1)
       (added running0 (fst (post_jobs_stop cfg0 w0 running0 ''j1'' 9000))) \<and>
     PostBase [(''meeting_url'', Str ''https://meet.example/abc'')]
       \<in> set (added running0 (fst (post_jobs_stop cfg0 w0 running0 ''j1'' 9000)))"
    by (auto simp: via_name_def)
  have five: "wins cfg0 w_down running0 ''j1'' (the_job (JOBS running0) ''j1'') 5"
    by code_simp
  have ap5: "applicable cfg0 running0 ''j1'' (the_job (JOBS running0) ''j1'') 5"
    using five by (simp add: wins_def)
  have fc5: "first_call ''j1'' (the_job (JOBS running0) ''j1'') 5 = SigTerm ''j1''"
    by (simp add: first_call_def)
  have below: "\<forall>i<5. \<not> wins cfg0 w_down running0 ''j1'' (the_job (JOBS running0) ''j1'') i"
  proof (intro allI impI)
    fix i :: nat
    assume "i < 5"
    then have i: "i = 0 \<or> i = 1 \<or> i = 2 \<or> i = 3 \<or> i = 4" by arith
    have m0: "\<not> wins cfg0 w_down running0 ''j1'' (the_job (JOBS running0) ''j1'') 0"
      by (simp add: wins_def applicable_def)
    have m1: "\<not> wins cfg0 w_down running0 ''j1'' (the_job (JOBS running0) ''j1'') 1"
      by (simp add: wins_def answers_def w_down_def)
    have m2: "\<not> wins cfg0 w_down running0 ''j1'' (the_job (JOBS running0) ''j1'') 2"
      by (simp add: wins_def answers_def w_down_def)
    have m3: "\<not> wins cfg0 w_down running0 ''j1'' (the_job (JOBS running0) ''j1'') 3"
      by (simp add: wins_def answers_def w_down_def)
    have m4: "\<not> wins cfg0 w_down running0 ''j1'' (the_job (JOBS running0) ''j1'') 4"
      by (simp add: wins_def answers_def w_down_def)
    from i m0 m1 m2 m3 m4
    show "\<not> wins cfg0 w_down running0 ''j1'' (the_job (JOBS running0) ''j1'') i" by auto
  qed
  have both5: "wins cfg0 w_down running0 ''j1'' (the_job (JOBS running0) ''j1'') 5 \<and>
      (\<forall>i<5. \<not> wins cfg0 w_down running0 ''j1'' (the_job (JOBS running0) ''j1'') i)"
    using five below by (rule conjI)
  note c5 = stop_cascade [OF job, of cfg0 w_down 9000, THEN conjunct1, rule_format, of 5, OF both5]
  from c5 have a5: "\<And>i. i \<le> 5 \<Longrightarrow> applicable cfg0 running0 ''j1'' (the_job (JOBS running0) ''j1'') i \<Longrightarrow>
      first_call ''j1'' (the_job (JOBS running0) ''j1'') i
        \<in> set (added running0 (fst (post_jobs_stop cfg0 w_down running0 ''j1'' 9000)))"
    by blast
  have p1: "first_call ''j1'' (the_job (JOBS running0) ''j1'') 1
        \<in> set (added running0 (fst (post_jobs_stop cfg0 w_down running0 ''j1'' 9000)))"
    by (rule a5 [OF _ ap]) simp
  have p5: "first_call ''j1'' (the_job (JOBS running0) ''j1'') 5
        \<in> set (added running0 (fst (post_jobs_stop cfg0 w_down running0 ''j1'' 9000)))"
    by (rule a5 [OF _ ap5]) simp
  from c5 p1 [unfolded fc] p5 [unfolded fc5]
  have 5: "via_of (snd (post_jobs_stop cfg0 w_down running0 ''j1'' 9000)) = ''local_kill'' \<and>
     status_of (fst (post_jobs_stop cfg0 w_down running0 ''j1'' 9000)) ''j1'' = Some (Str ''stopping'') \<and>
     PostBase [(''meeting_url'', Str ''https://meet.example/abc'')]
       \<in> set (added running0 (fst (post_jobs_stop cfg0 w_down running0 ''j1'' 9000))) \<and>
     SigTerm ''j1'' \<in> set (added running0 (fst (post_jobs_stop cfg0 w_down running0 ''j1'' 9000)))"
    by (auto simp: via_name_def)
  have jobp: "JOBS pending0 ''j1'' = Some (the_job (JOBS pending0) ''j1'')"
    unfolding pending0_def step.simps by (rule post_jobs_stores)
  have app: "applicable cfg0 pending0 ''j1'' (the_job (JOBS pending0) ''j1'') 1"
    by code_simp
  have fcp: "first_call ''j1'' (the_job (JOBS pending0) ''j1'') 1
              = PostBase [(''meeting_url'', Str ''https://meet.example/abc'')]"
    by code_simp
  have stp: "status_of pending0 ''j1'' = Some (Str ''pending'')"
    by (simp add: pending0_def status_post_jobs)
  have nw: "\<forall>k. \<not> wins cfg0 w_down pending0 ''j1'' (the_job (JOBS pending0) ''j1'') k"
  proof
    fix k
    have n1: "\<not> wins cfg0 w_down pending0 ''j1'' (the_job (JOBS pending0) ''j1'') 1"
      by (simp add: wins_def answers_def w_down_def)
    have n2: "\<not> wins cfg0 w_down pending0 ''j1'' (the_job (JOBS pending0) ''j1'') 2"
      by (simp add: wins_def answers_def w_down_def)
    have n3: "\<not> wins cfg0 w_down pending0 ''j1'' (the_job (JOBS pending0) ''j1'') 3"
      by (simp add: wins_def answers_def w_down_def)
    have n4: "\<not> wins cfg0 w_down pending0 ''j1'' (the_job (JOBS pending0) ''j1'') 4"
      by (simp add: wins_def answers_def w_down_def)
    have n5: "\<not> wins cfg0 w_down pending0 ''j1'' (the_job (JOBS pending0) ''j1'') 5"
      by code_simp
    show "\<not> wins cfg0 w_down pending0 ''j1'' (the_job (JOBS pending0) ''j1'') k"
    proof
      assume k: "wins cfg0 w_down pending0 ''j1'' (the_job (JOBS pending0) ''j1'') k"
      from wins_range [OF k] have "k = 1 \<or> k = 2 \<or> k = 3 \<or> k = 4 \<or> k = 5" by arith
      with k n1 n2 n3 n4 n5 show False by auto
    qed
  qed
  from stop_cascade [OF jobp, of cfg0 w_down 9000] nw app fcp stp
  have 2: "snd (post_jobs_stop cfg0 w_down pending0 ''j1'' 9000) = stop_unavailable \<and>
     status_of (fst (post_jobs_stop cfg0 w_down pending0 ''j1'' 9000)) ''j1'' = Some (Str ''pending'') \<and>
     PostBase [(''meeting_url'', Str ''https://meet.example/abc'')]
       \<in> set (added pending0 (fst (post_jobs_stop cfg0 w_down pending0 ''j1'' 9000)))"
    by auto
  from one ap app five 1 5 2 show ?thesis by simp
qed

text \<open>
  The claim as stated fails in its last part. For the running job of the sample, with
  nothing outside answering: strategy 1 is applicable and its call fails, strategies 2
  to 4 are not applicable (no container name is known), strategy 5 is applicable and the
  signal cannot be sent. Every applicable strategy has failed, and yet the request is
  answered with success through \<open>local_kill\<close> and the status is set to \<open>stopping\<close>.
\<close>

theorem stop_signal_unsent_counterexample:
  "applicable cfg0 running0 ''j1'' (the_job (JOBS running0) ''j1'') 1 \<and>
   post_base w_down = None \<and>
   \<not> applicable cfg0 running0 ''j1'' (the_job (JOBS running0) ''j1'') 2 \<and>
   \<not> applicable cfg0 running0 ''j1'' (the_job (JOBS running0) ''j1'') 3 \<and>
   \<not> applicable cfg0 running0 ''j1'' (the_job (JOBS running0) ''j1'') 4 \<and>
   applicable cfg0 running0 ''j1'' (the_job (JOBS running0) ''j1'') 5 \<and>
   \<not> sigterm_ok w_down \<and>
   snd (post_jobs_stop cfg0 w_down running0 ''j1'' 9000) =
     Reply 202 [(''success'', Bool True), (''via'', Str ''local_kill''),
                (''message'', Str ''failed_to_signal_child'')] \<and>
   snd (post_jobs_stop cfg0 w_down running0 ''j1'' 9000) \<noteq> stop_unavailable \<and>
   status_of (fst (post_jobs_stop cfg0 w_down running0 ''j1'' 9000)) ''j1'' = Some (Str ''stopping'')"
  by code_simp

section \<open>Exit reconciliation and the fallback scan\<close>

lemma isUuidDirName_nonempty: "isUuidDirName u \<Longrightarrow> u \<noteq> []"
  by (auto simp: isUuidDirName_def)

lemma stat_all_total:
  assumes "\<And>n. n \<in> set names \<Longrightarrow> mtimeMs f (path_join dir n) = Some (mt n)"
  shows "stat_all f dir names = Some (map (\<lambda>n. (n, mt n)) names)"
  using assms by (induction names) simp_all

lemma sort_key_head:
  assumes "sort_key k xs = y # ys"
  shows "y \<in> set xs \<and> (\<forall>x\<in>set xs. k y \<le> k x)"
proof -
  have s: "set (sort_key k xs) = set xs" by simp
  have "sorted (map k (sort_key k xs))" by simp
  with assms have "\<forall>x\<in>set ys. k y \<le> k x" by auto
  with s assms show ?thesis by auto
qed

lemma stat_all_none:
  "n \<in> set names \<Longrightarrow> mtimeMs f (path_join dir n) = None \<Longrightarrow> stat_all f dir names = None"
  by (induction names) (auto split: option.splits)

lemma findLatest_throws:
  assumes "readdir f dir = None \<or>
           (\<exists>entries n. readdir f dir = Some entries \<and> n \<in> set entries \<and> isUuidDirName n \<and>
                         mtimeMs f (path_join dir n) = None)"
  shows "findLatestUuidFromRecordingsSince f dir since = None"
  using assms
proof
  assume "readdir f dir = None"
  then show ?thesis by (simp add: findLatestUuidFromRecordingsSince_def)
next
  assume "\<exists>entries n. readdir f dir = Some entries \<and> n \<in> set entries \<and> isUuidDirName n \<and>
                         mtimeMs f (path_join dir n) = None"
  then obtain entries n where e: "readdir f dir = Some entries" and n: "n \<in> set entries" "isUuidDirName n"
    and m: "mtimeMs f (path_join dir n) = None" by blast
  from n have "n \<in> set (filter isUuidDirName entries)" by simp
  from stat_all_none [OF this m] e show ?thesis
    by (simp add: findLatestUuidFromRecordingsSince_def)
qed

lemma findLatest_scan:
  assumes dir: "readdir f dir = Some entries"
    and stat: "\<And>n. n \<in> set entries \<Longrightarrow> isUuidDirName n \<Longrightarrow> mtimeMs f (path_join dir n) = Some (mt n)"
    and t: "t \<noteq> 0"
  shows "(case findLatestUuidFromRecordingsSince f dir (Some (Num t)) of
            Some u \<Rightarrow> u \<in> set entries \<and> isUuidDirName u \<and> of_int (t - 5000) \<le> mt u \<and>
                      (\<forall>n\<in>set entries. isUuidDirName n \<and> of_int (t - 5000) \<le> mt n \<longrightarrow> mt n \<le> mt u)
          | None \<Rightarrow> \<not> (\<exists>n\<in>set entries. isUuidDirName n \<and> of_int (t - 5000) \<le> mt n))"
proof -
  let ?names = "filter isUuidDirName entries"
  let ?items = "map (\<lambda>n. (n, mt n)) ?names"
  let ?fresh = "filter (is_fresh (Some (Num t))) ?items"
  have st: "stat_all f dir ?names = Some ?items"
    by (rule stat_all_total) (simp add: stat)
  have fr: "\<And>it. is_fresh (Some (Num t)) it = (of_int (t - 5000) \<le> snd it)"
    using t by (simp add: is_fresh_def)
  have mem: "\<And>n m. (n, m) \<in> set ?fresh \<longleftrightarrow>
               n \<in> set entries \<and> isUuidDirName n \<and> m = mt n \<and> of_int (t - 5000) \<le> mt n"
    by (auto simp: fr)
  show ?thesis
  proof (cases "sort_key (\<lambda>it. - snd it) ?fresh")
    case Nil
    then have "set ?fresh = {}" by (metis set_empty set_sort)
    then have "\<not> (\<exists>n\<in>set entries. isUuidDirName n \<and> of_int (t - 5000) \<le> mt n)"
      using mem by fastforce
    with Nil show ?thesis
      by (simp add: findLatestUuidFromRecordingsSince_def dir st)
  next
    case (Cons y ys)
    obtain u m where y: "y = (u, m)" by (cases y)
    from sort_key_head [OF Cons] have h: "y \<in> set ?fresh" "\<forall>x\<in>set ?fresh. - snd y \<le> - snd x"
      by auto
    from h(1) y mem have u: "u \<in> set entries" "isUuidDirName u" "m = mt u" "of_int (t - 5000) \<le> mt u"
      by auto
    have "\<forall>n\<in>set entries. isUuidDirName n \<and> of_int (t - 5000) \<le> mt n \<longrightarrow> mt n \<le> mt u"
    proof (intro ballI impI)
      fix n assume "n \<in> set entries" "isUuidDirName n \<and> of_int (t - 5000) \<le> mt n"
      then have "(n, mt n) \<in> set ?fresh" using mem by auto
      with h(2) y u(3) show "mt n \<le> mt u" by fastforce
    qed
    with u Cons y show ?thesis
      by (simp add: findLatestUuidFromRecordingsSince_def dir st)
  qed
qed

lemma stat_all_names: "stat_all f dir names = Some items \<Longrightarrow> map fst items = names"
  by (induction names arbitrary: items) (auto split: option.splits)

lemma findLatest_shape:
  assumes "findLatestUuidFromRecordingsSince f dir since = Some u"
  shows "isUuidDirName u"
proof -
  from assms obtain entries items y ys where
    st: "stat_all f dir (filter isUuidDirName entries) = Some items"
    and so: "sort_key (\<lambda>it. - snd it) (filter (is_fresh since) items) = y # ys"
    and u: "u = fst y"
    by (auto simp: findLatestUuidFromRecordingsSince_def split: option.splits list.splits)
  from sort_key_head [OF so] have "y \<in> set items" by auto
  then have "fst y \<in> set (map fst items)" by auto
  with stat_all_names [OF st] u show ?thesis by auto
qed

lemma fallback_scan_nonempty: "fallback_scan cfg f j0 = Some u \<Longrightarrow> u \<noteq> []"
  unfolding fallback_scan_def by (rule isUuidDirName_nonempty [OF findLatest_shape])

lemma trace_pushLog:
  "trace (pushLog s jid now line) =
     trace s @ map (\<lambda>res. Write res (''data: '' @ line @ [NL, NL])) (clients_of (the_job (JOBS s) jid))"
proof -
  have "clients_of (merged now (the_job (JOBS s) jid) Map.empty) = clients_of (the_job (JOBS s) jid)"
    by (simp add: clients_of_def merged_key split: option.splits)
  then show ?thesis
    by (simp add: pushLog_def Let_def the_job_setJob)
qed

lemma trace_stop_guard [simp]: "trace (stop_guard s jid) = trace s @ [ClearGuard jid]"
  by (simp add: stop_guard_def split: option.splits)

lemma on_close_sleeps:
  assumes "VARS s jid = Some v"
    and "nullish_or (exitCodeFinal v) code = Some 0"
    and "\<not> sig_truthy (nullish_or (exitSignalFinal v) signal)"
    and "\<not> truthy (uuid_of s jid)"
  shows "Sleep 500 \<in> set (added s (on_close cfg f s jid now code signal))"
  using assms
  by (simp add: on_close_def Let_def uuid_of_def added_def trace_pushLog split: option.splits)

lemma JOBS_CHILDREN_upd [simp]: "JOBS (s\<lparr>CHILDREN := c\<rparr>) = JOBS s"
  by simp

lemma on_close_uuid:
  assumes "VARS s jid = Some v"
  shows "uuid_of (on_close cfg f s jid now code signal) jid =
     (if \<not> truthy (uuid_of s jid) \<and> nullish_or (exitCodeFinal v) code = Some 0 \<and>
         \<not> sig_truthy (nullish_or (exitSignalFinal v) signal)
      then (case fallback_scan cfg f (the_job (JOBS s) jid) of
              None \<Rightarrow> uuid_of s jid
            | Some u \<Rightarrow> if u \<noteq> [] then Some (Str u) else uuid_of s jid)
      else uuid_of s jid)"
  using assms
  by (simp add: on_close_def Let_def uuid_of_def fld_pushLog fld_setJob split: option.splits)

lemma on_close_status:
  assumes "VARS s jid = Some v"
  shows "status_of (on_close cfg f s jid now code signal) jid =
     (if nullish_or (exitCodeFinal v) code = Some 0 \<and>
         \<not> sig_truthy (nullish_or (exitSignalFinal v) signal) \<and>
         truthy (uuid_of (on_close cfg f s jid now code signal) jid)
      then Some (Str ''done'') else Some (Str ''error''))"
  using assms
  by (simp add: on_close_def Let_def uuid_of_def status_of_def fld_pushLog fld_setJob split: option.splits)

lemma on_close_error:
  assumes "VARS s jid = Some v"
  shows "error_of (on_close cfg f s jid now code signal) jid =
     (if nullish_or (exitCodeFinal v) code = Some 0 \<and>
         \<not> sig_truthy (nullish_or (exitSignalFinal v) signal) \<and>
         truthy (uuid_of (on_close cfg f s jid now code signal) jid)
      then error_of s jid
      else Some (Str (exit_reason (nullish_or (exitCodeFinal v) code)
                        (nullish_or (exitSignalFinal v) signal))))"
  using assms
  by (simp add: on_close_def Let_def uuid_of_def error_of_def fld_pushLog fld_setJob split: option.splits)

lemma on_close_exitCode:
  assumes "VARS s jid = Some v"
  shows "the_job (JOBS (on_close cfg f s jid now code signal)) jid ''exitCode'' =
     (if nullish_or (exitCodeFinal v) code = Some 0 \<and>
         \<not> sig_truthy (nullish_or (exitSignalFinal v) signal) \<and>
         truthy (uuid_of (on_close cfg f s jid now code signal) jid)
      then Some (Num 0)
      else Some (Num (case nullish_or (exitCodeFinal v) code of None \<Rightarrow> - 1 | Some c \<Rightarrow> c)))"
  using assms
  by (simp add: on_close_def Let_def uuid_of_def fld_pushLog fld_setJob split: option.splits)

lemma vars_exited0:
  "VARS (exited0 code signal) ''j1'' =
     Some \<lparr>lastActivity = 1000, startedAt = 1000, guard = True,
           exitCodeFinal = code, exitSignalFinal = signal\<rparr>"
  by (simp add: exited0_def running0_def submit0_def init_sys_def post_jobs_def create_pending_def Let_def on_exit_def
        setJob_def)

lemma job_exited0: "the_job (JOBS (exited0 code signal)) ''j1'' = the_job (JOBS running0) ''j1''"
  by (simp add: exited0_def)

text \<open>
  Claim C2. When the worker closes, with the effective exit code and signal (those of the
  \<open>exit\<close> event when it gave them, else those of \<open>close\<close>): exit code 0, no signal and an
  identifier recorded (already, or found by the fallback scan) give \<open>done\<close>; exit code 0,
  no signal and no identifier after the scan give \<open>error\<close> with \<open>completed_without_uuid\<close>;
  a signal \<open>S\<close> gives \<open>error\<close> with \<open>killed_by_S\<close>; anything else gives \<open>error\<close> with
  \<open>bot_failed\<close> and the exit code stored (\<open>-1\<close> when there is none).
\<close>

theorem close_reconciliation:
  assumes "VARS s jid = Some v"
    and "codeEff = nullish_or (exitCodeFinal v) code"
    and "sigEff = nullish_or (exitSignalFinal v) signal"
  shows
   "(codeEff = Some 0 \<and> \<not> sig_truthy sigEff \<and>
       (truthy (uuid_of s jid) \<or> fallback_scan cfg f (the_job (JOBS s) jid) \<noteq> None) \<longrightarrow>
       status_of (on_close cfg f s jid now code signal) jid = Some (Str ''done'') \<and>
       truthy (uuid_of (on_close cfg f s jid now code signal) jid)) \<and>
    (codeEff = Some 0 \<and> \<not> sig_truthy sigEff \<and> \<not> truthy (uuid_of s jid) \<and>
       fallback_scan cfg f (the_job (JOBS s) jid) = None \<longrightarrow>
       status_of (on_close cfg f s jid now code signal) jid = Some (Str ''error'') \<and>
       error_of (on_close cfg f s jid now code signal) jid = Some (Str ''completed_without_uuid'')) \<and>
    (\<forall>S. sigEff = Some S \<and> S \<noteq> [] \<longrightarrow>
       status_of (on_close cfg f s jid now code signal) jid = Some (Str ''error'') \<and>
       error_of (on_close cfg f s jid now code signal) jid = Some (Str (''killed_by_'' @ S))) \<and>
    (\<not> sig_truthy sigEff \<and> codeEff \<noteq> Some 0 \<longrightarrow>
       status_of (on_close cfg f s jid now code signal) jid = Some (Str ''error'') \<and>
       error_of (on_close cfg f s jid now code signal) jid = Some (Str ''bot_failed'') \<and>
       the_job (JOBS (on_close cfg f s jid now code signal)) jid ''exitCode'' =
         Some (Num (case codeEff of None \<Rightarrow> - 1 | Some c \<Rightarrow> c)))"
  using assms(2,3) fallback_scan_nonempty [of cfg f "the_job (JOBS s) jid"]
  by (auto simp: on_close_status [OF assms(1)] on_close_error [OF assms(1)]
        on_close_exitCode [OF assms(1)] on_close_uuid [OF assms(1)] exit_reason_def sig_truthy_def
        split: option.splits)

theorem close_reconciliation_witness:
  "status_of (on_close cfg0 fs0 (exited0 (Some 0) None) ''j1'' 5001 (Some 0) None) ''j1''
     = Some (Str ''done'') \<and>
   error_of (on_close cfg0 fs_empty (exited0 (Some 0) None) ''j1'' 5001 (Some 0) None) ''j1''
     = Some (Str ''completed_without_uuid'') \<and>
   error_of (on_close cfg0 fs0 (exited0 None (Some ''SIGKILL'')) ''j1'' 5001 None (Some ''SIGKILL'')) ''j1''
     = Some (Str ''killed_by_SIGKILL'') \<and>
   error_of (on_close cfg0 fs0 (exited0 (Some 1) None) ''j1'' 5001 (Some 1) None) ''j1''
     = Some (Str ''bot_failed'') \<and>
   the_job (JOBS (on_close cfg0 fs0 (exited0 (Some 1) None) ''j1'' 5001 (Some 1) None)) ''j1'' ''exitCode''
     = Some (Num 1)"
proof -
  have nu: "\<not> truthy (uuid_of (exited0 code signal) ''j1'')" for code signal
    by (simp add: uuid_of_def job_exited0 running0_def submit0_def post_jobs_fresh)
  have scan: "fallback_scan cfg0 fs0 (the_job (JOBS running0) ''j1'')
                = Some ''ABCDEF12-3456-7890-abcd-ef1234567890''"
    by code_simp
  have none: "fallback_scan cfg0 fs_empty (the_job (JOBS running0) ''j1'') = None"
    by code_simp
  have 1: "status_of (on_close cfg0 fs0 (exited0 (Some 0) None) ''j1'' 5001 (Some 0) None) ''j1''
     = Some (Str ''done'')"
    using close_reconciliation [OF vars_exited0 refl refl, of "Some 0" None "Some 0" None cfg0 fs0 5001]
      scan by (simp add: nullish_or_def sig_truthy_def job_exited0)
  have 2: "error_of (on_close cfg0 fs_empty (exited0 (Some 0) None) ''j1'' 5001 (Some 0) None) ''j1''
     = Some (Str ''completed_without_uuid'')"
    using close_reconciliation [OF vars_exited0 refl refl, of "Some 0" None "Some 0" None cfg0 fs_empty 5001]
      none nu by (simp add: nullish_or_def sig_truthy_def job_exited0)
  have 3: "error_of (on_close cfg0 fs0 (exited0 None (Some ''SIGKILL'')) ''j1'' 5001 None (Some ''SIGKILL'')) ''j1''
     = Some (Str ''killed_by_SIGKILL'')"
    using close_reconciliation [OF vars_exited0 refl refl, of None "Some ''SIGKILL''" None "Some ''SIGKILL''" cfg0 fs0 5001]
    by (simp add: nullish_or_def sig_truthy_def)
  have 4: "error_of (on_close cfg0 fs0 (exited0 (Some 1) None) ''j1'' 5001 (Some 1) None) ''j1''
     = Some (Str ''bot_failed'') \<and>
   the_job (JOBS (on_close cfg0 fs0 (exited0 (Some 1) None) ''j1'' 5001 (Some 1) None)) ''j1'' ''exitCode''
     = Some (Num 1)"
    using close_reconciliation [OF vars_exited0 refl refl, of "Some 1" None "Some 1" None cfg0 fs0 5001]
    by (simp add: nullish_or_def sig_truthy_def)
  from 1 2 3 4 show ?thesis by simp
qed

text \<open>
  Claim C8, as amended. On a clean exit (code 0, no signal) of a job without identifier
  the handler waits 500 ms and scans the job's recordings directory (the default one
  when the job has none); \<open>t\<close> is the job's start time, a clock reading other than 0.
  When the directory can be listed and every entry of the identifier shape can be
  examined: the job's identifier becomes an entry whose name has
  the 36-character shape and whose modification time is at or after the start minus
  5000 ms, and no such entry is more recent; if there is no such entry the identifier
  stays unset. When the directory cannot be listed, or one entry of the identifier shape
  cannot be examined, the scan gives nothing and the identifier stays unset, whatever
  the other entries are.
\<close>

theorem fallback_scan_latest:
  assumes vars: "VARS s jid = Some v"
    and clean: "nullish_or (exitCodeFinal v) code = Some 0"
               "\<not> sig_truthy (nullish_or (exitSignalFinal v) signal)"
    and nouuid: "\<not> truthy (uuid_of s jid)"
    and start: "the_job (JOBS s) jid ''startedAt'' = Some (Num t)" "t \<noteq> 0"
    and rdir: "the_job (JOBS s) jid ''recordingsDir'' = Some (Str d) \<and> d \<noteq> [] \<or>
               the_job (JOBS s) jid ''recordingsDir'' = None \<and> d = DEFAULT_RECORDINGS_DIR cfg"
  shows "Sleep 500 \<in> set (added s (on_close cfg f s jid now code signal)) \<and>
    (readdir f d = Some entries \<and>
     (\<forall>n\<in>set entries. isUuidDirName n \<longrightarrow> mtimeMs f (path_join d n) = Some (mt n)) \<longrightarrow>
       (\<exists>u. uuid_of (on_close cfg f s jid now code signal) jid = Some (Str u) \<and>
             u \<in> set entries \<and> isUuidDirName u \<and> of_int (t - 5000) \<le> mt u \<and>
             (\<forall>n\<in>set entries. isUuidDirName n \<and> of_int (t - 5000) \<le> mt n \<longrightarrow> mt n \<le> mt u)) \<or>
       (\<not> (\<exists>n\<in>set entries. isUuidDirName n \<and> of_int (t - 5000) \<le> mt n) \<and>
        uuid_of (on_close cfg f s jid now code signal) jid = uuid_of s jid)) \<and>
    (readdir f d = None \<or>
     (\<exists>listed n. readdir f d = Some listed \<and> n \<in> set listed \<and> isUuidDirName n \<and>
                  mtimeMs f (path_join d n) = None) \<longrightarrow>
       uuid_of (on_close cfg f s jid now code signal) jid = uuid_of s jid)"
proof -
  have rd: "recordings_dir cfg (the_job (JOBS s) jid) = d"
    using rdir by (auto simp: recordings_dir_def)
  have fb: "fallback_scan cfg f (the_job (JOBS s) jid) =
              findLatestUuidFromRecordingsSince f d (Some (Num t))"
    using start by (simp add: fallback_scan_def rd)
  have u': "uuid_of (on_close cfg f s jid now code signal) jid =
      (case findLatestUuidFromRecordingsSince f d (Some (Num t)) of
         None \<Rightarrow> uuid_of s jid | Some u \<Rightarrow> Some (Str u))"
    using clean nouuid fallback_scan_nonempty [of cfg f "the_job (JOBS s) jid"]
    by (auto simp: on_close_uuid [OF vars] fb split: option.splits)
  have a: "Sleep 500 \<in> set (added s (on_close cfg f s jid now code signal))"
    by (rule on_close_sleeps [OF vars clean nouuid])
  have b: "(\<exists>u. uuid_of (on_close cfg f s jid now code signal) jid = Some (Str u) \<and>
             u \<in> set entries \<and> isUuidDirName u \<and> of_int (t - 5000) \<le> mt u \<and>
             (\<forall>n\<in>set entries. isUuidDirName n \<and> of_int (t - 5000) \<le> mt n \<longrightarrow> mt n \<le> mt u)) \<or>
       (\<not> (\<exists>n\<in>set entries. isUuidDirName n \<and> of_int (t - 5000) \<le> mt n) \<and>
        uuid_of (on_close cfg f s jid now code signal) jid = uuid_of s jid)"
    if dir: "readdir f d = Some entries"
      and stat: "\<forall>n\<in>set entries. isUuidDirName n \<longrightarrow> mtimeMs f (path_join d n) = Some (mt n)"
  proof -
    have stat': "\<And>n. n \<in> set entries \<Longrightarrow> isUuidDirName n \<Longrightarrow> mtimeMs f (path_join d n) = Some (mt n)"
      using stat by blast
    note scan = findLatest_scan [OF dir stat' start(2)]
    show ?thesis
    proof (cases "findLatestUuidFromRecordingsSince f d (Some (Num t))")
      case None
      with scan u' show ?thesis by simp
    next
      case (Some u)
      with scan u' show ?thesis by auto
    qed
  qed
  have c: "uuid_of (on_close cfg f s jid now code signal) jid = uuid_of s jid"
    if "readdir f d = None \<or>
     (\<exists>listed n. readdir f d = Some listed \<and> n \<in> set listed \<and> isUuidDirName n \<and>
                  mtimeMs f (path_join d n) = None)"
    using findLatest_throws [OF that, of "Some (Num t)"] u' by simp
  from a b c show ?thesis by blast
qed

theorem fallback_scan_latest_witness:
  "\<not> truthy (uuid_of (exited0 (Some 0) None) ''j1'') \<and>
   the_job (JOBS (exited0 (Some 0) None)) ''j1'' ''recordingsDir'' = Some (Str ''/app/recordings'') \<and>
   readdir fs0 ''/app/recordings'' = Some [''ABCDEF12-3456-7890-abcd-ef1234567890'', ''tmp''] \<and>
   mtimeMs fs0 (path_join ''/app/recordings'' ''ABCDEF12-3456-7890-abcd-ef1234567890'') = Some (8001 / 2) \<and>
   Sleep 500 \<in> set (added (exited0 (Some 0) None)
                       (on_close cfg0 fs0 (exited0 (Some 0) None) ''j1'' 5001 (Some 0) None)) \<and>
   uuid_of (on_close cfg0 fs0 (exited0 (Some 0) None) ''j1'' 5001 (Some 0) None) ''j1''
     = Some (Str ''ABCDEF12-3456-7890-abcd-ef1234567890'') \<and>
   readdir fs_empty ''/app/recordings'' = Some [] \<and>
   uuid_of (on_close cfg0 fs_empty (exited0 (Some 0) None) ''j1'' 5001 (Some 0) None) ''j1''
     = uuid_of (exited0 (Some 0) None) ''j1'' \<and>
   uuid_of (on_close cfg0 \<lparr>readdir = (\<lambda>d. None), mtimeMs = (\<lambda>p. None)\<rparr>
              (exited0 (Some 0) None) ''j1'' 5001 (Some 0) None) ''j1''
     = uuid_of (exited0 (Some 0) None) ''j1'' \<and>
   isUuidDirName ''00000000-0000-0000-0000-000000000000'' \<and>
   mtimeMs fs_dangling (path_join ''/app/recordings'' ''00000000-0000-0000-0000-000000000000'') = None \<and>
   uuid_of (on_close cfg0 fs_dangling (exited0 (Some 0) None) ''j1'' 5001 (Some 0) None) ''j1''
     = uuid_of (exited0 (Some 0) None) ''j1''"
proof -
  let ?s = "exited0 (Some 0) None"
  let ?u = "''ABCDEF12-3456-7890-abcd-ef1234567890''"
  have nu: "\<not> truthy (uuid_of ?s ''j1'')"
    by (simp add: uuid_of_def job_exited0 running0_def submit0_def post_jobs_fresh)
  have c1: "nullish_or (exitCodeFinal \<lparr>lastActivity = 1000, startedAt = 1000, guard = True,
           exitCodeFinal = Some 0, exitSignalFinal = None\<rparr>) (Some 0) = Some 0"
    by (simp add: nullish_or_def)
  have c2: "\<not> sig_truthy (nullish_or (exitSignalFinal \<lparr>lastActivity = 1000, startedAt = 1000,
           guard = True, exitCodeFinal = Some 0, exitSignalFinal = None\<rparr>) None)"
    by (simp add: nullish_or_def sig_truthy_def)
  have st: "the_job (JOBS ?s) ''j1'' ''startedAt'' = Some (Num 1000)"
    by code_simp
  have rd: "the_job (JOBS ?s) ''j1'' ''recordingsDir'' = Some (Str ''/app/recordings'')"
    by code_simp
  have pj: "path_join ''/app/recordings'' ?u = ''/app/recordings/ABCDEF12-3456-7890-abcd-ef1234567890''"
    by code_simp
  have shape: "isUuidDirName ?u" "\<not> isUuidDirName ''tmp''"
    by code_simp+
  have dir: "readdir fs0 ''/app/recordings'' = Some [?u, ''tmp'']"
    by (simp add: fs0_def)
  have mt: "mtimeMs fs0 (path_join ''/app/recordings'' ?u) = Some (8001 / 2)"
    unfolding pj by (simp add: fs0_def)
  have stat: "\<forall>n\<in>set [?u, ''tmp'']. isUuidDirName n \<longrightarrow>
                mtimeMs fs0 (path_join ''/app/recordings'' n) = Some ((\<lambda>n. 8001 / 2) n)"
    using mt shape by simp
  from fallback_scan_latest [where cfg = cfg0 and f = fs0 and now = 5001 and code = "Some 0"
         and signal = None and t = 1000 and d = "''/app/recordings''" and entries = "[?u, ''tmp'']"
         and mt = "\<lambda>n. 8001 / 2", OF vars_exited0 c1 c2 nu st]
       rd dir stat shape nu
  have 1: "Sleep 500 \<in> set (added ?s (on_close cfg0 fs0 ?s ''j1'' 5001 (Some 0) None)) \<and>
     uuid_of (on_close cfg0 fs0 ?s ''j1'' 5001 (Some 0) None) ''j1'' = Some (Str ?u)"
    by auto
  have dire: "readdir fs_empty ''/app/recordings'' = Some []"
    by (simp add: fs_empty_def)
  from fallback_scan_latest [where cfg = cfg0 and f = fs_empty and now = 5001 and code = "Some 0"
         and signal = None and t = 1000 and d = "''/app/recordings''" and entries = "[]"
         and mt = "\<lambda>n. 0", OF vars_exited0 c1 c2 nu st]
       rd dire
  have 2: "uuid_of (on_close cfg0 fs_empty ?s ''j1'' 5001 (Some 0) None) ''j1'' = uuid_of ?s ''j1''"
    by auto
  from fallback_scan_latest [where cfg = cfg0 and f = "\<lparr>readdir = (\<lambda>d. None), mtimeMs = (\<lambda>p. None)\<rparr>"
         and now = 5001 and code = "Some 0" and signal = None and t = 1000 and d = "''/app/recordings''"
         and entries = "[]" and mt = "\<lambda>n. 0", OF vars_exited0 c1 c2 nu st]
       rd
  have 3: "uuid_of (on_close cfg0 \<lparr>readdir = (\<lambda>d. None), mtimeMs = (\<lambda>p. None)\<rparr> ?s ''j1'' 5001
                      (Some 0) None) ''j1'' = uuid_of ?s ''j1''"
    by auto
  let ?z = "''00000000-0000-0000-0000-000000000000''"
  have zs: "isUuidDirName ?z"
    by code_simp
  have pz: "path_join ''/app/recordings'' ?z = ''/app/recordings/00000000-0000-0000-0000-000000000000''"
    by code_simp
  have mz: "mtimeMs fs_dangling (path_join ''/app/recordings'' ?z) = None"
    unfolding pz by (simp add: fs_dangling_def)
  have dz: "\<exists>listed n. readdir fs_dangling ''/app/recordings'' = Some listed \<and> n \<in> set listed \<and>
              isUuidDirName n \<and> mtimeMs fs_dangling (path_join ''/app/recordings'' n) = None"
  proof (intro exI conjI)
    show "readdir fs_dangling ''/app/recordings'' = Some [?u, ?z]" by (simp add: fs_dangling_def)
    show "?z \<in> set [?u, ?z]" by simp
    show "isUuidDirName ?z" by (rule zs)
    show "mtimeMs fs_dangling (path_join ''/app/recordings'' ?z) = None" by (rule mz)
  qed
  have t0: "(1000 :: int) \<noteq> 0"
    by simp
  have rdd: "the_job (JOBS ?s) ''j1'' ''recordingsDir'' = Some (Str ''/app/recordings'') \<and>
               ''/app/recordings'' \<noteq> [] \<or>
             the_job (JOBS ?s) ''j1'' ''recordingsDir'' = None \<and>
               ''/app/recordings'' = DEFAULT_RECORDINGS_DIR cfg0"
    using rd by simp
  from fallback_scan_latest [where cfg = cfg0 and f = fs_dangling and now = 5001 and code = "Some 0"
         and signal = None and t = 1000 and d = "''/app/recordings''" and entries = "[]"
         and mt = "\<lambda>n. 0", OF vars_exited0 c1 c2 nu st t0 rdd]
       dz
  have 4: "uuid_of (on_close cfg0 fs_dangling ?s ''j1'' 5001 (Some 0) None) ''j1'' = uuid_of ?s ''j1''"
    by blast
  show ?thesis
    using 1 2 3 4 zs mz nu rd dir mt dire by simp
qed

text \<open>
  The claim as stated fails when an entry cannot be examined. The directory below holds
  a recording that qualifies (identifier shape, modified at 4000.5 ms, the job started
  at 1000 ms) and a second entry of the identifier shape for which \<open>statSync\<close> throws. The
  \<open>try\<close> around the whole scan catches the exception: the scan returns nothing, the
  identifier stays unset and the job ends as \<open>error\<close> with \<open>completed_without_uuid\<close>.
\<close>

theorem fallback_scan_dangling_counterexample:
  "readdir fs_dangling ''/app/recordings''
     = Some [''ABCDEF12-3456-7890-abcd-ef1234567890'', ''00000000-0000-0000-0000-000000000000''] \<and>
   isUuidDirName ''ABCDEF12-3456-7890-abcd-ef1234567890'' \<and>
   mtimeMs fs_dangling (path_join ''/app/recordings'' ''ABCDEF12-3456-7890-abcd-ef1234567890'')
     = Some (8001 / 2) \<and>
   of_int (1000 - 5000) \<le> (8001 / 2 :: rat) \<and>
   mtimeMs fs_dangling (path_join ''/app/recordings'' ''00000000-0000-0000-0000-000000000000'') = None \<and>
   the_job (JOBS (exited0 (Some 0) None)) ''j1'' ''startedAt'' = Some (Num 1000) \<and>
   uuid_of (on_close cfg0 fs_dangling (exited0 (Some 0) None) ''j1'' 5001 (Some 0) None) ''j1'' = None \<and>
   error_of (on_close cfg0 fs_dangling (exited0 (Some 0) None) ''j1'' 5001 (Some 0) None) ''j1''
     = Some (Str ''completed_without_uuid'')"
  by code_simp

section \<open>The watchdogs\<close>

lemma error_onData [simp]: "error_of (onData s jid now port src raw) j = error_of s j"
  by (simp add: error_of_def fld_onData_other)

lemma tick_idle:
  assumes "VARS s jid = Some v" and "\<not> now - lastActivity v > BOT_IDLE_TIMEOUT_MS cfg"
    and "\<not> now - startedAt v > BOT_MAX_TIMEOUT_MS cfg"
  shows "guard_tick cfg s jid now = s"
  using assms by (simp add: guard_tick_def Let_def)

lemma tick_off:
  assumes "VARS s jid = Some v" and "\<not> guard v"
  shows "guard_tick cfg s jid now = s"
  using assms by (simp add: guard_tick_def)

lemma tick_max:
  assumes "VARS s jid = Some v" and "guard v" and "now - startedAt v > BOT_MAX_TIMEOUT_MS cfg"
  shows "ChildKill jid ''SIGKILL'' \<in> set (added s (guard_tick cfg s jid now)) \<and>
         status_of (guard_tick cfg s jid now) jid = Some (Str ''timeout'') \<and>
         error_of (guard_tick cfg s jid now) jid = Some (Str ''max_time_exceeded'') \<and>
         VARS (guard_tick cfg s jid now) jid = Some (v\<lparr>guard := False\<rparr>)"
  using assms
  by (simp add: guard_tick_def Let_def added_def trace_pushLog status_setJob error_of_def
        fld_pushLog fld_setJob stop_guard_def)

lemma tick_idle_kill:
  assumes "VARS s jid = Some v" and "guard v" and "now - lastActivity v > BOT_IDLE_TIMEOUT_MS cfg"
    and "\<not> now - startedAt v > BOT_MAX_TIMEOUT_MS cfg"
  shows "ChildKill jid ''SIGKILL'' \<in> set (added s (guard_tick cfg s jid now)) \<and>
         status_of (guard_tick cfg s jid now) jid = Some (Str ''timeout'') \<and>
         error_of (guard_tick cfg s jid now) jid = Some (Str ''idle_timeout'') \<and>
         VARS (guard_tick cfg s jid now) jid = Some (v\<lparr>guard := False\<rparr>)"
  using assms
  by (simp add: guard_tick_def Let_def added_def trace_pushLog status_setJob error_of_def
        fld_pushLog fld_setJob stop_guard_def)

text \<open>
  The events that a stretch of steady output allows, and what the silent ones among
  them (events of other jobs, the \<open>spawn\<close> event, a retry of the port query) leave alone.
\<close>

lemma quiet_cases:
  assumes "quiet jid limit prev ((t, e) # es)"
  obtains (other) "job_of e \<noteq> jid" "quiet jid limit prev es"
    | (data) src raw port where "e = ChildData jid src raw port" "t - prev < limit" "quiet jid limit t es"
    | (tick) "e = GuardTick jid" "t - prev < limit" "quiet jid limit prev es"
    | (spawn) "e = ChildSpawn jid" "quiet jid limit prev es"
    | (retry) cname attempt hp where "e = PortRetry jid cname attempt hp" "quiet jid limit prev es"
  using assms by (cases e) (auto split: if_splits)

lemma step_silent:
  assumes "job_of e \<noteq> jid \<or> e = ChildSpawn jid \<or> e = PortRetry jid cname attempt hp"
  shows "VARS (step cfg s (t, e)) jid = VARS s jid \<and>
         status_of (step cfg s (t, e)) jid = status_of s jid \<and>
         error_of (step cfg s (t, e)) jid = error_of s jid"
proof (cases "job_of e \<noteq> jid")
  case True
  then have "JOBS (step cfg s (t, e)) jid = JOBS s jid" "VARS (step cfg s (t, e)) jid = VARS s jid"
    by (simp_all add: JOBS_step_other VARS_step_other)
  then show ?thesis by (simp add: status_of_def error_of_def the_job_def)
next
  case False
  with assms consider "e = ChildSpawn jid" | "e = PortRetry jid cname attempt hp" by blast
  then show ?thesis
  proof cases
    case 1
    then show ?thesis by (simp add: error_of_def on_spawn_def fld_pushLog)
  next
    case 2
    then show ?thesis by (simp add: error_of_def fld_ensureHostPort8080)
  qed
qed

lemma quiet_run:
  "VARS s jid = Some v \<Longrightarrow> quiet jid (BOT_IDLE_TIMEOUT_MS cfg) (lastActivity v) evs \<Longrightarrow>
   error_of (run cfg s evs) jid = error_of s jid \<or>
   error_of (run cfg s evs) jid = Some (Str ''max_time_exceeded'')"
proof (induction evs arbitrary: s v)
  case Nil
  then show ?case by (simp add: run_def)
next
  case (Cons te es)
  obtain t e where te: "te = (t, e)" by (cases te)
  have r: "run cfg s (te # es) = run cfg (step cfg s (t, e)) es"
    by (simp add: run_def te)
  have silent: ?case
    if q: "quiet jid (BOT_IDLE_TIMEOUT_MS cfg) (lastActivity v) es"
      and e: "job_of e \<noteq> jid \<or> e = ChildSpawn jid \<or> e = PortRetry jid cname attempt hp"
    for cname attempt hp
  proof -
    from step_silent [OF e, of cfg s t] Cons.prems(1)
    have v1: "VARS (step cfg s (t, e)) jid = Some v"
      and e1: "error_of (step cfg s (t, e)) jid = error_of s jid" by simp_all
    from Cons.IH [OF v1 q] e1 show ?thesis by (simp add: r)
  qed
  from Cons.prems(2) [unfolded te] show ?case
  proof (cases rule: quiet_cases)
    case other
    then show ?thesis using silent [of undefined undefined undefined] by simp
  next
    case spawn
    then show ?thesis using silent [of undefined undefined undefined] by simp
  next
    case (retry cname attempt hp)
    then show ?thesis using silent [of cname attempt hp] by simp
  next
    case (data src raw port)
    let ?s1 = "onData s jid t port src raw"
    have v1: "VARS ?s1 jid = Some (v\<lparr>lastActivity := t\<rparr>)"
      by (rule VARS_onData [OF Cons.prems(1)])
    from Cons.IH [OF v1] data(3)
    have "error_of (run cfg ?s1 es) jid = error_of ?s1 jid \<or>
          error_of (run cfg ?s1 es) jid = Some (Str ''max_time_exceeded'')" by simp
    then show ?thesis by (simp add: r data(1))
  next
    case tick
    let ?s1 = "guard_tick cfg s jid t"
    show ?thesis
    proof (cases "guard v \<and> t - startedAt v > BOT_MAX_TIMEOUT_MS cfg")
      case True
      with tick_max [OF Cons.prems(1), where now = t and cfg = cfg]
      have e1: "error_of ?s1 jid = Some (Str ''max_time_exceeded'')"
        and v1: "VARS ?s1 jid = Some (v\<lparr>guard := False\<rparr>)" by auto
      from Cons.IH [OF v1] tick(3) e1
      have "error_of (run cfg ?s1 es) jid = Some (Str ''max_time_exceeded'')" by auto
      then show ?thesis by (simp add: r tick(1))
    next
      case False
      then have "?s1 = s"
        using tick_off [OF Cons.prems(1), where now = t and cfg = cfg]
          tick_idle [OF Cons.prems(1), where now = t and cfg = cfg] tick(2)
        by (cases "guard v") auto
      with Cons.IH [OF Cons.prems(1) tick(3)] show ?thesis by (simp add: r tick(1))
    qed
  qed
qed

lemma quiet_young_run:
  "VARS s jid = Some v \<Longrightarrow> quiet jid (BOT_IDLE_TIMEOUT_MS cfg) (lastActivity v) evs \<Longrightarrow>
   young (BOT_MAX_TIMEOUT_MS cfg) (startedAt v) evs \<Longrightarrow>
   status_of (run cfg s evs) jid = status_of s jid \<and> error_of (run cfg s evs) jid = error_of s jid"
proof (induction evs arbitrary: s v)
  case Nil
  then show ?case by (simp add: run_def)
next
  case (Cons te es)
  obtain t e where te: "te = (t, e)" by (cases te)
  have r: "run cfg s (te # es) = run cfg (step cfg s (t, e)) es"
    by (simp add: run_def te)
  from Cons.prems(3) te have y: "\<not> t - startedAt v > BOT_MAX_TIMEOUT_MS cfg"
    and ys: "young (BOT_MAX_TIMEOUT_MS cfg) (startedAt v) es"
    by (auto simp: young_def)
  have silent: ?case
    if q: "quiet jid (BOT_IDLE_TIMEOUT_MS cfg) (lastActivity v) es"
      and e: "job_of e \<noteq> jid \<or> e = ChildSpawn jid \<or> e = PortRetry jid cname attempt hp"
    for cname attempt hp
  proof -
    from step_silent [OF e, of cfg s t] Cons.prems(1)
    have v1: "VARS (step cfg s (t, e)) jid = Some v"
      and e1: "error_of (step cfg s (t, e)) jid = error_of s jid"
      and s1: "status_of (step cfg s (t, e)) jid = status_of s jid" by simp_all
    from Cons.IH [OF v1 q ys] e1 s1 show ?thesis by (simp add: r)
  qed
  from Cons.prems(2) [unfolded te] show ?case
  proof (cases rule: quiet_cases)
    case other
    then show ?thesis using silent [of undefined undefined undefined] by simp
  next
    case spawn
    then show ?thesis using silent [of undefined undefined undefined] by simp
  next
    case (retry cname attempt hp)
    then show ?thesis using silent [of cname attempt hp] by simp
  next
    case (data src raw port)
    let ?s1 = "onData s jid t port src raw"
    have v1: "VARS ?s1 jid = Some (v\<lparr>lastActivity := t\<rparr>)"
      by (rule VARS_onData [OF Cons.prems(1)])
    from Cons.IH [OF v1] data(3) ys
    have "status_of (run cfg ?s1 es) jid = status_of ?s1 jid \<and>
          error_of (run cfg ?s1 es) jid = error_of ?s1 jid" by simp
    then show ?thesis by (simp add: r data(1))
  next
    case tick
    have "guard_tick cfg s jid t = s"
      using tick_idle [OF Cons.prems(1), where now = t and cfg = cfg] tick(2) y by simp
    with Cons.IH [OF Cons.prems(1) tick(3) ys] show ?thesis by (simp add: r tick(1))
  qed
qed

text \<open>
  What one run of the guard decides, and what steady output prevents. For a job under
  supervision: while every chunk and every run of the guard comes less than the idle
  limit after the latest chunk, whatever other jobs do in between, the idle watchdog
  never fires (the failure reason is left as it was unless the absolute watchdog sets
  it, and while the job is also within the absolute limit nothing is changed at all).
  At a run of the guard that finds the job silent for longer than the idle limit the
  worker is sent SIGKILL and the status is set to \<open>timeout\<close>, with reason \<open>idle_timeout\<close>; a
  job alive for longer than the absolute limit is sent SIGKILL with status \<open>timeout\<close> and
  reason \<open>max_time_exceeded\<close> whatever its output was (the absolute limit is tested first,
  so it also gives the reason when both limits are exceeded at the same run).
\<close>

lemma guard_decisions:
  assumes "VARS s jid = Some v"
  shows
   "(quiet jid (BOT_IDLE_TIMEOUT_MS cfg) (lastActivity v) evs \<longrightarrow>
       (error_of (run cfg s evs) jid = error_of s jid \<or>
        error_of (run cfg s evs) jid = Some (Str ''max_time_exceeded'')) \<and>
       (young (BOT_MAX_TIMEOUT_MS cfg) (startedAt v) evs \<longrightarrow>
          status_of (run cfg s evs) jid = status_of s jid \<and>
          error_of (run cfg s evs) jid = error_of s jid)) \<and>
    (guard v \<and> now - lastActivity v > BOT_IDLE_TIMEOUT_MS cfg \<longrightarrow>
       ChildKill jid ''SIGKILL'' \<in> set (added s (guard_tick cfg s jid now)) \<and>
       status_of (guard_tick cfg s jid now) jid = Some (Str ''timeout'') \<and>
       error_of (guard_tick cfg s jid now) jid =
         Some (Str (if now - startedAt v > BOT_MAX_TIMEOUT_MS cfg
                    then ''max_time_exceeded'' else ''idle_timeout''))) \<and>
    (guard v \<and> now - startedAt v > BOT_MAX_TIMEOUT_MS cfg \<longrightarrow>
       ChildKill jid ''SIGKILL'' \<in> set (added s (guard_tick cfg s jid now)) \<and>
       status_of (guard_tick cfg s jid now) jid = Some (Str ''timeout'') \<and>
       error_of (guard_tick cfg s jid now) jid = Some (Str ''max_time_exceeded''))"
  using quiet_run [OF assms, where cfg = cfg and evs = evs]
    quiet_young_run [OF assms, where cfg = cfg and evs = evs]
    tick_max [OF assms, where cfg = cfg and now = now]
    tick_idle_kill [OF assms, where cfg = cfg and now = now]
  by auto

text \<open>
  The sample job with a 2-minute idle limit: output every minute, with another job
  submitted and written to in between, keeps it \<open>running\<close>.
\<close>

lemma steady_output_sample:
  "status_of (run (cfg0\<lparr>BOT_IDLE_TIMEOUT_MS := 120000\<rparr>) running0
      [(61000, ChildData ''j1'' ''[bot:stdout]'' ''joining'' (\<lambda>c. None)),
       (62000, Submit ''j2'' (Str ''https://meet.example/xyz'', Undefined, Undefined) True
                 ''/app/run_bot.sh'' ''/app/recordings'' (Child (Some 4243))),
       (66000, GuardTick ''j1''),
       (121000, ChildData ''j1'' ''[bot:stderr]'' ''recording'' (\<lambda>c. None)),
       (150000, ChildData ''j2'' ''[bot:stdout]'' ''joining'' (\<lambda>c. None)),
       (181000, ChildData ''j1'' ''[bot:stdout]'' ''recording'' (\<lambda>c. None)),
       (186000, GuardTick ''j1'')]) ''j1'' = Some (Str ''running'')"
proof -
  let ?cfg = "cfg0\<lparr>BOT_IDLE_TIMEOUT_MS := 120000\<rparr>"
  let ?evs = "[(61000, ChildData ''j1'' ''[bot:stdout]'' ''joining'' (\<lambda>c. None)),
       (62000, Submit ''j2'' (Str ''https://meet.example/xyz'', Undefined, Undefined) True
                 ''/app/run_bot.sh'' ''/app/recordings'' (Child (Some 4243))),
       (66000, GuardTick ''j1''),
       (121000, ChildData ''j1'' ''[bot:stderr]'' ''recording'' (\<lambda>c. None)),
       (150000, ChildData ''j2'' ''[bot:stdout]'' ''joining'' (\<lambda>c. None)),
       (181000, ChildData ''j1'' ''[bot:stdout]'' ''recording'' (\<lambda>c. None)),
       (186000, GuardTick ''j1'')]"
  have r: "status_of running0 ''j1'' = Some (Str ''running'')"
    by (simp add: running0_def submit0_def status_post_jobs)
  have q: "quiet ''j1'' (BOT_IDLE_TIMEOUT_MS ?cfg) 1000 ?evs"
    by (simp add: cfg0_def)
  have y: "young (BOT_MAX_TIMEOUT_MS ?cfg) 1000 ?evs"
    by (simp add: cfg0_def young_def)
  show ?thesis
    using guard_decisions [OF vars_running0, where cfg = ?cfg and evs = ?evs and now = 0] q y r
    by simp
qed

text \<open>
  Claim C4 fails on the code. The guard does what the claim says at the moment it runs:
  it sends SIGKILL and stores status \<open>timeout\<close> with the reason. But the kill makes the
  child close, and the \<open>close\<close> handler then stores \<open>error\<close> with reason
  \<open>killed_by_SIGKILL\<close> over it: a job killed by a watchdog does not stay \<open>timeout\<close>. Below,
  the sample job is silent for longer than the idle limit of 15 minutes (first run),
  or is alive for longer than the absolute limit of 2 hours although it keeps writing
  (second run); in both the guard fires, the child exits on the signal, and the job
  ends as \<open>error\<close>.
\<close>

theorem watchdog_timeout_overwritten:
  "status_of (run cfg0 init_sys [submit0, (905000, GuardTick ''j1'')]) ''j1'' = Some (Str ''timeout'') \<and>
   error_of (run cfg0 init_sys [submit0, (905000, GuardTick ''j1'')]) ''j1''
     = Some (Str ''idle_timeout'') \<and>
   ChildKill ''j1'' ''SIGKILL'' \<in> set (trace (run cfg0 init_sys [submit0, (905000, GuardTick ''j1'')])) \<and>
   status_of (run cfg0 init_sys
       [submit0, (905000, GuardTick ''j1''), (905040, ChildExit ''j1'' None (Some ''SIGKILL'')),
        (905041, ChildClose ''j1'' None (Some ''SIGKILL'') fs0)]) ''j1'' = Some (Str ''error'') \<and>
   error_of (run cfg0 init_sys
       [submit0, (905000, GuardTick ''j1''), (905040, ChildExit ''j1'' None (Some ''SIGKILL'')),
        (905041, ChildClose ''j1'' None (Some ''SIGKILL'') fs0)]) ''j1''
     = Some (Str ''killed_by_SIGKILL'') \<and>
   error_of (run cfg0 init_sys
       [submit0, (7200000, ChildData ''j1'' ''[bot:stdout]'' ''recording'' (\<lambda>c. None)),
        (7205000, GuardTick ''j1'')]) ''j1'' = Some (Str ''max_time_exceeded'') \<and>
   status_of (run cfg0 init_sys
       [submit0, (7200000, ChildData ''j1'' ''[bot:stdout]'' ''recording'' (\<lambda>c. None)),
        (7205000, GuardTick ''j1''), (7205040, ChildExit ''j1'' None (Some ''SIGKILL'')),
        (7205041, ChildClose ''j1'' None (Some ''SIGKILL'') fs0)]) ''j1'' = Some (Str ''error'') \<and>
   error_of (run cfg0 init_sys
       [submit0, (7200000, ChildData ''j1'' ''[bot:stdout]'' ''recording'' (\<lambda>c. None)),
        (7205000, GuardTick ''j1''), (7205040, ChildExit ''j1'' None (Some ''SIGKILL'')),
        (7205041, ChildClose ''j1'' None (Some ''SIGKILL'') fs0)]) ''j1''
     = Some (Str ''killed_by_SIGKILL'')"
proof -
  have l: "BOT_IDLE_TIMEOUT_MS cfg0 = 900000" "BOT_MAX_TIMEOUT_MS cfg0 = 7200000"
    by (simp_all add: cfg0_def)
  have closes: "status_of (on_close cfg0 fs0 (on_exit s ''j1'' None (Some ''SIGKILL'')) ''j1'' t None
                             (Some ''SIGKILL'')) ''j1'' = Some (Str ''error'') \<and>
                error_of (on_close cfg0 fs0 (on_exit s ''j1'' None (Some ''SIGKILL'')) ''j1'' t None
                             (Some ''SIGKILL'')) ''j1'' = Some (Str ''killed_by_SIGKILL'')"
    if "VARS s ''j1'' = Some v" for s v t
  proof -
    have v2: "VARS (on_exit s ''j1'' None (Some ''SIGKILL'')) ''j1''
                = Some (v\<lparr>exitCodeFinal := None, exitSignalFinal := Some ''SIGKILL''\<rparr>)"
      using that by (simp add: on_exit_def)
    show ?thesis
      by (simp add: on_close_status [OF v2] on_close_error [OF v2] nullish_or_def sig_truthy_def
            exit_reason_def)
  qed
  let ?s1 = "guard_tick cfg0 running0 ''j1'' 905000"
  have k1: "ChildKill ''j1'' ''SIGKILL'' \<in> set (added running0 ?s1) \<and>
         status_of ?s1 ''j1'' = Some (Str ''timeout'') \<and>
         error_of ?s1 ''j1'' = Some (Str ''idle_timeout'') \<and>
         VARS ?s1 ''j1'' = Some (\<lparr>lastActivity = 1000, startedAt = 1000, guard = True,
           exitCodeFinal = None, exitSignalFinal = None\<rparr>\<lparr>guard := False\<rparr>)"
    by (rule tick_idle_kill [OF vars_running0]) (simp_all add: l)
  then have t1: "ChildKill ''j1'' ''SIGKILL'' \<in> set (trace ?s1)"
    by (auto simp: added_def dest: in_set_dropD)
  let ?d = "onData running0 ''j1'' 7200000 (\<lambda>c. None) ''[bot:stdout]'' ''recording''"
  have vd: "VARS ?d ''j1'' = Some (\<lparr>lastActivity = 1000, startedAt = 1000, guard = True,
           exitCodeFinal = None, exitSignalFinal = None\<rparr>\<lparr>lastActivity := 7200000\<rparr>)"
    by (rule VARS_onData [OF vars_running0])
  let ?s2 = "guard_tick cfg0 ?d ''j1'' 7205000"
  have k2: "ChildKill ''j1'' ''SIGKILL'' \<in> set (added ?d ?s2) \<and>
         status_of ?s2 ''j1'' = Some (Str ''timeout'') \<and>
         error_of ?s2 ''j1'' = Some (Str ''max_time_exceeded'') \<and>
         VARS ?s2 ''j1'' = Some (\<lparr>lastActivity = 1000, startedAt = 1000, guard = True,
           exitCodeFinal = None, exitSignalFinal = None\<rparr>\<lparr>lastActivity := 7200000\<rparr>\<lparr>guard := False\<rparr>)"
    by (rule tick_max [OF vd]) (simp_all add: l)
  from k1 have v1: "VARS ?s1 ''j1'' = Some (\<lparr>lastActivity = 1000, startedAt = 1000, guard = True,
           exitCodeFinal = None, exitSignalFinal = None\<rparr>\<lparr>guard := False\<rparr>)" by blast
  from k2 have v2: "VARS ?s2 ''j1'' = Some (\<lparr>lastActivity = 1000, startedAt = 1000, guard = True,
           exitCodeFinal = None, exitSignalFinal = None\<rparr>\<lparr>lastActivity := 7200000\<rparr>\<lparr>guard := False\<rparr>)"
    by blast
  have r1: "run cfg0 init_sys [submit0, (905000, GuardTick ''j1'')] = ?s1"
    by (simp add: run_def running0_def)
  have r2: "run cfg0 init_sys
       [submit0, (905000, GuardTick ''j1''), (905040, ChildExit ''j1'' None (Some ''SIGKILL'')),
        (905041, ChildClose ''j1'' None (Some ''SIGKILL'') fs0)]
     = on_close cfg0 fs0 (on_exit ?s1 ''j1'' None (Some ''SIGKILL'')) ''j1'' 905041 None (Some ''SIGKILL'')"
    by (simp add: run_def running0_def)
  have r3: "run cfg0 init_sys
       [submit0, (7200000, ChildData ''j1'' ''[bot:stdout]'' ''recording'' (\<lambda>c. None)),
        (7205000, GuardTick ''j1'')] = ?s2"
    by (simp add: run_def running0_def)
  have r4: "run cfg0 init_sys
       [submit0, (7200000, ChildData ''j1'' ''[bot:stdout]'' ''recording'' (\<lambda>c. None)),
        (7205000, GuardTick ''j1''), (7205040, ChildExit ''j1'' None (Some ''SIGKILL'')),
        (7205041, ChildClose ''j1'' None (Some ''SIGKILL'') fs0)]
     = on_close cfg0 fs0 (on_exit ?s2 ''j1'' None (Some ''SIGKILL'')) ''j1'' 7205041 None (Some ''SIGKILL'')"
    by (simp add: run_def running0_def)
  show ?thesis
    unfolding r1 r2 r3 r4
    using k1 t1 k2 closes [OF v1, of 905041] closes [OF v2, of 7205041] by blast
qed

section \<open>The log stream\<close>

text \<open>
  What \<open>pushLog\<close> sends: the line, once, to every handle in the job's \<open>clients\<close>, in the
  order of the set, and nothing of the buffer (see \<open>trace_pushLog\<close>). What the key check
  lets through without a key: \<open>/health\<close> and every path under \<open>/jobs/\<close> that ends in \<open>/logs\<close>.
\<close>

lemma logs_path_unchecked:
  "startsWith p ''/jobs/'' \<Longrightarrow> endsWith p ''/logs'' \<Longrightarrow>
   api_key_check cfg \<lparr>meth = m, path = p, x_api_key = k, parsed = b\<rparr> = None"
  by (simp add: api_key_check_def)

lemma key_checked:
  "path req \<noteq> ''/health'' \<Longrightarrow> \<not> endsWith (path req) ''/logs'' \<Longrightarrow>
   x_api_key req \<noteq> Some (API_KEY cfg) \<Longrightarrow>
   api_key_check cfg req = Some (Reply 401 [(''success'', Bool False), (''error'', Str ''unauthorized'')])"
  by (auto simp: api_key_check_def split: option.splits)

text \<open>
  No operation puts a handle into \<open>clients\<close>: the property is written once, as the empty
  set, when the job is created.
\<close>

lemma clients_step:
  "the_job (JOBS (step cfg s (now, e))) j ''clients'' = the_job (JOBS s) j ''clients'' \<or>
   the_job (JOBS (step cfg s (now, e))) j ''clients'' = Some (Handles [])"
proof (cases e)
  case (Submit jid body script_found runPath recordingsDir spawn)
  then show ?thesis
    by (simp add: post_jobs_def create_pending_def Let_def fld_setJob split: prod.splits spawned.splits)
next
  case (ChildSpawn jid)
  then show ?thesis by (simp add: on_spawn_def fld_pushLog)
next
  case (ChildData jid src raw port)
  then show ?thesis by (simp add: fld_onData_other)
next
  case (PortRetry jid cname attempt hp)
  then show ?thesis by (simp add: fld_ensureHostPort8080)
next
  case (GuardTick jid)
  then show ?thesis
    by (simp add: guard_tick_def Let_def fld_pushLog fld_setJob split: option.splits)
next
  case (ChildError jid err)
  then show ?thesis by (simp add: on_error_def fld_pushLog fld_setJob)
next
  case (ChildExit jid code signal)
  then show ?thesis by simp
next
  case (ChildClose jid code signal f)
  then show ?thesis
    by (simp add: on_close_def Let_def fld_pushLog fld_setJob split: option.splits)
next
  case (StopRequest jid w)
  then show ?thesis
    by (simp add: post_jobs_stop_def stopping_def fld_setJob split: option.splits prod.splits)
qed

lemma no_subscribers: "clients_of (the_job (JOBS (run cfg init_sys evs)) j) = []"
proof -
  have "clients_of (the_job (JOBS s) j) = [] \<Longrightarrow> clients_of (the_job (JOBS (run cfg s evs)) j) = []" for s
  proof (induction evs arbitrary: s)
    case Nil
    then show ?case by (simp add: run_def)
  next
    case (Cons te es)
    obtain t e where te: "te = (t, e)" by (cases te)
    have "clients_of (the_job (JOBS (step cfg s (t, e))) j) = []"
      using clients_step [of cfg s t e j] Cons.prems
      by (auto simp: clients_of_def)
    from Cons.IH [OF this] show ?case by (simp add: run_def te)
  qed
  then show ?thesis by (simp add: clients_of_def)
qed

text \<open>
  Claim C7 fails on the code. The key check exempts the paths of a log stream, and
  \<open>pushLog\<close> writes every line to the job's \<open>clients\<close>, but app.js registers no route for
  \<open>GET /jobs/:id/logs\<close>: the request passes the key check and is answered by no handler,
  so nothing ever subscribes (\<open>no_subscribers\<close>) and no line is ever delivered.
\<close>

theorem log_stream_route_missing:
  "api_key_check cfg0 \<lparr>meth = ''GET'', path = ''/jobs/j1/logs'', x_api_key = None, parsed = Passed\<rparr> = None \<and>
   route cfg0 \<lparr>meth = ''GET'', path = ''/jobs/j1/logs'', x_api_key = None, parsed = Passed\<rparr> = NotFound \<and>
   route cfg0 \<lparr>meth = ''GET'', path = ''/jobs/j1/status'', x_api_key = None, parsed = Passed\<rparr>
     = Rejected (Reply 401 [(''success'', Bool False), (''error'', Str ''unauthorized'')]) \<and>
   route cfg0 \<lparr>meth = ''GET'', path = ''/jobs/j1/status'', x_api_key = Some ''secret'', parsed = Passed\<rparr> = To JobStatus"
  by code_simp

end
